(* ===== verification/Prelude.thy ===== *)
theory Prelude
  imports Main "HOL-Library.Char_ord" "HOL-Library.List_Lexorder"
begin

text \<open>
  What every component shares.

  \<^item> \<open>stop\<close>: the ways a call of the linter can fail to return (a Python exception, or a loop
    that never ends).
  \<^item> \<open>report\<close>: one call of the \<open>error\<close> callback that every check takes; the file name is the
    same for a whole file and is added when the report is printed.
  \<^item> \<open>'a chk\<close>: the result of a check: the reports it made, in order, and then either the value
    it returned or the reason it did not return. Reports made before an exception are kept, as
    the code has already printed them.
  \<^item> decimal printing of integers (the format \<open>%d\<close>).
\<close>

named_theorems chk_ok \<open>facts that the reports of a check have a given property\<close>
named_theorems chk_total \<open>facts that a check returns\<close>

section \<open>Outcomes\<close>

datatype stop =
    IndexError
  | KeyError
  | AttributeError
  | AssertionError
  | ValueError string
  | SystemExit "string + int"   \<comment> \<open>the argument of \<open>sys.exit\<close>: a message or a status\<close>
  | Diverges

datatype report = Report (rline: int) (rcat: string) (rconf: int) (rmsg: string)

type_synonym 'a chk = "report list \<times> (stop + 'a)"

definition ret :: "'a \<Rightarrow> 'a chk" where
  "ret x = ([], Inr x)"

definition raise :: "stop \<Rightarrow> 'a chk" where
  "raise e = ([], Inl e)"

definition rep :: "int \<Rightarrow> string \<Rightarrow> int \<Rightarrow> string \<Rightarrow> unit chk" where
  "rep linenum category confidence message =
     ([Report linenum category confidence message], Inr ())"

definition bindC :: "'a chk \<Rightarrow> ('a \<Rightarrow> 'b chk) \<Rightarrow> 'b chk" where
  "bindC m f =
     (case snd m of
        Inl e \<Rightarrow> (fst m, Inl e)
      | Inr x \<Rightarrow> (fst m @ fst (f x), snd (f x)))"

definition thenC :: "unit chk \<Rightarrow> 'b chk \<Rightarrow> 'b chk" where
  "thenC m n = bindC m (\<lambda>_. n)"

definition whenC :: "bool \<Rightarrow> unit chk \<Rightarrow> unit chk" where
  "whenC b m = (if b then m else ret ())"

definition of_option :: "stop \<Rightarrow> 'a option \<Rightarrow> 'a chk" where
  "of_option e x = (case x of None \<Rightarrow> raise e | Some y \<Rightarrow> ret y)"

fun seqC :: "unit chk list \<Rightarrow> unit chk" where
  "seqC [] = ret ()"
| "seqC (m # ms) = thenC m (seqC ms)"

lemma chk_simps [simp]:
  "fst (ret x) = []" "snd (ret x) = Inr x"
  "fst (raise e) = []" "snd (raise e) = Inl e"
  "fst (rep l c k s) = [Report l c k s]" "snd (rep l c k s) = Inr ()"
  by (simp_all add: ret_def raise_def rep_def)

lemma bindC_ret [simp]: "bindC (ret x) f = f x"
  by (simp add: bindC_def)

lemma bindC_raise [simp]: "bindC (raise e) f = raise e"
  by (simp add: bindC_def raise_def)

lemma bindC_unit_right [simp]: "bindC m ret = m"
  by (cases m) (auto simp: bindC_def split: sum.splits)

lemma bindC_assoc: "bindC (bindC m f) g = bindC m (\<lambda>x. bindC (f x) g)"
  by (auto simp: bindC_def split: sum.splits)

lemma fst_bindC:
  "fst (bindC m f) = fst m @ (case snd m of Inl e \<Rightarrow> [] | Inr x \<Rightarrow> fst (f x))"
  by (auto simp: bindC_def split: sum.splits)

lemma snd_bindC:
  "snd (bindC m f) = (case snd m of Inl e \<Rightarrow> Inl e | Inr x \<Rightarrow> snd (f x))"
  by (auto simp: bindC_def split: sum.splits)

lemma whenC_simps [simp]: "whenC True m = m" "whenC False m = ret ()"
  by (simp_all add: whenC_def)

section \<open>Properties of every report of a check, and returning\<close>

definition all_reports :: "(report \<Rightarrow> bool) \<Rightarrow> 'a chk \<Rightarrow> bool" where
  "all_reports P m \<longleftrightarrow> (\<forall>r \<in> set (fst m). P r)"

definition returns :: "'a chk \<Rightarrow> bool" where
  "returns m \<longleftrightarrow> \<not> isl (snd m)"

lemma all_reports_ret [chk_ok, simp]: "all_reports P (ret x)"
  by (simp add: all_reports_def)

lemma all_reports_raise [chk_ok, simp]: "all_reports P (raise e)"
  by (simp add: all_reports_def)

lemma all_reports_rep [simp]: "all_reports P (rep l c k s) \<longleftrightarrow> P (Report l c k s)"
  by (simp add: all_reports_def)

lemma all_reports_bindC [chk_ok]:
  assumes "all_reports P m" and "\<And>x. snd m = Inr x \<Longrightarrow> all_reports P (f x)"
  shows "all_reports P (bindC m f)"
  using assms by (cases "snd m") (auto simp: all_reports_def fst_bindC)

lemma all_reports_thenC [chk_ok]:
  "all_reports P m \<Longrightarrow> all_reports P n \<Longrightarrow> all_reports P (thenC m n)"
  by (simp add: thenC_def all_reports_bindC)

lemma all_reports_whenC [chk_ok]:
  "(b \<Longrightarrow> all_reports P m) \<Longrightarrow> all_reports P (whenC b m)"
  by (simp add: whenC_def)

lemma all_reports_of_option [chk_ok, simp]: "all_reports P (of_option e x)"
  by (simp add: of_option_def split: option.splits)

lemma all_reports_seqC [chk_ok]:
  "(\<And>m. m \<in> set ms \<Longrightarrow> all_reports P m) \<Longrightarrow> all_reports P (seqC ms)"
  by (induction ms) (auto intro: all_reports_thenC)

lemma all_reports_seqC_Nil [chk_ok, simp]: "all_reports P (seqC [])"
  by simp

lemma all_reports_seqC_Cons [chk_ok]:
  "all_reports P m \<Longrightarrow> all_reports P (seqC ms) \<Longrightarrow> all_reports P (seqC (m # ms))"
  by (simp add: all_reports_thenC)

lemma all_reports_if [chk_ok]:
  "(b \<Longrightarrow> all_reports P m) \<Longrightarrow> (\<not> b \<Longrightarrow> all_reports P n) \<Longrightarrow>
     all_reports P (if b then m else n)"
  by simp

lemma all_reports_case_option [chk_ok]:
  "(x = None \<Longrightarrow> all_reports P m) \<Longrightarrow> (\<And>y. x = Some y \<Longrightarrow> all_reports P (f y)) \<Longrightarrow>
     all_reports P (case x of None \<Rightarrow> m | Some y \<Rightarrow> f y)"
  by (cases x) auto

lemma all_reports_case_sum [chk_ok]:
  "(\<And>e. x = Inl e \<Longrightarrow> all_reports P (f e)) \<Longrightarrow> (\<And>y. x = Inr y \<Longrightarrow> all_reports P (g y)) \<Longrightarrow>
     all_reports P (case x of Inl e \<Rightarrow> f e | Inr y \<Rightarrow> g y)"
  by (cases x) auto

lemma all_reports_case_prod [chk_ok]:
  "(\<And>a b. x = (a, b) \<Longrightarrow> all_reports P (f a b)) \<Longrightarrow> all_reports P (case x of (a, b) \<Rightarrow> f a b)"
  by (cases x) auto

lemma all_reports_mono:
  "all_reports P m \<Longrightarrow> (\<And>r. P r \<Longrightarrow> Q r) \<Longrightarrow> all_reports Q m"
  by (auto simp: all_reports_def)

lemma returns_simps [simp]:
  "returns (ret x)" "\<not> returns (raise e)" "returns (rep l c k s)"
  by (simp_all add: returns_def)

lemma returns_bindC [chk_total]:
  assumes "returns m" and "\<And>x. snd m = Inr x \<Longrightarrow> returns (f x)"
  shows "returns (bindC m f)"
  using assms by (auto simp: returns_def snd_bindC split: sum.splits)

lemma returns_thenC [chk_total]: "returns m \<Longrightarrow> returns n \<Longrightarrow> returns (thenC m n)"
  by (simp add: thenC_def returns_bindC)

lemma returns_whenC [chk_total]: "(b \<Longrightarrow> returns m) \<Longrightarrow> returns (whenC b m)"
  by (simp add: whenC_def)

lemma returns_if [chk_total]:
  "(b \<Longrightarrow> returns m) \<Longrightarrow> (\<not> b \<Longrightarrow> returns n) \<Longrightarrow> returns (if b then m else n)"
  by simp

lemma returns_case_option [chk_total]:
  "(x = None \<Longrightarrow> returns m) \<Longrightarrow> (\<And>y. x = Some y \<Longrightarrow> returns (f y)) \<Longrightarrow>
     returns (case x of None \<Rightarrow> m | Some y \<Rightarrow> f y)"
  by (cases x) auto

lemma returns_seqC_Cons [chk_total]:
  "returns m \<Longrightarrow> returns (seqC ms) \<Longrightarrow> returns (seqC (m # ms))"
  by (simp add: returns_thenC)

lemma returns_seqC_Nil [chk_total, simp]: "returns (seqC [])"
  by simp

lemma returns_seqC [chk_total]: "(\<And>m. m \<in> set ms \<Longrightarrow> returns m) \<Longrightarrow> returns (seqC ms)"
  by (induction ms) (auto intro: returns_thenC)

lemma snd_thenC: "returns m \<Longrightarrow> snd (thenC m n) = snd n"
  by (auto simp: returns_def thenC_def snd_bindC split: sum.splits)

lemma fst_thenC: "returns m \<Longrightarrow> fst (thenC m n) = fst m @ fst n"
  by (auto simp: returns_def thenC_def fst_bindC split: sum.splits)

lemma returnsE: "returns m \<Longrightarrow> \<exists>rs x. m = (rs, Inr x)"
  by (cases m) (auto simp: returns_def isl_def, meson sum.exhaust)

section \<open>Decimal printing\<close>

fun str_of_nat :: "nat \<Rightarrow> string" where
  "str_of_nat n =
     (if n < 10 then [char_of (48 + n)]
      else str_of_nat (n div 10) @ [char_of (48 + n mod 10)])"

declare str_of_nat.simps [simp del]

definition str_of_int :: "int \<Rightarrow> string" where
  "str_of_int i = (if i < 0 then CHR ''-'' # str_of_nat (nat (- i)) else str_of_nat (nat i))"

section \<open>Dictionaries whose order may matter: association lists\<close>

fun assoc_set :: "'k \<Rightarrow> 'v \<Rightarrow> ('k \<times> 'v) list \<Rightarrow> ('k \<times> 'v) list" where
  "assoc_set k v [] = [(k, v)]"
| "assoc_set k v ((k', v') # d) = (if k = k' then (k, v) # d else (k', v') # assoc_set k v d)"

lemma map_of_assoc_set [simp]: "map_of (assoc_set k v d) = (map_of d)(k \<mapsto> v)"
  by (induction d) (auto simp: fun_eq_iff)

lemma set_keys_assoc_set [simp]: "fst ` set (assoc_set k v d) = insert k (fst ` set d)"
proof (induction d)
  case (Cons a d)
  then show ?case by (cases a) (simp add: insert_commute)
qed simp

lemma distinct_assoc_set [simp]:
  "distinct (map fst d) \<Longrightarrow> distinct (map fst (assoc_set k v d))"
proof (induction d)
  case (Cons a d)
  have "fst ` set (assoc_set k v d) = insert k (fst ` set d)" by simp
  with Cons show ?case by (cases a) auto
qed simp

end
