(* ===== verification/PyString.thy ===== *)
theory PyString
  imports Prelude
begin

text \<open>
  The methods of Python's string type that the linter uses. A line of source text is a
  \<open>string\<close> whose characters are the code points below 255, and the last character, \<open>CHR 0xFF\<close>,
  stands for U+FFFD, the replacement character that decoding invalid UTF-8 gives (it is neither a
  letter nor white space). The lines that the program decodes from UTF-8 are \<open>unicode\<close> objects,
  and on those code points the tables below (white space, letters and digits, lower case) are the
  ones Python 2 uses for them. Other code points are outside the model.

  \<open>find\<close> and \<open>rfind\<close> return -1 when there is no occurrence, so their results are integers.
  Slices clamp their bounds and count negative bounds from the end.
\<close>

section \<open>Characters\<close>

definition ord_of :: "char \<Rightarrow> int" where
  "ord_of c = of_char c"

definition py_isspace :: "char \<Rightarrow> bool" where
  "py_isspace c =
     (let n = ord_of c in (9 \<le> n \<and> n \<le> 13) \<or> (28 \<le> n \<and> n \<le> 32) \<or> n = 133 \<or> n = 160)"

text \<open>\<open>string.whitespace\<close>, a constant of ASCII characters.\<close>

definition ascii_space :: "char \<Rightarrow> bool" where
  "ascii_space c = (let n = ord_of c in (9 \<le> n \<and> n \<le> 13) \<or> n = 32)"

definition ascii_upper :: "char \<Rightarrow> bool" where
  "ascii_upper c = (65 \<le> ord_of c \<and> ord_of c \<le> 90)"

definition ascii_lower :: "char \<Rightarrow> bool" where
  "ascii_lower c = (97 \<le> ord_of c \<and> ord_of c \<le> 122)"

definition ascii_digit :: "char \<Rightarrow> bool" where
  "ascii_digit c = (48 \<le> ord_of c \<and> ord_of c \<le> 57)"

definition py_isalnum :: "char \<Rightarrow> bool" where
  "py_isalnum c =
     (ascii_lower c \<or> ascii_upper c \<or> ascii_digit c \<or>
      (let n = ord_of c
       in n = 170 \<or> n = 178 \<or> n = 179 \<or> n = 181 \<or> n = 185 \<or> n = 186 \<or>
          (188 \<le> n \<and> n \<le> 190) \<or> (192 \<le> n \<and> n \<noteq> 215 \<and> n \<noteq> 247 \<and> n \<noteq> 255)))"

definition lower_char :: "char \<Rightarrow> char" where
  "lower_char c =
     (let n = ord_of c
      in if ascii_upper c \<or> (192 \<le> n \<and> n \<le> 222 \<and> n \<noteq> 215) then char_of (n + 32) else c)"

definition upper_char :: "char \<Rightarrow> char" where
  "upper_char c = (if ascii_lower c then char_of (ord_of c - 32) else c)"

definition py_lower :: "string \<Rightarrow> string" where
  "py_lower s = map lower_char s"

text \<open>\<open>upper\<close> is used on file names only, which are byte strings: ASCII letters change.\<close>

definition py_upper :: "string \<Rightarrow> string" where
  "py_upper s = map upper_char s"

section \<open>Prefixes, suffixes and slices\<close>

definition startswith :: "string \<Rightarrow> string \<Rightarrow> bool" where
  "startswith s p = (take (length p) s = p)"

definition endswith :: "string \<Rightarrow> string \<Rightarrow> bool" where
  "endswith s p = (length p \<le> length s \<and> drop (length s - length p) s = p)"

definition clamp_index :: "nat \<Rightarrow> int \<Rightarrow> nat" where
  "clamp_index n i = (if i < 0 then nat (int n + i) else min n (nat i))"

definition slice_from :: "'a list \<Rightarrow> int \<Rightarrow> 'a list" where
  "slice_from s a = drop (clamp_index (length s) a) s"

definition slice_to :: "'a list \<Rightarrow> int \<Rightarrow> 'a list" where
  "slice_to s b = take (clamp_index (length s) b) s"

definition py_get :: "'a list \<Rightarrow> int \<Rightarrow> 'a option" where
  "py_get xs i =
     (let j = (if i < 0 then int (length xs) + i else i)
      in if 0 \<le> j \<and> j < int (length xs) then Some (xs ! nat j) else None)"

lemma startswith_append [simp]: "startswith (p @ s) p"
  by (simp add: startswith_def)

lemma startswith_iff: "startswith s p \<longleftrightarrow> (\<exists>t. s = p @ t)"
  by (metis append_take_drop_id startswith_append startswith_def)

lemma endswith_append [simp]: "endswith (s @ p) p"
  by (simp add: endswith_def)

lemma endswith_iff: "endswith s p \<longleftrightarrow> (\<exists>t. s = t @ p)"
  by (metis append_take_drop_id endswith_append endswith_def)

lemma slice_to_append [simp]: "slice_to (s @ p) (int (length s)) = s"
  by (simp add: slice_to_def clamp_index_def)

text \<open>\<open>s[:-len(p)]\<close> drops a non-empty suffix, but returns the empty string for an empty one.\<close>

lemma slice_to_drop_suffix: "p \<noteq> [] \<Longrightarrow> slice_to (s @ p) (- int (length p)) = s"
  by (simp add: slice_to_def clamp_index_def)

lemma slice_to_minus_zero: "slice_to s (- int (length [])) = []"
  by (simp add: slice_to_def clamp_index_def)

section \<open>Searching\<close>

fun find_idx :: "string \<Rightarrow> string \<Rightarrow> nat option" where
  "find_idx sub [] = (if sub = [] then Some 0 else None)"
| "find_idx sub (c # s) =
     (if startswith (c # s) sub then Some 0 else map_option Suc (find_idx sub s))"

definition py_find :: "string \<Rightarrow> string \<Rightarrow> int" where
  "py_find s sub = (case find_idx sub s of None \<Rightarrow> -1 | Some n \<Rightarrow> int n)"

text \<open>\<open>s.find(sub, start)\<close> for a non-negative start that does not pass the end.\<close>

definition py_find_at :: "string \<Rightarrow> string \<Rightarrow> nat \<Rightarrow> int" where
  "py_find_at s sub start =
     (if length s < start then -1
      else case find_idx sub (drop start s) of None \<Rightarrow> -1 | Some n \<Rightarrow> int (start + n))"

definition contains :: "string \<Rightarrow> string \<Rightarrow> bool" where
  "contains s sub = (find_idx sub s \<noteq> None)"

fun rfind_char_nat :: "char \<Rightarrow> string \<Rightarrow> nat option" where
  "rfind_char_nat c [] = None"
| "rfind_char_nat c (d # s) =
     (case rfind_char_nat c s of
        Some n \<Rightarrow> Some (Suc n)
      | None \<Rightarrow> (if d = c then Some 0 else None))"

definition py_rfind_char :: "string \<Rightarrow> char \<Rightarrow> int" where
  "py_rfind_char s c = (case rfind_char_nat c s of None \<Rightarrow> -1 | Some n \<Rightarrow> int n)"

lemma find_idx_Some:
  "find_idx sub s = Some n \<Longrightarrow> n \<le> length s \<and> startswith (drop n s) sub \<and>
     (\<forall>m < n. \<not> startswith (drop m s) sub)"
proof (induction sub s arbitrary: n rule: find_idx.induct)
  case (2 sub c s)
  show ?case
  proof (cases "startswith (c # s) sub")
    case False
    with "2.prems" obtain k where k: "find_idx sub s = Some k" "n = Suc k" by auto
    with "2.IH" [OF False k(1)] False show ?thesis by (auto simp: less_Suc_eq_0_disj)
  qed (use "2.prems" in auto)
qed (auto simp: startswith_def split: if_splits)

lemma find_idx_None: "find_idx sub s = None \<Longrightarrow> \<not> startswith (drop n s) sub"
proof (induction sub s arbitrary: n rule: find_idx.induct)
  case (2 sub c s)
  then show ?case by (cases n) (auto split: if_splits)
qed (auto simp: startswith_def split: if_splits)

lemma contains_iff: "contains s sub \<longleftrightarrow> (\<exists>a b. s = a @ sub @ b)"
proof
  assume "contains s sub"
  then obtain n where "find_idx sub s = Some n" by (auto simp: contains_def)
  then have "startswith (drop n s) sub" by (blast dest: find_idx_Some)
  then show "\<exists>a b. s = a @ sub @ b"
    by (metis append_take_drop_id startswith_iff)
next
  assume "\<exists>a b. s = a @ sub @ b"
  then obtain a b where "s = a @ sub @ b" by blast
  then have "startswith (drop (length a) s) sub" by simp
  then show "contains s sub"
    unfolding contains_def using find_idx_None by blast
qed

lemma py_find_neg_iff: "py_find s sub = -1 \<longleftrightarrow> \<not> contains s sub"
  by (auto simp: py_find_def contains_def split: option.splits)

lemma py_find_ge: "-1 \<le> py_find s sub"
  by (simp add: py_find_def split: option.splits)

lemma contains_char: "contains s [c] \<longleftrightarrow> c \<in> set s"
  by (auto simp: contains_iff in_set_conv_decomp)

lemma rfind_char_None [simp]: "rfind_char_nat c s = None \<longleftrightarrow> c \<notin> set s"
  by (induction s) (auto split: option.splits)

lemma rfind_char_Some:
  "rfind_char_nat c s = Some n \<Longrightarrow>
     n < length s \<and> s ! n = c \<and> c \<notin> set (drop (Suc n) s)"
proof (induction s arbitrary: n)
  case (Cons d s)
  then show ?case by (auto split: option.splits if_splits)
qed simp

section \<open>Splitting, joining, replacing and counting\<close>

fun cons_hd :: "'a \<Rightarrow> 'a list list \<Rightarrow> 'a list list" where
  "cons_hd c [] = [[c]]"
| "cons_hd c (x # xs) = (c # x) # xs"

text \<open>\<open>s.split(sep)\<close> for a non-empty separator (an empty one raises ValueError in Python and
  does not occur).\<close>

function split_on :: "string \<Rightarrow> string \<Rightarrow> string list" where
  "split_on sep [] = [[]]"
| "split_on sep (c # s) =
     (if sep \<noteq> [] \<and> startswith (c # s) sep then [] # split_on sep (drop (length sep - 1) s)
      else cons_hd c (split_on sep s))"
  by pat_completeness auto
termination
  by (relation "measure (\<lambda>(sep, s). length s)") auto

fun join :: "string \<Rightarrow> string list \<Rightarrow> string" where
  "join sep [] = []"
| "join sep [x] = x"
| "join sep (x # y # xs) = x @ sep @ join sep (y # xs)"

text \<open>\<open>s.replace(a, b)\<close> is \<open>b.join(s.split(a))\<close>, and \<open>s.count(a)\<close> the number of separators
  that the split removes: both scan from the left without overlap.\<close>

definition py_replace :: "string \<Rightarrow> string \<Rightarrow> string \<Rightarrow> string" where
  "py_replace s a b = join b (split_on a s)"

definition py_count :: "string \<Rightarrow> string \<Rightarrow> int" where
  "py_count s a = int (length (split_on a s)) - 1"

text \<open>\<open>s.split(sep, 1)[0]\<close>: the text before the first separator.\<close>

definition before_first :: "string \<Rightarrow> string \<Rightarrow> string" where
  "before_first s sep = hd (split_on sep s)"

lemma cons_hd_neq_Nil [simp]: "cons_hd c xs \<noteq> []"
  by (cases xs) auto

lemma length_cons_hd [simp]: "xs \<noteq> [] \<Longrightarrow> length (cons_hd c xs) = length xs"
  by (cases xs) auto

lemma split_on_neq_Nil [simp]: "split_on sep s \<noteq> []"
  by (cases s) auto

lemma join_cons_hd: "xs \<noteq> [] \<Longrightarrow> join sep (cons_hd c xs) = c # join sep xs"
  by (cases xs; cases "tl xs") auto

lemma join_Cons: "xs \<noteq> [] \<Longrightarrow> join sep (x # xs) = x @ sep @ join sep xs"
  by (cases xs) auto

lemma join_split_on: "join sep (split_on sep s) = s"
proof (induction sep s rule: split_on.induct)
  case (2 sep c s)
  show ?case
  proof (cases "sep \<noteq> [] \<and> startswith (c # s) sep")
    case True
    then obtain d sep' where sep: "sep = d # sep'" by (cases sep) auto
    with True have "s = sep' @ drop (length sep') s" "c = d"
      by (auto simp: startswith_def) (metis append_take_drop_id)
    with "2.IH"(1) [OF True] True sep show ?thesis
      by (simp add: join_Cons)
  next
    case False
    then have "split_on sep (c # s) = cons_hd c (split_on sep s)"
      by (simp only: split_on.simps if_False)
    with "2.IH"(2) [OF False] show ?thesis by (simp add: join_cons_hd)
  qed
qed simp

lemma py_count_nonneg [simp]: "0 \<le> py_count s a"
proof -
  have "0 < length (split_on a s)" by simp
  then show ?thesis unfolding py_count_def by linarith
qed

lemma py_count_char: "py_count s [c] = int (count_list s c)"
proof (induction s)
  case (Cons d s)
  then show ?case
    by (auto simp: py_count_def startswith_def)
qed (simp add: py_count_def)

lemma split_on_absent: "\<not> contains s sep \<Longrightarrow> split_on sep s = [s]"
proof (induction s)
  case (Cons c s)
  from Cons.prems have n: "\<not> startswith (c # s) sep" and "\<not> contains s sep"
    by (auto simp: contains_def split: if_splits)
  with Cons.IH show ?case by simp
qed simp

lemma py_replace_absent: "\<not> contains s a \<Longrightarrow> py_replace s a b = s"
  by (simp add: py_replace_def split_on_absent)

lemma py_count_absent: "\<not> contains s a \<Longrightarrow> py_count s a = 0"
  by (simp add: py_count_def split_on_absent)

lemma split_on_char_no_sep:
  "x \<in> set (split_on [c] s) \<Longrightarrow> c \<notin> set x"
proof (induction s arbitrary: x)
  case (Cons d s)
  show ?case
  proof (cases "d = c")
    case True
    with Cons show ?thesis by (auto simp: startswith_def)
  next
    case False
    obtain y ys where ys: "split_on [c] s = y # ys"
      by (cases "split_on [c] s") auto
    with False Cons show ?thesis by (auto simp: startswith_def)
  qed
qed simp

lemma py_replace_char: "py_replace s [c] [d] = map (\<lambda>x. if x = c then d else x) s"
proof (induction s)
  case (Cons x s)
  then show ?case
    by (auto simp: py_replace_def startswith_def join_Cons join_cons_hd)
qed (simp add: py_replace_def)

lemma split_on_char_append:
  "c \<notin> set x \<Longrightarrow> split_on [c] (x @ c # s) = x # split_on [c] s"
  by (induction x) (auto simp: startswith_def)

lemma split_on_join:
  "\<forall>x \<in> set xs. c \<notin> set x \<Longrightarrow> xs \<noteq> [] \<Longrightarrow> split_on [c] (join [c] xs) = xs"
proof (induction xs)
  case (Cons x xs)
  then show ?case
    by (cases xs) (auto simp: split_on_absent contains_char split_on_char_append)
qed simp

section \<open>Stripping and splitting at white space\<close>

definition lstrip_set :: "(char \<Rightarrow> bool) \<Rightarrow> string \<Rightarrow> string" where
  "lstrip_set p s = dropWhile p s"

definition rstrip_set :: "(char \<Rightarrow> bool) \<Rightarrow> string \<Rightarrow> string" where
  "rstrip_set p s = rev (dropWhile p (rev s))"

definition strip_set :: "(char \<Rightarrow> bool) \<Rightarrow> string \<Rightarrow> string" where
  "strip_set p s = rstrip_set p (lstrip_set p s)"

definition py_strip :: "string \<Rightarrow> string" where
  "py_strip s = strip_set py_isspace s"

definition py_lstrip :: "string \<Rightarrow> string" where
  "py_lstrip s = lstrip_set py_isspace s"

text \<open>\<open>s.split()\<close>: the maximal runs of characters that are not white space.\<close>

function split_ws :: "string \<Rightarrow> string list" where
  "split_ws [] = []"
| "split_ws (c # s) =
     (if py_isspace c then split_ws s
      else (c # takeWhile (\<lambda>d. \<not> py_isspace d) s)
             # split_ws (dropWhile (\<lambda>d. \<not> py_isspace d) s))"
  by pat_completeness auto
termination
  by (relation "measure length") (auto simp: length_dropWhile_le le_imp_less_Suc)

lemma split_ws_tokens: "w \<in> set (split_ws s) \<Longrightarrow> w \<noteq> [] \<and> (\<forall>c \<in> set w. \<not> py_isspace c)"
proof (induction s rule: split_ws.induct)
  case (2 c s)
  show ?case
  proof (cases "py_isspace c")
    case False
    with "2.prems" consider "w = c # takeWhile (\<lambda>d. \<not> py_isspace d) s"
      | "w \<in> set (split_ws (dropWhile (\<lambda>d. \<not> py_isspace d) s))" by auto
    then show ?thesis
    proof cases
      case 1
      with False show ?thesis by (metis list.distinct(1) set_ConsD set_takeWhileD)
    next
      case 2
      then show ?thesis by (rule "2.IH"(2) [OF False])
    qed
  next
    case True
    with "2.prems" have "w \<in> set (split_ws s)" by simp
    then show ?thesis by (rule "2.IH"(1) [OF True])
  qed
qed simp

lemma split_ws_Nil_iff: "split_ws s = [] \<longleftrightarrow> (\<forall>c \<in> set s. py_isspace c)"
  by (induction s) auto

text \<open>\<open>IsBlankLine\<close>'s test \<open>not line or line.isspace()\<close> is over characters.\<close>

definition all_space :: "string \<Rightarrow> bool" where
  "all_space s = list_all py_isspace s"

lemma strip_Nil_iff: "py_strip s = [] \<longleftrightarrow> all_space s"
proof
  assume "py_strip s = []"
  then have "dropWhile py_isspace (rev (dropWhile py_isspace s)) = []"
    by (simp add: py_strip_def strip_set_def rstrip_set_def lstrip_set_def)
  then have "\<forall>c \<in> set (dropWhile py_isspace s). py_isspace c" by simp
  then have "dropWhile py_isspace s = []"
    by (metis hd_dropWhile hd_in_set)
  then show "all_space s" by (simp add: all_space_def list_all_iff)
next
  assume "all_space s"
  then show "py_strip s = []"
    by (auto simp: py_strip_def strip_set_def rstrip_set_def lstrip_set_def all_space_def
        list_all_iff dest: set_dropWhileD)
qed

end
