(* ===== verification/PyPath.thy ===== *)
theory PyPath
  imports PyString "HOL-Library.Sublist"
begin

text \<open>
  The functions of \<open>os.path\<close> (POSIX) that the linter calls, on byte strings, and the operating
  system as far as the program asks it: the working directory, which paths exist, and the text
  of the files (decoded from UTF-8; \<open>None\<close> when opening the file raises \<open>IOError\<close>).
  \<open>key_order\<close> is the order in which the interpreter iterates over a dictionary whose keys were
  inserted in the given order: Python 2 leaves it unspecified.
\<close>

record os =
  cwd :: string
  path_exists :: "string \<Rightarrow> bool"
  file_text :: "string \<Rightarrow> string option"
  stdin_text :: string
  linesep :: string
  key_order :: "string list \<Rightarrow> string list"

abbreviation "slash \<equiv> CHR ''/''"

definition path_join :: "string \<Rightarrow> string \<Rightarrow> string" where
  "path_join a b =
     (if startswith b ''/'' then b
      else if a = [] \<or> endswith a ''/'' then a @ b
      else a @ ''/'' @ b)"

definition last_slash :: "string \<Rightarrow> nat" where
  "last_slash p = (case rfind_char_nat slash p of None \<Rightarrow> 0 | Some i \<Rightarrow> Suc i)"

definition dirname :: "string \<Rightarrow> string" where
  "dirname p =
     (let head = take (last_slash p) p
      in if list_all ((=) slash) head then head else rstrip_set ((=) slash) head)"

definition path_split :: "string \<Rightarrow> string \<times> string" where
  "path_split p = (dirname p, drop (last_slash p) p)"

text \<open>A leading run of dots belongs to the root of the name, not to the extension.\<close>

definition splitext :: "string \<Rightarrow> string \<times> string" where
  "splitext p =
     (case rfind_char_nat CHR ''.'' p of
        None \<Rightarrow> (p, [])
      | Some dot \<Rightarrow>
          if last_slash p \<le> dot \<and>
             list_ex (\<lambda>c. c \<noteq> CHR ''.'') (take (dot - last_slash p) (drop (last_slash p) p))
          then (take dot p, drop dot p)
          else (p, []))"

fun common_prefix :: "string \<Rightarrow> string \<Rightarrow> string" where
  "common_prefix (c # s) (d # t) = (if c = d then c # common_prefix s t else [])"
| "common_prefix _ _ = []"

definition commonprefix :: "string \<Rightarrow> string \<Rightarrow> string" where
  "commonprefix a b = common_prefix (min a b) (max a b)"

fun normal_comps :: "bool \<Rightarrow> string list \<Rightarrow> string list \<Rightarrow> string list" where
  "normal_comps rooted acc [] = acc"
| "normal_comps rooted acc (c # cs) =
     normal_comps rooted
       (if c = [] \<or> c = ''.'' then acc
        else if c \<noteq> ''..'' \<or> (\<not> rooted \<and> acc = []) \<or> (acc \<noteq> [] \<and> last acc = ''..'')
             then acc @ [c]
        else if acc \<noteq> [] then butlast acc
        else acc) cs"

definition initial_slashes :: "string \<Rightarrow> nat" where
  "initial_slashes p =
     (if \<not> startswith p ''/'' then 0
      else if startswith p ''//'' \<and> \<not> startswith p ''///'' then 2
      else 1)"

definition normpath :: "string \<Rightarrow> string" where
  "normpath p =
     (if p = [] then ''.''
      else
        let n = initial_slashes p;
            path = replicate n slash @ join ''/'' (normal_comps (n \<noteq> 0) [] (split_on ''/'' p))
        in if path = [] then ''.'' else path)"

definition abspath :: "os \<Rightarrow> string \<Rightarrow> string" where
  "abspath os p = normpath (if startswith p ''/'' then p else path_join (cwd os) p)"

section \<open>Directories\<close>

lemma rstrip_prefix: "prefix (rstrip_set P s) s"
proof -
  have "suffix (dropWhile P (rev s)) (rev s)" by (rule suffix_dropWhile)
  then show ?thesis by (simp add: rstrip_set_def suffix_to_prefix)
qed

lemma dirname_prefix: "prefix (dirname p) p"
  by (simp add: dirname_def Let_def take_is_prefix prefix_order.trans [OF rstrip_prefix])

lemma dirname_shorter: "dirname p \<noteq> p \<Longrightarrow> length (dirname p) < length p"
  using dirname_prefix [of p] by (metis prefix_length_less prefix_order.le_neq_trans)

lemma common_prefix_prefix: "prefix a b \<Longrightarrow> common_prefix a b = a"
  by (induction a b rule: common_prefix.induct) auto

lemma prefix_le: "prefix a b \<Longrightarrow> a \<le> (b :: string)"
proof -
  assume "prefix a b"
  then obtain c where "b = a @ c" by (auto simp: prefix_def)
  then show ?thesis by (induction a arbitrary: b) auto
qed

lemma commonprefix_prefix: "prefix a b \<Longrightarrow> commonprefix a b = a"
  using prefix_le [of a b] by (simp add: commonprefix_def common_prefix_prefix min_def max_def)

text \<open>A path and its parent directories, up to the first that is its own parent.\<close>

function ancestors :: "string \<Rightarrow> string list" where
  "ancestors p = p # (if dirname p = p then [] else ancestors (dirname p))"
  by pat_completeness auto
termination
  by (relation "measure length") (auto intro: dirname_shorter)

declare ancestors.simps [simp del]

lemma ancestors_neq_Nil [simp]: "ancestors p \<noteq> []"
  by (subst ancestors.simps) simp

lemma ancestors_prefix: "d \<in> set (ancestors p) \<Longrightarrow> prefix d p"
proof (induction p rule: ancestors.induct)
  case (1 p)
  then show ?case
    by (subst (asm) (2) ancestors.simps)
      (auto split: if_splits intro: prefix_order.trans [OF _ dirname_prefix])
qed

section \<open>Splitting a path\<close>

lemma path_split_no_slash: "slash \<notin> set (snd (path_split p))"
  by (auto simp: path_split_def last_slash_def split: option.splits dest: rfind_char_Some)

lemma splitext_append: "fst (splitext p) @ snd (splitext p) = p"
  by (auto simp: splitext_def split: option.splits)

lemma splitext_extension:
  "snd (splitext p) = [] \<or>
     (\<exists>e. snd (splitext p) = CHR ''.'' # e \<and> CHR ''.'' \<notin> set e)"
proof (cases "rfind_char_nat CHR ''.'' p")
  case (Some dot)
  from rfind_char_Some [OF this] have "drop dot p = CHR ''.'' # drop (Suc dot) p"
    and "CHR ''.'' \<notin> set (drop (Suc dot) p)"
    by (metis Cons_nth_drop_Suc, blast)
  with Some show ?thesis by (auto simp: splitext_def)
next
  case None
  show ?thesis unfolding splitext_def None by simp
qed

end
