(* ===== verification/Regex.thy ===== *)
theory Regex
  imports PyString
begin

text \<open>
  Regular expressions as Python's \<open>re\<close> module runs them: a backtracking matcher that tries the
  alternatives in a fixed order and reports the first way to match, with the spans of its groups.

  \<^item> \<open>regex\<close>: the syntax trees of the constructs that the linter's patterns use.
  \<^item> \<open>mtch\<close>: the matcher. It is written with a continuation \<open>k\<close> for what has to match after
    the expression, so that it backtracks into the expression when \<open>k\<close> fails and stops at the
    first success.
  \<^item> \<open>alts\<close>: the reference: the list of all ways to match, most preferred first. The matcher
    returns the first of them that the continuation accepts (\<open>mtch_alts\<close>).
  \<^item> \<open>steps\<close>: what matching means without any order, as an inductive relation; \<open>alts\<close> lists
    exactly the states it relates (\<open>alts_iff_steps\<close>).

  A matching state is the text before the position (reversed), the text after it, and the spans
  of the groups closed so far, the latest first.
\<close>

section \<open>Syntax\<close>

datatype citem = ICh char | IRange char char | IDigit | ISpace | IWord

datatype regex =
    Emp
  | Cls bool "citem list"   \<comment> \<open>a set of characters; \<open>True\<close> complements it\<close>
  | Dot
  | Cat regex regex
  | Alt regex regex
  | Star regex
  | LStar regex             \<comment> \<open>the lazy \<open>*?\<close>\<close>
  | Grp nat regex
  | Ahead bool regex        \<comment> \<open>lookahead; \<open>True\<close> for the negative one\<close>
  | NotBehind string        \<comment> \<open>negative lookbehind of a fixed text\<close>
  | Bol
  | Eol
  | Wordb
  | Backref nat

type_synonym mstate = "string \<times> string \<times> (nat \<times> nat \<times> nat) list"

abbreviation rest_len :: "mstate \<Rightarrow> nat" where
  "rest_len st \<equiv> length (fst (snd st))"

section \<open>Characters and positions\<close>

definition re_space :: "char \<Rightarrow> bool" where
  "re_space c = (let n = ord_of c in (9 \<le> n \<and> n \<le> 13) \<or> n = 32)"

definition re_word :: "char \<Rightarrow> bool" where
  "re_word c = (ascii_lower c \<or> ascii_upper c \<or> ascii_digit c \<or> ord_of c = 95)"

fun item_has :: "char \<Rightarrow> citem \<Rightarrow> bool" where
  "item_has c (ICh d) = (c = d)"
| "item_has c (IRange a b) = (ord_of a \<le> ord_of c \<and> ord_of c \<le> ord_of b)"
| "item_has c IDigit = ascii_digit c"
| "item_has c ISpace = re_space c"
| "item_has c IWord = re_word c"

definition cls_has :: "bool \<Rightarrow> citem list \<Rightarrow> char \<Rightarrow> bool" where
  "cls_has neg its c = (list_ex (item_has c) its \<noteq> neg)"

definition not_newline :: "char \<Rightarrow> bool" where
  "not_newline c = (c \<noteq> CHR 0x0A)"

definition at_start :: "mstate \<Rightarrow> bool" where
  "at_start st = (fst st = [])"

definition at_end :: "mstate \<Rightarrow> bool" where
  "at_end st = (fst (snd st) = [] \<or> fst (snd st) = [CHR 0x0A])"

fun first_word :: "string \<Rightarrow> bool" where
  "first_word [] = False"
| "first_word (c # s) = re_word c"

definition at_wordb :: "mstate \<Rightarrow> bool" where
  "at_wordb st = (first_word (fst st) \<noteq> first_word (fst (snd st)))"

definition behind :: "string \<Rightarrow> mstate \<Rightarrow> bool" where
  "behind w st = (take (length w) (fst st) = rev w)"

fun eat :: "(char \<Rightarrow> bool) \<Rightarrow> mstate \<Rightarrow> mstate option" where
  "eat p (pre, [], caps) = None"
| "eat p (pre, c # post, caps) = (if p c then Some (c # pre, post, caps) else None)"

fun eat_text :: "string \<Rightarrow> mstate \<Rightarrow> mstate option" where
  "eat_text w (pre, post, caps) =
     (if startswith post w then Some (rev w @ pre, drop (length w) post, caps) else None)"

text \<open>The text that group \<open>n\<close> captured last; a group that did not take part captures nothing.\<close>

definition captured :: "nat \<Rightarrow> mstate \<Rightarrow> string option" where
  "captured n st =
     (case map_of (snd (snd st)) n of
        None \<Rightarrow> None
      | Some (a, b) \<Rightarrow> Some (take (b - a) (drop a (rev (fst st)))))"

definition backref :: "nat \<Rightarrow> mstate \<Rightarrow> mstate option" where
  "backref n st = (case captured n st of None \<Rightarrow> None | Some w \<Rightarrow> eat_text w st)"

fun close_group :: "nat \<Rightarrow> nat \<Rightarrow> mstate \<Rightarrow> mstate" where
  "close_group n start (pre, post, caps) = (pre, post, (n, start, length pre) # caps)"

section \<open>The matcher\<close>

text \<open>
  A repetition tries its body only while the body consumes text, as Python's does, so the length
  of the remaining text bounds the number of rounds.
\<close>

fun star_loop ::
  "((mstate \<Rightarrow> mstate option) \<Rightarrow> mstate \<Rightarrow> mstate option)
     \<Rightarrow> (mstate \<Rightarrow> mstate option) \<Rightarrow> nat \<Rightarrow> mstate \<Rightarrow> mstate option" where
  "star_loop m k 0 st = k st"
| "star_loop m k (Suc n) st =
     (case m (\<lambda>st'. if rest_len st' < rest_len st then star_loop m k n st' else None) st of
        Some y \<Rightarrow> Some y
      | None \<Rightarrow> k st)"

fun lstar_loop ::
  "((mstate \<Rightarrow> mstate option) \<Rightarrow> mstate \<Rightarrow> mstate option)
     \<Rightarrow> (mstate \<Rightarrow> mstate option) \<Rightarrow> nat \<Rightarrow> mstate \<Rightarrow> mstate option" where
  "lstar_loop m k 0 st = k st"
| "lstar_loop m k (Suc n) st =
     (case k st of
        Some y \<Rightarrow> Some y
      | None \<Rightarrow> m (\<lambda>st'. if rest_len st' < rest_len st then lstar_loop m k n st' else None) st)"

definition opt_then :: "mstate option \<Rightarrow> (mstate \<Rightarrow> mstate option) \<Rightarrow> mstate option" where
  "opt_then x k = (case x of None \<Rightarrow> None | Some st \<Rightarrow> k st)"

primrec mtch :: "regex \<Rightarrow> (mstate \<Rightarrow> mstate option) \<Rightarrow> mstate \<Rightarrow> mstate option" where
  "mtch Emp k st = k st"
| "mtch (Cls neg its) k st = opt_then (eat (cls_has neg its) st) k"
| "mtch Dot k st = opt_then (eat not_newline st) k"
| "mtch (Cat a b) k st = mtch a (mtch b k) st"
| "mtch (Alt a b) k st = (case mtch a k st of Some y \<Rightarrow> Some y | None \<Rightarrow> mtch b k st)"
| "mtch (Star r) k st = star_loop (mtch r) k (rest_len st) st"
| "mtch (LStar r) k st = lstar_loop (mtch r) k (rest_len st) st"
| "mtch (Grp n r) k st = mtch r (\<lambda>st'. k (close_group n (length (fst st)) st')) st"
| "mtch (Ahead neg r) k st =
     (case mtch r Some st of
        None \<Rightarrow> if neg then k st else None
      | Some _ \<Rightarrow> if neg then None else k st)"
| "mtch (NotBehind w) k st = (if behind w st then None else k st)"
| "mtch Bol k st = (if at_start st then k st else None)"
| "mtch Eol k st = (if at_end st then k st else None)"
| "mtch Wordb k st = (if at_wordb st then k st else None)"
| "mtch (Backref n) k st = opt_then (backref n st) k"

section \<open>The reference: all ways to match, in order of preference\<close>

fun star_alts :: "(mstate \<Rightarrow> mstate list) \<Rightarrow> nat \<Rightarrow> mstate \<Rightarrow> mstate list" where
  "star_alts m 0 st = [st]"
| "star_alts m (Suc n) st =
     concat (map (star_alts m n) (filter (\<lambda>st'. rest_len st' < rest_len st) (m st))) @ [st]"

fun lstar_alts :: "(mstate \<Rightarrow> mstate list) \<Rightarrow> nat \<Rightarrow> mstate \<Rightarrow> mstate list" where
  "lstar_alts m 0 st = [st]"
| "lstar_alts m (Suc n) st =
     st # concat (map (lstar_alts m n) (filter (\<lambda>st'. rest_len st' < rest_len st) (m st)))"

definition opt_list :: "'a option \<Rightarrow> 'a list" where
  "opt_list x = (case x of None \<Rightarrow> [] | Some y \<Rightarrow> [y])"

primrec alts :: "regex \<Rightarrow> mstate \<Rightarrow> mstate list" where
  "alts Emp st = [st]"
| "alts (Cls neg its) st = opt_list (eat (cls_has neg its) st)"
| "alts Dot st = opt_list (eat not_newline st)"
| "alts (Cat a b) st = concat (map (alts b) (alts a st))"
| "alts (Alt a b) st = alts a st @ alts b st"
| "alts (Star r) st = star_alts (alts r) (rest_len st) st"
| "alts (LStar r) st = lstar_alts (alts r) (rest_len st) st"
| "alts (Grp n r) st = map (close_group n (length (fst st))) (alts r st)"
| "alts (Ahead neg r) st = (if (alts r st = []) = neg then [st] else [])"
| "alts (NotBehind w) st = (if behind w st then [] else [st])"
| "alts Bol st = (if at_start st then [st] else [])"
| "alts Eol st = (if at_end st then [st] else [])"
| "alts Wordb st = (if at_wordb st then [st] else [])"
| "alts (Backref n) st = opt_list (backref n st)"

primrec first_some :: "('a \<Rightarrow> 'b option) \<Rightarrow> 'a list \<Rightarrow> 'b option" where
  "first_some k [] = None"
| "first_some k (x # xs) = (case k x of Some y \<Rightarrow> Some y | None \<Rightarrow> first_some k xs)"

lemma first_some_append:
  "first_some k (xs @ ys) = (case first_some k xs of Some y \<Rightarrow> Some y | None \<Rightarrow> first_some k ys)"
  by (induction xs) (auto split: option.splits)

lemma first_some_concat_map:
  "first_some k (concat (map f xs)) = first_some (\<lambda>x. first_some k (f x)) xs"
  by (induction xs) (simp_all add: first_some_append split: option.split)

lemma first_some_filter:
  "first_some k (filter P xs) = first_some (\<lambda>x. if P x then k x else None) xs"
  by (induction xs) (auto split: option.split)

lemma first_some_map: "first_some k (map f xs) = first_some (\<lambda>x. k (f x)) xs"
  by (induction xs) (auto split: option.split)

lemma first_some_opt_list: "first_some k (opt_list x) = (case x of None \<Rightarrow> None | Some y \<Rightarrow> k y)"
  by (auto simp: opt_list_def split: option.splits)

lemma first_some_Some [simp]:
  "first_some Some xs = (case xs of [] \<Rightarrow> None | x # _ \<Rightarrow> Some x)"
  by (cases xs) auto

lemma first_some_None_iff: "first_some k xs = None \<longleftrightarrow> (\<forall>x \<in> set xs. k x = None)"
  by (induction xs) (auto split: option.splits)

lemma first_some_SomeD: "first_some k xs = Some y \<Longrightarrow> \<exists>x \<in> set xs. k x = Some y"
  by (induction xs) (auto split: option.splits)

lemmas first_some_simps =
  first_some_append first_some_concat_map first_some_filter first_some_map first_some_opt_list

lemma star_loop_alts:
  assumes "\<And>k st. m k st = first_some k (ms st)"
  shows "star_loop m k n st = first_some k (star_alts ms n st)"
proof (induction n arbitrary: st)
  case (Suc n)
  show ?case
    by (simp only: star_loop.simps star_alts.simps Suc.IH)
      (simp add: assms first_some_simps split: option.split)
qed (simp split: option.split)

lemma lstar_loop_alts:
  assumes "\<And>k st. m k st = first_some k (ms st)"
  shows "lstar_loop m k n st = first_some k (lstar_alts ms n st)"
proof (induction n arbitrary: st)
  case (Suc n)
  show ?case
    by (simp only: lstar_loop.simps lstar_alts.simps Suc.IH)
      (simp add: assms first_some_simps split: option.split)
qed (simp split: option.split)

text \<open>The matcher finds the most preferred way to match that its continuation accepts.\<close>

lemma mtch_first_some: "mtch r k st = first_some k (alts r st)"
proof (induction r arbitrary: k st)
  case (Star r)
  then show ?case by (simp add: star_loop_alts)
next
  case (LStar r)
  then show ?case by (simp add: lstar_loop_alts)
next
  case (Cat a b)
  have "mtch b k = (\<lambda>x. first_some k (alts b x))" by (rule ext) (rule Cat.IH(2))
  then show ?case by (simp only: mtch.simps alts.simps Cat.IH(1) first_some_concat_map)
next
  case (Ahead neg r)
  show ?case
    unfolding mtch.simps Ahead by (cases "alts r st") (auto split: option.splits)
qed (auto simp: first_some_simps opt_then_def split: option.splits)

section \<open>Matching as a relation\<close>

inductive steps :: "regex \<Rightarrow> mstate \<Rightarrow> mstate \<Rightarrow> bool" where
  S_emp: "steps Emp st st"
| S_cls: "eat (cls_has neg its) st = Some st' \<Longrightarrow> steps (Cls neg its) st st'"
| S_dot: "eat not_newline st = Some st' \<Longrightarrow> steps Dot st st'"
| S_cat: "steps a st st1 \<Longrightarrow> steps b st1 st2 \<Longrightarrow> steps (Cat a b) st st2"
| S_altl: "steps a st st' \<Longrightarrow> steps (Alt a b) st st'"
| S_altr: "steps b st st' \<Longrightarrow> steps (Alt a b) st st'"
| S_star0: "steps (Star r) st st"
| S_star: "steps r st st1 \<Longrightarrow> rest_len st1 < rest_len st \<Longrightarrow> steps (Star r) st1 st2
     \<Longrightarrow> steps (Star r) st st2"
| S_lstar0: "steps (LStar r) st st"
| S_lstar: "steps r st st1 \<Longrightarrow> rest_len st1 < rest_len st \<Longrightarrow> steps (LStar r) st1 st2
     \<Longrightarrow> steps (LStar r) st st2"
| S_grp: "steps r st st' \<Longrightarrow> steps (Grp n r) st (close_group n (length (fst st)) st')"
| S_ahead: "steps r st st' \<Longrightarrow> steps (Ahead False r) st st"
| S_nahead: "alts r st = [] \<Longrightarrow> steps (Ahead True r) st st"
| S_nbehind: "\<not> behind w st \<Longrightarrow> steps (NotBehind w) st st"
| S_bol: "at_start st \<Longrightarrow> steps Bol st st"
| S_eol: "at_end st \<Longrightarrow> steps Eol st st"
| S_wordb: "at_wordb st \<Longrightarrow> steps Wordb st st"
| S_backref: "backref n st = Some st' \<Longrightarrow> steps (Backref n) st st'"

inductive_cases steps_elims [elim!]:
  "steps Emp st st'" "steps (Cls neg its) st st'" "steps Dot st st'" "steps (Cat a b) st st'"
  "steps (Alt a b) st st'" "steps (Grp n r) st st'" "steps (Ahead neg r) st st'"
  "steps (NotBehind w) st st'" "steps Bol st st'" "steps Eol st st'" "steps Wordb st st'"
  "steps (Backref n) st st'"

inductive_cases steps_StarE: "steps (Star r) st st'"
inductive_cases steps_LStarE: "steps (LStar r) st st'"

lemma star_alts_steps:
  assumes "\<And>st st'. st' \<in> set (alts r st) \<Longrightarrow> steps r st st'"
  shows "st' \<in> set (star_alts (alts r) n st) \<Longrightarrow> steps (Star r) st st'"
  by (induction n arbitrary: st) (auto intro: S_star0 S_star assms)

lemma lstar_alts_steps:
  assumes "\<And>st st'. st' \<in> set (alts r st) \<Longrightarrow> steps r st st'"
  shows "st' \<in> set (lstar_alts (alts r) n st) \<Longrightarrow> steps (LStar r) st st'"
  by (induction n arbitrary: st) (auto intro: S_lstar0 S_lstar assms)

lemma alts_steps: "st' \<in> set (alts r st) \<Longrightarrow> steps r st st'"
proof (induction r arbitrary: st st')
  case (Star r)
  then show ?case by (auto intro: star_alts_steps)
next
  case (LStar r)
  then show ?case by (auto intro: lstar_alts_steps)
next
  case (Ahead neg r)
  show ?case
  proof (cases neg)
    case False
    with Ahead.prems obtain x where "x \<in> set (alts r st)" "st' = st"
      by (cases "alts r st") auto
    with False Ahead.IH [of x st] show ?thesis by (simp add: S_ahead)
  qed (use Ahead.prems in \<open>auto intro: S_nahead split: if_splits\<close>)
next
  case (Cat a b)
  then obtain st1 where "st1 \<in> set (alts a st)" "st' \<in> set (alts b st1)"
    by (auto simp only: alts.simps set_concat set_map)
  with Cat.IH show ?case by (blast intro: S_cat)
next
  case (Grp n r)
  then obtain st1 where "st1 \<in> set (alts r st)" "st' = close_group n (length (fst st)) st1"
    by (auto simp only: alts.simps set_map)
  with Grp.IH [of st1 st] show ?case by (simp only: S_grp)
qed (auto intro: steps.intros simp: opt_list_def split: option.splits if_splits)

text \<open>Enough rounds: a repetition never needs more than the length of the remaining text.\<close>

lemma star_alts_mono:
  "rest_len st \<le> n \<Longrightarrow> n \<le> n' \<Longrightarrow> set (star_alts m n st) \<subseteq> set (star_alts m n' st)"
proof (induction n arbitrary: n' st)
  case 0
  then show ?case by (cases n') auto
next
  case (Suc n)
  then obtain k where k: "n' = Suc k" "n \<le> k" by (cases n') auto
  have "set (star_alts m n st') \<subseteq> set (star_alts m k st')" if "rest_len st' < rest_len st" for st'
    using Suc.IH [of st' k] Suc.prems that k by simp
  with k show ?case by fastforce
qed

lemma lstar_alts_mono:
  "rest_len st \<le> n \<Longrightarrow> n \<le> n' \<Longrightarrow> set (lstar_alts m n st) \<subseteq> set (lstar_alts m n' st)"
proof (induction n arbitrary: n' st)
  case 0
  then show ?case by (cases n') auto
next
  case (Suc n)
  then obtain k where k: "n' = Suc k" "n \<le> k" by (cases n') auto
  have "set (lstar_alts m n st') \<subseteq> set (lstar_alts m k st')" if "rest_len st' < rest_len st" for st'
    using Suc.IH [of st' k] Suc.prems that k by simp
  with k show ?case by fastforce
qed

lemma steps_alts: "steps r st st' \<Longrightarrow> st' \<in> set (alts r st)"
proof (induction rule: steps.induct)
  case (S_star r st st1 st2)
  then obtain n where n: "rest_len st = Suc n" "rest_len st1 \<le> n"
    by (cases "rest_len st") auto
  with S_star.IH(2) star_alts_mono [of st1 "rest_len st1" n "alts r"]
  have "st2 \<in> set (star_alts (alts r) n st1)" by auto
  moreover have "st1 \<in> set (filter (\<lambda>st'. rest_len st' < rest_len st) (alts r st))"
    using S_star.IH(1) S_star.hyps(2) by simp
  ultimately have "st2 \<in> set (star_alts (alts r) (Suc n) st)"
    by (auto simp only: star_alts.simps set_append set_concat set_map)
  with n(1) show ?case by simp
next
  case (S_lstar r st st1 st2)
  then obtain n where n: "rest_len st = Suc n" "rest_len st1 \<le> n"
    by (cases "rest_len st") auto
  with S_lstar.IH(2) lstar_alts_mono [of st1 "rest_len st1" n "alts r"]
  have "st2 \<in> set (lstar_alts (alts r) n st1)" by auto
  moreover have "st1 \<in> set (filter (\<lambda>st'. rest_len st' < rest_len st) (alts r st))"
    using S_lstar.IH(1) S_lstar.hyps(2) by simp
  ultimately have "st2 \<in> set (lstar_alts (alts r) (Suc n) st)"
    by (auto simp only: lstar_alts.simps list.set set_concat set_map)
  with n(1) show ?case by simp
next
  case (S_star0 r st)
  show ?case by (cases "rest_len st") auto
next
  case (S_lstar0 r st)
  show ?case by (cases "rest_len st") auto
qed (auto simp: opt_list_def)

lemma alts_iff_steps: "st' \<in> set (alts r st) \<longleftrightarrow> steps r st st'"
  using alts_steps steps_alts by blast

section \<open>The subject is never changed, and positions only move forward\<close>

definition subject :: "mstate \<Rightarrow> string" where
  "subject st = rev (fst st) @ fst (snd st)"

lemma eat_subject: "eat p st = Some st' \<Longrightarrow> subject st' = subject st \<and> rest_len st' < rest_len st"
  by (cases "(p, st)" rule: eat.cases) (auto simp: subject_def split: if_splits)

lemma eat_text_subject:
  "eat_text w st = Some st' \<Longrightarrow> subject st' = subject st \<and> rest_len st' \<le> rest_len st"
  by (cases "(w, st)" rule: eat_text.cases)
    (auto simp: subject_def startswith_def split: if_splits, metis append_take_drop_id)

lemma close_group_subject [simp]:
  "subject (close_group n i st) = subject st" "rest_len (close_group n i st) = rest_len st"
  by (cases "(n, i, st)" rule: close_group.cases, simp add: subject_def)+

lemma steps_subject: "steps r st st' \<Longrightarrow> subject st' = subject st \<and> rest_len st' \<le> rest_len st"
proof (induction rule: steps.induct)
  case (S_backref n st st')
  then show ?case by (auto simp: backref_def dest: eat_text_subject split: option.splits)
qed (auto dest: eat_subject)

end
