(* ===== verification/PyRe.thy ===== *)
theory PyRe
  imports Regex
begin

text \<open>
  The part of Python's \<open>re\<close> module that the linter calls: compiling a pattern string, and
  \<open>match\<close>, \<open>search\<close>, \<open>sub\<close>, \<open>findall\<close>, \<open>split\<close> and \<open>escape\<close> on a compiled pattern.

  Pattern strings are the ones of the source. A HOL string literal cannot hold a backslash, so
  the theories write the backquote for it (no pattern of the linter has a backquote) and apply
  \<open>raw\<close>: the Python literal \<open>r'^\s*$'\<close> is \<open>raw ''^`s*$''\<close>.

  The compiler covers the syntax these patterns use: characters, classes with ranges and
  \<open>\s \w \d\<close>, \<open>.\<close>, anchors, \<open>\b\<close>, groups (capturing, \<open>(?:\<close>, \<open>(?=\<close>, \<open>(?!\<close>, \<open>(?<!\<close> of a
  plain text), back references, alternation, and the quantifiers \<open>* + ? *? +?\<close> and
  \<open>{n} {n,} {n,m}\<close> with one digit each; a \<open>{\<close> that opens no such quantifier is a plain
  character, as in Python. Anything else does not compile.
\<close>

definition bslash :: char where
  "bslash = CHR 0x5C"

definition raw :: "string \<Rightarrow> string" where
  "raw s = map (\<lambda>c. if c = CHR 0x60 then bslash else c) s"

section \<open>Compiling a pattern\<close>

fun lit :: "char \<Rightarrow> regex" where
  "lit c = Cls False [ICh c]"

text \<open>With \<open>re.I\<close>, a letter matches in both cases.\<close>

definition lit_flag :: "bool \<Rightarrow> char \<Rightarrow> regex" where
  "lit_flag icase c =
     (if icase \<and> ascii_lower c then Cls False [ICh c, ICh (upper_char c)]
      else if icase \<and> ascii_upper c then Cls False [ICh c, ICh (lower_char c)]
      else lit c)"

definition opt :: "regex \<Rightarrow> regex" where
  "opt r = Alt r Emp"

fun repeat_re :: "nat \<Rightarrow> regex \<Rightarrow> regex" where
  "repeat_re 0 r = Emp"
| "repeat_re (Suc n) r = Cat r (repeat_re n r)"

fun upto_re :: "nat \<Rightarrow> regex \<Rightarrow> regex" where
  "upto_re 0 r = Emp"
| "upto_re (Suc n) r = opt (Cat r (upto_re n r))"

definition digit_val :: "char \<Rightarrow> nat" where
  "digit_val c = nat (ord_of c - 48)"

fun quantify :: "regex \<Rightarrow> string \<Rightarrow> regex \<times> string" where
  "quantify r [] = (r, [])"
| "quantify r (c # s) =
     (if c = CHR ''*'' then
        (case s of
           d # s' \<Rightarrow> if d = CHR ''?'' then (LStar r, s') else (Star r, s)
         | [] \<Rightarrow> (Star r, s))
      else if c = CHR ''+'' then
        (case s of
           d # s' \<Rightarrow> if d = CHR ''?'' then (Cat r (LStar r), s') else (Cat r (Star r), s)
         | [] \<Rightarrow> (Cat r (Star r), s))
      else if c = CHR ''?'' then (opt r, s)
      else if c = CHR ''{'' then
        (case s of
           d1 # e # s' \<Rightarrow>
             if \<not> ascii_digit d1 then (r, c # s)
             else if e = CHR ''}'' then (repeat_re (digit_val d1) r, s')
             else if e \<noteq> CHR '','' then (r, c # s)
             else (case s' of
                     f # s2 \<Rightarrow>
                       if f = CHR ''}'' then (Cat (repeat_re (digit_val d1) r) (Star r), s2)
                       else (case s2 of
                               g # s3 \<Rightarrow>
                                 if ascii_digit f \<and> g = CHR ''}'' \<and> digit_val d1 \<le> digit_val f
                                 then (Cat (repeat_re (digit_val d1) r)
                                         (upto_re (digit_val f - digit_val d1) r), s3)
                                 else (r, c # s)
                             | [] \<Rightarrow> (r, c # s))
                   | [] \<Rightarrow> (r, c # s))
         | _ \<Rightarrow> (r, c # s))
      else (r, c # s))"

text \<open>One item at the front of a class, and the rest. A \<open>-\<close> makes a range unless it comes first
  or last.\<close>

fun class_item :: "string \<Rightarrow> (citem \<times> string) option" where
  "class_item [] = None"
| "class_item (c # s) =
     (if c = bslash then
        (case s of
           [] \<Rightarrow> None
         | d # s' \<Rightarrow>
             if d = CHR ''s'' then Some (ISpace, s')
             else if d = CHR ''w'' then Some (IWord, s')
             else if d = CHR ''d'' then Some (IDigit, s')
             else if py_isalnum d then None
             else Some (ICh d, s'))
      else
        (case s of
           d # e # s' \<Rightarrow>
             if d = CHR ''-'' \<and> e \<noteq> CHR '']'' \<and> e \<noteq> bslash then Some (IRange c e, s')
             else Some (ICh c, s)
         | _ \<Rightarrow> Some (ICh c, s)))"

text \<open>The items of a class up to the closing bracket.\<close>

fun class_items :: "nat \<Rightarrow> string \<Rightarrow> (citem list \<times> string) option" where
  "class_items 0 s = None"
| "class_items (Suc n) s =
     (if startswith s '']'' then Some ([], drop 1 s)
      else case class_item s of
             None \<Rightarrow> None
           | Some (it, rest) \<Rightarrow>
               (case class_items n rest of
                  None \<Rightarrow> None
                | Some (its, rest') \<Rightarrow> Some (it # its, rest')))"

text \<open>The expression for a backslash followed by \<open>d\<close>.\<close>

definition escaped :: "char \<Rightarrow> regex option" where
  "escaped d =
     (if d = CHR ''b'' then Some Wordb
      else if d = CHR ''s'' then Some (Cls False [ISpace])
      else if d = CHR ''S'' then Some (Cls True [ISpace])
      else if d = CHR ''w'' then Some (Cls False [IWord])
      else if d = CHR ''W'' then Some (Cls True [IWord])
      else if d = CHR ''d'' then Some (Cls False [IDigit])
      else if ascii_digit d \<and> d \<noteq> CHR ''0'' then Some (Backref (digit_val d))
      else if py_isalnum d then None
      else Some (lit d))"

fun plain_until_close :: "string \<Rightarrow> (string \<times> string) option" where
  "plain_until_close [] = None"
| "plain_until_close (c # s) =
     (if c = CHR '')'' then Some ([], s)
      else if re_word c then
        (case plain_until_close s of None \<Rightarrow> None | Some (w, rest) \<Rightarrow> Some (c # w, rest))
      else None)"

text \<open>What an opening parenthesis begins, and the text after its mark.\<close>

datatype group_kind = Capturing | Plain | Lookahead bool | Lookbehind | Unsupported

definition group_head :: "string \<Rightarrow> group_kind \<times> string" where
  "group_head s =
     (if startswith s ''?:'' then (Plain, drop 2 s)
      else if startswith s ''?='' then (Lookahead False, drop 2 s)
      else if startswith s ''?!'' then (Lookahead True, drop 2 s)
      else if startswith s ''?<!'' then (Lookbehind, drop 3 s)
      else if startswith s ''?'' then (Unsupported, s)
      else (Capturing, s))"

fun group_node :: "group_kind \<Rightarrow> nat \<Rightarrow> regex \<Rightarrow> regex" where
  "group_node Capturing g a = Grp g a"
| "group_node (Lookahead neg) g a = Ahead neg a"
| "group_node _ g a = a"

text \<open>
  \<open>parse_alt\<close>, \<open>parse_seq\<close> and \<open>parse_atom\<close> are the usual recursive descent. The first argument
  bounds the depth of the calls, the number is the next group number; the result gives the
  expression, the next group number and the rest of the pattern.
\<close>

fun parse_alt :: "bool \<Rightarrow> nat \<Rightarrow> nat \<Rightarrow> string \<Rightarrow> (regex \<times> nat \<times> string) option"
  and parse_seq :: "bool \<Rightarrow> nat \<Rightarrow> nat \<Rightarrow> string \<Rightarrow> (regex \<times> nat \<times> string) option"
  and parse_atom :: "bool \<Rightarrow> nat \<Rightarrow> nat \<Rightarrow> string \<Rightarrow> (regex \<times> nat \<times> string) option" where
  "parse_alt ic 0 g s = None"
| "parse_alt ic (Suc n) g s =
     (case parse_seq ic n g s of
        None \<Rightarrow> None
      | Some (a, g1, rest) \<Rightarrow>
          (case rest of
             [] \<Rightarrow> Some (a, g1, [])
           | c # rest' \<Rightarrow>
               if c = CHR ''|'' then
                 (case parse_alt ic n g1 rest' of
                    None \<Rightarrow> None
                  | Some (b, g2, rest2) \<Rightarrow> Some (Alt a b, g2, rest2))
               else Some (a, g1, rest)))"
| "parse_seq ic 0 g s = None"
| "parse_seq ic (Suc n) g s =
     (case s of
        [] \<Rightarrow> Some (Emp, g, [])
      | c # s' \<Rightarrow>
          if c = CHR ''|'' \<or> c = CHR '')'' then Some (Emp, g, s)
          else
            (case parse_atom ic n g s of
               None \<Rightarrow> None
             | Some (a, g1, rest) \<Rightarrow>
                 (case quantify a rest of
                    (a', rest') \<Rightarrow>
                      (case parse_seq ic n g1 rest' of
                         None \<Rightarrow> None
                       | Some (b, g2, rest2) \<Rightarrow> Some (Cat a' b, g2, rest2)))))"
| "parse_atom ic 0 g s = None"
| "parse_atom ic (Suc n) g s =
     (case s of
        [] \<Rightarrow> None
      | c # s' \<Rightarrow>
          if c = CHR ''('' then
            (case group_head s' of
               (kind, body) \<Rightarrow>
                 if kind = Unsupported then None
                 else if kind = Lookbehind then
                   (case plain_until_close body of
                      Some (w, rest) \<Rightarrow> Some (NotBehind w, g, rest)
                    | None \<Rightarrow> None)
                 else
                   (case parse_alt ic n (if kind = Capturing then Suc g else g) body of
                      Some (a, g1, d # rest) \<Rightarrow>
                        if d = CHR '')'' then Some (group_node kind g a, g1, rest) else None
                    | _ \<Rightarrow> None))
          else if c = CHR ''['' then
            (if startswith s' ''^''
             then (case class_items n (drop 1 s') of
                     None \<Rightarrow> None | Some (its, rest) \<Rightarrow> Some (Cls True its, g, rest))
             else (case class_items n s' of
                     None \<Rightarrow> None | Some (its, rest) \<Rightarrow> Some (Cls False its, g, rest)))
          else if c = bslash then
            (case s' of
               [] \<Rightarrow> None
             | d # rest \<Rightarrow>
                 (case escaped d of None \<Rightarrow> None | Some a \<Rightarrow> Some (a, g, rest)))
          else if c = CHR ''.'' then Some (Dot, g, s')
          else if c = CHR ''^'' then Some (Bol, g, s')
          else if c = CHR ''$'' then Some (Eol, g, s')
          else if c = CHR ''*'' \<or> c = CHR ''+'' \<or> c = CHR ''?'' then None
          else Some (lit_flag ic c, g, s'))"

definition compile_flags :: "bool \<Rightarrow> string \<Rightarrow> regex option" where
  "compile_flags icase p =
     (case parse_alt icase (3 * length p + 3) 1 p of
        Some (r, _, []) \<Rightarrow> Some r
      | _ \<Rightarrow> None)"

definition re_compile :: "string \<Rightarrow> regex option" where
  "re_compile p = compile_flags False p"

text \<open>With \<open>re.VERBOSE\<close>, white space in a pattern (outside classes) is ignored; the only verbose
  pattern of the linter has none inside a class.\<close>

definition strip_verbose :: "string \<Rightarrow> string" where
  "strip_verbose p = filter (\<lambda>c. \<not> re_space c) p"

section \<open>Matching a compiled pattern\<close>

record rmatch =
  m_subject :: string
  m_start :: nat
  m_end :: nat
  m_groups :: "(nat \<times> nat \<times> nat) list"

fun to_match :: "nat \<Rightarrow> mstate \<Rightarrow> rmatch" where
  "to_match start (pre, post, caps) =
     \<lparr>m_subject = rev pre @ post, m_start = start, m_end = length pre, m_groups = caps\<rparr>"

fun search_from :: "regex \<Rightarrow> string \<Rightarrow> string \<Rightarrow> rmatch option" where
  "search_from r pre [] = map_option (to_match (length pre)) (mtch r Some (pre, [], []))"
| "search_from r pre (c # post) =
     (case mtch r Some (pre, c # post, []) of
        Some st \<Rightarrow> Some (to_match (length pre) st)
      | None \<Rightarrow> search_from r (c # pre) post)"

definition re_match :: "regex \<Rightarrow> string \<Rightarrow> rmatch option" where
  "re_match r s = map_option (to_match 0) (mtch r Some ([], s, []))"

definition re_search :: "regex \<Rightarrow> string \<Rightarrow> rmatch option" where
  "re_search r s = search_from r [] s"

definition group_span :: "rmatch \<Rightarrow> nat \<Rightarrow> (nat \<times> nat) option" where
  "group_span m n = (if n = 0 then Some (m_start m, m_end m) else map_of (m_groups m) n)"

text \<open>\<open>m.group(n)\<close> is None for a group that took no part in the match.\<close>

definition group :: "rmatch \<Rightarrow> nat \<Rightarrow> string option" where
  "group m n =
     (case group_span m n of
        None \<Rightarrow> None
      | Some (a, b) \<Rightarrow> Some (take (b - a) (drop a (m_subject m))))"

text \<open>For a group that every match of its pattern closes, the text itself.\<close>

definition group_text :: "rmatch \<Rightarrow> nat \<Rightarrow> string" where
  "group_text m n = (case group m n of None \<Rightarrow> [] | Some w \<Rightarrow> w)"

text \<open>
  The characters that no match covers and the matches, from left to right without overlap. A
  match of the empty text is passed over (no pattern that the linter gives to \<open>sub\<close>, \<open>findall\<close>
  or \<open>split\<close> matches it).
\<close>

function pieces :: "regex \<Rightarrow> string \<Rightarrow> string \<Rightarrow> (char + string) list" where
  "pieces r pre [] = []"
| "pieces r pre (c # post) =
     (case mtch r Some (pre, c # post, []) of
        None \<Rightarrow> Inl c # pieces r (c # pre) post
      | Some (pre', post', caps) \<Rightarrow>
          if length post' < length (c # post)
          then Inr (take (length (c # post) - length post') (c # post)) # pieces r pre' post'
          else Inl c # pieces r (c # pre) post)"
  by pat_completeness auto
termination
  by (relation "measure (\<lambda>(r, pre, post). length post)") auto

fun subst_piece :: "string \<Rightarrow> char + string \<Rightarrow> string" where
  "subst_piece repl (Inl c) = [c]"
| "subst_piece repl (Inr w) = repl"

fun piece_text :: "char + string \<Rightarrow> string" where
  "piece_text (Inl c) = [c]"
| "piece_text (Inr w) = w"

definition re_sub :: "regex \<Rightarrow> string \<Rightarrow> string \<Rightarrow> string" where
  "re_sub r repl s = concat (map (subst_piece repl) (pieces r [] s))"

definition re_findall_len :: "regex \<Rightarrow> string \<Rightarrow> nat" where
  "re_findall_len r s = length (filter (\<lambda>p. \<not> isl p) (pieces r [] s))"

fun split_pieces :: "(char + string) list \<Rightarrow> string list" where
  "split_pieces [] = [[]]"
| "split_pieces (Inl c # ps) = cons_hd c (split_pieces ps)"
| "split_pieces (Inr w # ps) = [] # split_pieces ps"

definition re_split :: "regex \<Rightarrow> string \<Rightarrow> string list" where
  "re_split r s = split_pieces (pieces r [] s)"

text \<open>\<open>re.escape\<close> puts a backslash before every character that is not an ASCII letter or digit.\<close>

definition re_escape :: "string \<Rightarrow> string" where
  "re_escape s =
     concat (map (\<lambda>c. if ascii_lower c \<or> ascii_upper c \<or> ascii_digit c then [c]
                       else [bslash, c]) s)"

end
