(* ===== verification/Matching.thy ===== *)
theory Matching
  imports PyRe
begin

text \<open>
  The linter's own \<open>Match\<close> and \<open>Search\<close> (tools/cpplint.py), which compile a pattern on its first
  use and keep it in the global dictionary \<open>_regexp_compile_cache\<close>.

  \<open>MatchCached\<close> and \<open>SearchCached\<close> thread that dictionary; \<open>Match\<close> and \<open>Search\<close> are what they
  compute, and the other theories use these. Patterns that the code compiles once with
  \<open>re.compile\<close> are used through \<open>Match\<close> and \<open>Search\<close> as well. \<open>SearchI\<close> is \<open>re.search\<close> with
  the flag \<open>re.I\<close>, \<open>Sub\<close>, \<open>FindallLen\<close> and \<open>Split\<close> are the calls of \<open>re.sub\<close>, \<open>re.findall\<close>
  and \<open>re.split\<close>.

  A pattern that does not compile would raise \<open>re.error\<close> in Python; here it matches nowhere.
  Every constant pattern of the linter compiles.
\<close>

section \<open>Match and Search\<close>

definition Match :: "string \<Rightarrow> string \<Rightarrow> rmatch option" where
  "Match pattern s =
     (case re_compile pattern of None \<Rightarrow> None | Some r \<Rightarrow> re_match r s)"

definition Search :: "string \<Rightarrow> string \<Rightarrow> rmatch option" where
  "Search pattern s =
     (case re_compile pattern of None \<Rightarrow> None | Some r \<Rightarrow> re_search r s)"

abbreviation matches :: "string \<Rightarrow> string \<Rightarrow> bool" where
  "matches pattern s \<equiv> Match pattern s \<noteq> None"

abbreviation found :: "string \<Rightarrow> string \<Rightarrow> bool" where
  "found pattern s \<equiv> Search pattern s \<noteq> None"

definition SearchI :: "string \<Rightarrow> string \<Rightarrow> rmatch option" where
  "SearchI pattern s =
     (case compile_flags True pattern of None \<Rightarrow> None | Some r \<Rightarrow> re_search r s)"

definition Sub :: "string \<Rightarrow> string \<Rightarrow> string \<Rightarrow> string" where
  "Sub pattern repl s =
     (case re_compile pattern of None \<Rightarrow> s | Some r \<Rightarrow> re_sub r repl s)"

definition FindallLen :: "string \<Rightarrow> string \<Rightarrow> nat" where
  "FindallLen pattern s =
     (case re_compile pattern of None \<Rightarrow> 0 | Some r \<Rightarrow> re_findall_len r s)"

definition Split :: "string \<Rightarrow> string \<Rightarrow> string list" where
  "Split pattern s =
     (case re_compile pattern of None \<Rightarrow> [s] | Some r \<Rightarrow> re_split r s)"

section \<open>The compile cache\<close>

type_synonym cache = "string \<rightharpoonup> regex"

text \<open>\<open>sre_compile.compile\<close> raises for a malformed pattern: then nothing is stored.\<close>

definition CompileCached :: "cache \<Rightarrow> string \<Rightarrow> cache \<times> regex option" where
  "CompileCached c pattern =
     (case c pattern of
        None \<Rightarrow>
          (case re_compile pattern of
             None \<Rightarrow> (c, None)
           | Some r \<Rightarrow> (c(pattern \<mapsto> r), Some r))
      | Some r \<Rightarrow> (c, Some r))"

definition MatchCached :: "cache \<Rightarrow> string \<Rightarrow> string \<Rightarrow> cache \<times> rmatch option" where
  "MatchCached c pattern s =
     (case CompileCached c pattern of
        (c', None) \<Rightarrow> (c', None)
      | (c', Some r) \<Rightarrow> (c', re_match r s))"

definition SearchCached :: "cache \<Rightarrow> string \<Rightarrow> string \<Rightarrow> cache \<times> rmatch option" where
  "SearchCached c pattern s =
     (case CompileCached c pattern of
        (c', None) \<Rightarrow> (c', None)
      | (c', Some r) \<Rightarrow> (c', re_search r s))"

definition cache_ok :: "cache \<Rightarrow> bool" where
  "cache_ok c \<longleftrightarrow> (\<forall>p r. c p = Some r \<longrightarrow> re_compile p = Some r)"

lemma cache_ok_empty [simp]: "cache_ok Map.empty"
  by (simp add: cache_ok_def)

lemma CompileCached_ok:
  assumes "cache_ok c"
  shows "cache_ok (fst (CompileCached c p)) \<and> snd (CompileCached c p) = re_compile p"
  using assms by (auto simp: cache_ok_def CompileCached_def split: option.splits)

lemma MatchCached_Match:
  "cache_ok c \<Longrightarrow> cache_ok (fst (MatchCached c p s)) \<and> snd (MatchCached c p s) = Match p s"
  using CompileCached_ok [of c p]
  by (auto simp: MatchCached_def Match_def split: option.splits prod.splits)

lemma SearchCached_Search:
  "cache_ok c \<Longrightarrow> cache_ok (fst (SearchCached c p s)) \<and> snd (SearchCached c p s) = Search p s"
  using CompileCached_ok [of c p]
  by (auto simp: SearchCached_def Search_def split: option.splits prod.splits)

section \<open>What a match says\<close>

text \<open>The state in which the matcher stands at position \<open>i\<close> of \<open>s\<close>.\<close>

definition state_at :: "string \<Rightarrow> nat \<Rightarrow> mstate" where
  "state_at s i = (rev (take i s), drop i s, [])"

text \<open>The preferred match of \<open>r\<close> at position \<open>i\<close>, by the reference.\<close>

definition preferred_at :: "regex \<Rightarrow> string \<Rightarrow> nat \<Rightarrow> mstate option" where
  "preferred_at r s i =
     (case alts r (state_at s i) of [] \<Rightarrow> None | st # _ \<Rightarrow> Some st)"

lemma mtch_Some_preferred: "mtch r Some (state_at s i) = preferred_at r s i"
  by (simp add: mtch_first_some preferred_at_def)

lemma subject_state_at [simp]: "subject (state_at s i) = s"
  by (simp add: subject_def state_at_def)

lemma preferred_at_subject:
  assumes "preferred_at r s i = Some st" and "i \<le> length s"
  shows "subject st = s" and "i \<le> length (fst st)" and "length (fst st) \<le> length s"
proof -
  from assms(1) have "st \<in> set (alts r (state_at s i))"
    by (auto simp: preferred_at_def split: list.splits)
  then have "steps r (state_at s i) st" by (rule alts_steps)
  then have *: "subject st = subject (state_at s i)" "rest_len st \<le> rest_len (state_at s i)"
    using steps_subject by blast+
  from * show s: "subject st = s" by simp
  from s have len: "length (fst st) + rest_len st = length s"
    by (auto simp: subject_def)
  from *(2) have "rest_len st \<le> length s - i" by (simp add: state_at_def)
  with len assms(2) show "i \<le> length (fst st)" "length (fst st) \<le> length s" by linarith+
qed

lemma re_match_preferred: "re_match r s = map_option (to_match 0) (preferred_at r s 0)"
  by (simp add: re_match_def mtch_Some_preferred [symmetric] state_at_def)

text \<open>A search returns the preferred match of the first position that has one.\<close>

definition leftmost :: "regex \<Rightarrow> string \<Rightarrow> rmatch option \<Rightarrow> bool" where
  "leftmost r s res \<longleftrightarrow>
     (case res of
        None \<Rightarrow> \<forall>i \<le> length s. preferred_at r s i = None
      | Some m \<Rightarrow> m_start m \<le> length s \<and>
          map_option (to_match (m_start m)) (preferred_at r s (m_start m)) = Some m \<and>
          (\<forall>i < m_start m. preferred_at r s i = None))"

lemma to_match_start [simp]: "m_start (to_match i st) = i"
  by (cases "(i, st)" rule: to_match.cases) simp

lemma search_from_at:
  assumes "i \<le> length s"
  shows "search_from r (rev (take i s)) (drop i s) =
     (case preferred_at r s i of
        Some st \<Rightarrow> Some (to_match i st)
      | None \<Rightarrow> if i < length s then search_from r (rev (take (Suc i) s)) (drop (Suc i) s)
                else None)"
proof (cases "i < length s")
  case False
  with assms have "i = length s" by simp
  then show ?thesis
    by (simp add: mtch_Some_preferred [symmetric] state_at_def split: option.split)
next
  case True
  then have d: "drop i s = s ! i # drop (Suc i) s" by (simp add: Cons_nth_drop_Suc)
  from True have t: "rev (take (Suc i) s) = s ! i # rev (take i s)"
    by (simp add: take_Suc_conv_app_nth)
  have "mtch r Some (rev (take i s), s ! i # drop (Suc i) s, []) = preferred_at r s i"
    using mtch_Some_preferred [of r s i] d by (simp add: state_at_def)
  with True show ?thesis by (simp add: d t split: option.split)
qed

lemma search_from_leftmost:
  assumes "i \<le> length s" and "\<And>j. j < i \<Longrightarrow> preferred_at r s j = None"
  shows "leftmost r s (search_from r (rev (take i s)) (drop i s))"
  using assms
proof (induction "length s - i" arbitrary: i)
  case 0
  then have i: "i = length s" by simp
  have "preferred_at r s j = None" if "preferred_at r s i = None" "j \<le> length s" for j
    using that 0 i by (cases "j = i") auto
  with 0 i show ?case
    unfolding search_from_at [OF "0.prems"(1)] by (simp add: leftmost_def split: option.split)
next
  case (Suc n)
  show ?case
  proof (cases "preferred_at r s i")
    case None
    then have "\<And>j. j < Suc i \<Longrightarrow> preferred_at r s j = None"
      using Suc.prems by (auto simp: less_Suc_eq)
    with Suc.hyps have "leftmost r s (search_from r (rev (take (Suc i) s)) (drop (Suc i) s))"
      by simp
    moreover have "i < length s" using Suc.hyps(2) by simp
    ultimately show ?thesis
      unfolding search_from_at [OF Suc.prems(1)] by (simp add: None)
  next
    case (Some st)
    with Suc.prems show ?thesis
      unfolding search_from_at [OF Suc.prems(1)] by (simp add: leftmost_def)
  qed
qed

lemma re_search_leftmost: "leftmost r s (re_search r s)"
  using search_from_leftmost [of 0 s r] by (simp add: re_search_def)

lemma preferred_at_None_iff: "preferred_at r s i = None \<longleftrightarrow> (\<nexists>st. steps r (state_at s i) st)"
  by (auto simp: preferred_at_def alts_iff_steps [symmetric] split: list.split)

lemma preferred_at_steps: "preferred_at r s i = Some st \<Longrightarrow> steps r (state_at s i) st"
  by (auto simp: preferred_at_def alts_iff_steps [symmetric] split: list.splits)

lemma to_match_simps:
  assumes "subject st = s"
  shows "m_subject (to_match i st) = s" and "m_end (to_match i st) = length (fst st)"
  using assms by (cases "(i, st)" rule: to_match.cases; simp add: subject_def)+

lemma Search_None_iff:
  assumes "re_compile p = Some r"
  shows "Search p s = None \<longleftrightarrow> (\<forall>i \<le> length s. \<nexists>st. steps r (state_at s i) st)"
proof -
  have "Search p s = re_search r s" using assms by (simp add: Search_def)
  with re_search_leftmost [of r s] show ?thesis
    unfolding preferred_at_None_iff [symmetric]
    by (auto simp: leftmost_def split: option.splits)
qed

lemma Match_None_iff:
  assumes "re_compile p = Some r"
  shows "Match p s = None \<longleftrightarrow> (\<nexists>st. steps r (state_at s 0) st)"
  using assms by (simp add: Match_def re_match_preferred preferred_at_None_iff)

lemma Search_SomeD:
  assumes "Search p s = Some m"
  obtains r st where "re_compile p = Some r" and "preferred_at r s (m_start m) = Some st"
    and "m = to_match (m_start m) st" and "\<forall>i < m_start m. preferred_at r s i = None"
    and "m_start m \<le> length s"
proof -
  from assms obtain r where r: "re_compile p = Some r" "re_search r s = Some m"
    by (auto simp: Search_def split: option.splits)
  with re_search_leftmost [of r s] obtain st where
    "preferred_at r s (m_start m) = Some st" "m = to_match (m_start m) st"
    "\<forall>i < m_start m. preferred_at r s i = None" "m_start m \<le> length s"
    by (auto simp: leftmost_def)
  with r(1) show ?thesis by (rule that)
qed

lemma Search_bounds:
  assumes "Search p s = Some m"
  shows "m_subject m = s" and "m_start m \<le> m_end m" and "m_end m \<le> length s"
proof -
  from assms obtain r st where st: "preferred_at r s (m_start m) = Some st"
    "m = to_match (m_start m) st" "m_start m \<le> length s"
    by (rule Search_SomeD)
  note b = preferred_at_subject [OF st(1,3)]
  from to_match_simps [OF b(1), of "m_start m"] st(2)
  have "m_subject m = s" "m_end m = length (fst st)" by simp_all
  with b(2,3) show "m_subject m = s" "m_start m \<le> m_end m" "m_end m \<le> length s"
    by simp_all
qed

lemma Match_SomeD:
  assumes "Match p s = Some m"
  shows "m_subject m = s" and "m_start m = 0" and "m_end m \<le> length s"
proof -
  from assms obtain r st where st: "preferred_at r s 0 = Some st" "m = to_match 0 st"
    by (auto simp: Match_def re_match_preferred split: option.splits)
  note b = preferred_at_subject [OF st(1)]
  with to_match_simps [OF b(1), of 0] st(2)
  show "m_subject m = s" "m_start m = 0" "m_end m \<le> length s" by simp_all
qed

section \<open>Properties\<close>

text \<open>C4. \<open>Search\<close> with a pattern that compiles finds nothing exactly when the pattern can match
  at no position of the line; otherwise it returns the first position where it can, the match
  there is the one that the reference prefers, and its span lies inside the line.\<close>

theorem Search_finds_leftmost:
  assumes "re_compile p = Some r"
  shows "(Search p s = None \<longleftrightarrow> (\<forall>i \<le> length s. \<nexists>st. steps r (state_at s i) st)) \<and>
    (\<forall>m. Search p s = Some m \<longrightarrow>
       m_start m \<le> m_end m \<and> m_end m \<le> length s \<and>
       (\<forall>i < m_start m. \<nexists>st. steps r (state_at s i) st) \<and>
       (\<exists>st. preferred_at r s (m_start m) = Some st \<and> steps r (state_at s (m_start m)) st \<and>
             m = to_match (m_start m) st))"
proof (intro conjI allI impI)
  show "Search p s = None \<longleftrightarrow> (\<forall>i \<le> length s. \<nexists>st. steps r (state_at s i) st)"
    by (rule Search_None_iff [OF assms])
next
  fix m assume m: "Search p s = Some m"
  show "m_start m \<le> m_end m" "m_end m \<le> length s" by (rule Search_bounds [OF m])+
  from m obtain r' st where r': "re_compile p = Some r'"
    and st: "preferred_at r' s (m_start m) = Some st" "m = to_match (m_start m) st"
    and before: "\<forall>i < m_start m. preferred_at r' s i = None"
    by (rule Search_SomeD)
  from r' assms have [simp]: "r' = r" by simp
  show "\<nexists>st. steps r (state_at s i) st" if "i < m_start m" for i
    using before that preferred_at_None_iff by auto
  show "\<exists>st. preferred_at r s (m_start m) = Some st \<and> steps r (state_at s (m_start m)) st \<and>
      m = to_match (m_start m) st"
    using st preferred_at_steps by auto
qed

theorem Search_finds_leftmost_witness:
  "(\<exists>r m. re_compile (raw ''`bif`s*`('') = Some r \<and>
     Search (raw ''`bif`s*`('') ''elif if (x)'' = Some m \<and> m_start m = 5 \<and> m_end m = 9 \<and>
     (\<forall>i < m_start m. \<nexists>st. steps r (state_at ''elif if (x)'' i) st))"
proof -
  have c: "re_compile (raw ''`bif`s*`('') \<noteq> None" by code_simp
  then obtain r where r: "re_compile (raw ''`bif`s*`('') = Some r" by blast
  have "map_option (\<lambda>m. (m_start m, m_end m)) (Search (raw ''`bif`s*`('') ''elif if (x)'') =
      Some (5, 9)" by code_simp
  then obtain m where "Search (raw ''`bif`s*`('') ''elif if (x)'' = Some m"
    "m_start m = 5" "m_end m = 9" by auto
  with Search_finds_leftmost [OF r, of "''elif if (x)''"] r show ?thesis by blast
qed

text \<open>A sequence of calls: the flag says \<open>Search\<close> rather than \<open>Match\<close>.\<close>

fun cached_calls :: "cache \<Rightarrow> (bool \<times> string \<times> string) list \<Rightarrow> rmatch option list" where
  "cached_calls c [] = []"
| "cached_calls c ((srch, p, s) # calls) =
     (case (if srch then SearchCached c p s else MatchCached c p s) of
        (c', res) \<Rightarrow> res # cached_calls c' calls)"

lemma cached_calls_ok:
  "cache_ok c \<Longrightarrow> cached_calls c calls =
     map (\<lambda>(srch, p, s). if srch then Search p s else Match p s) calls"
proof (induction c calls rule: cached_calls.induct)
  case (2 c srch p s calls)
  then show ?case
    using MatchCached_Match [of c p s] SearchCached_Search [of c p s]
    by (auto split: prod.splits)
qed simp

text \<open>C5. The compile cache is invisible: any sequence of cached \<open>Match\<close> and \<open>Search\<close> calls that
  starts with the empty cache returns what the uncached calls return.\<close>

theorem cache_invisible:
  "cached_calls Map.empty calls =
     map (\<lambda>(srch, p, s). if srch then Search p s else Match p s) calls"
  by (rule cached_calls_ok) simp

end
