(* ===== verification/FileInfo.thy ===== *)
theory FileInfo
  imports PyPath Matching "HOL-Library.While_Combinator"
begin

text \<open>
  \<open>FileInfo\<close> (tools/cpplint.py): the name of a file relative to the root of its checkout, and its
  parts; and \<open>GetHeaderGuardCPPVariable\<close>.

  The loop that climbs a Subversion checkout has no guard at the root directory: it may never
  end, so it is a \<open>while_option\<close> whose \<open>None\<close> is the outcome \<open>Diverges\<close>. The loop that looks
  for a git or hg root stops at the root directory and is a total function.
\<close>

section \<open>The operations\<close>

definition FullName :: "os \<Rightarrow> string \<Rightarrow> string" where
  "FullName os filename = py_replace (abspath os filename) [bslash] ''/''"

definition has_svn :: "os \<Rightarrow> string \<Rightarrow> bool" where
  "has_svn os d = path_exists os (path_join d ''.svn'')"

definition has_git_or_hg :: "os \<Rightarrow> string \<Rightarrow> bool" where
  "has_git_or_hg os d =
     (path_exists os (path_join d ''.git'') \<or> path_exists os (path_join d ''.hg''))"

definition svn_root :: "os \<Rightarrow> string \<Rightarrow> string option" where
  "svn_root os project_dir =
     map_option fst
       (while_option (\<lambda>(root_dir, one_up_dir). has_svn os one_up_dir)
          (\<lambda>(root_dir, one_up_dir). (dirname root_dir, dirname one_up_dir))
          (project_dir, dirname project_dir))"

function git_root :: "os \<Rightarrow> string \<Rightarrow> string" where
  "git_root os root_dir =
     (if root_dir \<noteq> dirname root_dir \<and> \<not> has_git_or_hg os root_dir
      then git_root os (dirname root_dir)
      else root_dir)"
  by pat_completeness auto
termination
  by (relation "measure (\<lambda>(os, d). length d)") (auto intro: dirname_shorter)

declare git_root.simps [simp del]

definition RepositoryName :: "os \<Rightarrow> string \<Rightarrow> stop + string" where
  "RepositoryName os filename =
     (let fullname = FullName os filename;
          project_dir = dirname fullname
      in if \<not> path_exists os fullname then Inr fullname
         else if has_svn os project_dir then
           (case svn_root os project_dir of
              None \<Rightarrow> Inl Diverges
            | Some root_dir \<Rightarrow>
                Inr (drop (length (commonprefix root_dir project_dir) + 1) fullname))
         else
           let root_dir = git_root os project_dir
           in if has_git_or_hg os root_dir
              then Inr (drop (length (commonprefix root_dir project_dir) + 1) fullname)
              else Inr fullname)"

definition Split_name :: "string \<Rightarrow> string \<times> string \<times> string" where
  "Split_name googlename =
     (let (project, rest) = path_split googlename in (project, splitext rest))"

definition Split_path :: "os \<Rightarrow> string \<Rightarrow> stop + string \<times> string \<times> string" where
  "Split_path os filename = map_sum id Split_name (RepositoryName os filename)"

definition BaseName :: "os \<Rightarrow> string \<Rightarrow> stop + string" where
  "BaseName os filename = map_sum id (\<lambda>(_, base, _). base) (Split_path os filename)"

definition Extension :: "os \<Rightarrow> string \<Rightarrow> stop + string" where
  "Extension os filename = map_sum id (\<lambda>(_, _, ext). ext) (Split_path os filename)"

definition NoExtension :: "os \<Rightarrow> string \<Rightarrow> stop + string" where
  "NoExtension os filename =
     map_sum id (\<lambda>(dir, base, _). join ''/'' [dir, base]) (Split_path os filename)"

definition IsSource :: "os \<Rightarrow> string \<Rightarrow> stop + bool" where
  "IsSource os filename =
     map_sum id (\<lambda>ext. slice_from ext 1 \<in> set [''c'', ''cc'', ''cpp'', ''cxx''])
       (Extension os filename)"

definition GetHeaderGuardCPPVariable :: "os \<Rightarrow> string \<Rightarrow> stop + string" where
  "GetHeaderGuardCPPVariable os filename =
     map_sum id (\<lambda>name. py_upper (Sub (raw ''[-./`s]'') ''_'' name) @ ''_'')
       (RepositoryName os (Sub (raw ''_flymake`.h$'') ''.h'' filename))"

section \<open>The two searches as searches through the parent directories\<close>

lemma git_root_find:
  "git_root os d =
     (case find (has_git_or_hg os) (ancestors d) of Some r \<Rightarrow> r | None \<Rightarrow> last (ancestors d))"
proof (induction os d rule: git_root.induct)
  case (1 os d)
  then show ?case
    by (subst git_root.simps, subst (1 2) ancestors.simps) (auto split: option.splits)
qed

lemma find_last: "find P xs = None \<Longrightarrow> xs \<noteq> [] \<Longrightarrow> \<not> P (last xs)"
  by (simp add: find_None_iff)

lemma git_root_found: "has_git_or_hg os (git_root os d) \<longleftrightarrow> find (has_git_or_hg os) (ancestors d) \<noteq> None"
proof (cases "find (has_git_or_hg os) (ancestors d)")
  case None
  with find_last [OF None] show ?thesis by (simp add: git_root_find)
next
  case (Some r)
  then have "has_git_or_hg os r" by (auto simp: find_Some_iff)
  with Some show ?thesis by (simp add: git_root_find)
qed

lemma git_root_ancestor: "git_root os d \<in> set (ancestors d)"
  by (auto simp: git_root_find find_Some_iff split: option.splits)

text \<open>Climbing while the parent has a mark: the last of the marked run at the start of the
  parent list, unless every parent is marked.\<close>

lemma climb_stops:
  assumes "P d" and "\<not> list_all P (ancestors d)"
  shows "while_option (\<lambda>(r, u). P u) (\<lambda>(r, u). (dirname r, dirname u)) (d, dirname d) =
     Some (let r = last (takeWhile P (ancestors d)) in (r, dirname r))"
  using assms
proof (induction d rule: ancestors.induct)
  case (1 d)
  then have ne: "dirname d \<noteq> d"
    by (cases "dirname d = d") (simp_all add: ancestors.simps [of d])
  have anc: "ancestors d = d # ancestors (dirname d)"
    using ne by (subst ancestors.simps) simp
  show ?case
  proof (cases "P (dirname d)")
    case True
    moreover from 1 anc have "\<not> list_all P (ancestors (dirname d))" by simp
    moreover from True have "takeWhile P (ancestors (dirname d)) \<noteq> []"
      by (simp add: ancestors.simps [of "dirname d"])
    ultimately show ?thesis
      using "1.IH" [OF ne] "1.prems" by (simp add: while_option_unfold anc)
  next
    case False
    have "takeWhile P (ancestors (dirname d)) = []"
      using False by (subst ancestors.simps) simp
    with False "1.prems" show ?thesis by (simp add: while_option_unfold anc)
  qed
qed

lemma ancestors_parent:
  "d \<in> set (ancestors p) \<Longrightarrow> dirname d \<in> set (ancestors p)"
proof (induction p rule: ancestors.induct)
  case (1 p)
  show ?case
  proof (cases "dirname p = p")
    case True
    with "1.prems" show ?thesis by (subst (asm) ancestors.simps) (simp add: ancestors.simps)
  next
    case False
    then have anc: "ancestors p = p # ancestors (dirname p)" by (subst ancestors.simps) simp
    have self: "dirname p \<in> set (ancestors (dirname p))" by (subst ancestors.simps) simp
    from "1.prems" anc consider "d = p" | "d \<in> set (ancestors (dirname p))" by auto
    then show ?thesis using "1.IH" [OF False] anc self by cases auto
  qed
qed

lemma climb_never_stops:
  assumes "list_all P (ancestors p)"
  shows "while_option (\<lambda>(r, u). P u) (\<lambda>(r, u). (dirname r, dirname u)) (p, dirname p) = None"
proof (rule ccontr)
  assume "while_option (\<lambda>(r, u). P u) (\<lambda>(r, u). (dirname r, dirname u)) (p, dirname p) \<noteq> None"
  then obtain s where s: "while_option (\<lambda>(r, u). P u) (\<lambda>(r, u). (dirname r, dirname u))
      (p, dirname p) = Some s" by blast
  have self: "p \<in> set (ancestors p)" by (subst ancestors.simps) simp
  have "snd s \<in> set (ancestors p)"
    by (rule while_option_rule [where P = "\<lambda>s. snd s \<in> set (ancestors p)", OF _ s])
      (auto intro: ancestors_parent self)
  moreover from while_option_stop [OF s] have "\<not> P (snd s)" by (simp add: case_prod_unfold)
  ultimately show False using assms by (auto simp: list_all_iff)
qed

lemma svn_root_eq:
  assumes "has_svn os d"
  shows "svn_root os d =
     (if list_all (has_svn os) (ancestors d) then None
      else Some (last (takeWhile (has_svn os) (ancestors d))))"
  using climb_stops [of "has_svn os", OF assms] climb_never_stops [of "has_svn os" d]
  by (simp add: svn_root_def Let_def)

section \<open>Properties\<close>

text \<open>C19. The repository name of an existing file: in a Subversion checkout, the path below the
  topmost directory of the unbroken run of directories with a \<open>.svn\<close> entry, and the search never
  ends when every directory up to the root has one; otherwise the path below the nearest
  directory with a \<open>.git\<close> or \<open>.hg\<close> entry; the full name when there is none or the file does
  not exist.\<close>

theorem RepositoryName_spec:
  "RepositoryName os filename =
     (let full = FullName os filename; dirs = ancestors (dirname full);
          below = (\<lambda>root. Inr (drop (length root + 1) full))
      in if \<not> path_exists os full then Inr full
         else if has_svn os (dirname full) then
           (if list_all (has_svn os) dirs then Inl Diverges
            else below (last (takeWhile (has_svn os) dirs)))
         else case find (has_git_or_hg os) dirs of
                None \<Rightarrow> Inr full
              | Some root \<Rightarrow> below root)"
proof -
  let ?d = "dirname (FullName os filename)"
  have common: "commonprefix r ?d = r" if "r \<in> set (ancestors ?d)" for r
    by (rule commonprefix_prefix [OF ancestors_prefix [OF that]])
  have top: "last (takeWhile (has_svn os) (ancestors ?d)) \<in> set (ancestors ?d)"
    if "has_svn os ?d"
  proof -
    have "takeWhile (has_svn os) (ancestors ?d) \<noteq> []"
      using that by (subst ancestors.simps) simp
    then show ?thesis using last_in_set set_takeWhileD by metis
  qed
  have git: "git_root os ?d = r" if "find (has_git_or_hg os) (ancestors ?d) = Some r" for r
    by (simp add: git_root_find that)
  show ?thesis
    unfolding RepositoryName_def Let_def
    using git_root_found [of os ?d] git git_root_ancestor [of os ?d]
    by (auto simp: svn_root_eq common top split: option.splits)
qed

end
