(* ===== verification/LintState.thy ===== *)
theory LintState
  imports Matching
begin

text \<open>
  The global state of the linter (tools/cpplint.py): the options and counters of
  \<open>_CppLintState\<close>, the NOLINT table \<open>_error_suppressions\<close>, and what has been written to
  standard error; and the function \<open>Error\<close> that every check is given as its \<open>error\<close> argument.

  An action on this state (\<open>'a act\<close>) returns the new state together with a value or the exception
  that ended it; the state is kept in both cases, as Python keeps it.

  Names that start with an underscore in the source lose it here.
\<close>

section \<open>The state\<close>

definition ERROR_CATEGORIES :: "string list" where
  "ERROR_CATEGORIES =
     [
      ''build/class'', ''build/deprecated'', ''build/endif_comment'',
      ''build/forward_decl'', ''build/header_guard'', ''build/include'',
      ''build/include_alpha'', ''build/include_order'', ''build/include_what_you_use'',
      ''build/namespaces'', ''build/printf_format'', ''build/storage_class'',
      ''legal/copyright'', ''readability/braces'', ''readability/casting'',
      ''readability/check'', ''readability/constructors'', ''readability/fn_size'',
      ''readability/function'', ''readability/multiline_comment'', ''readability/multiline_string'',
      ''readability/nolint'', ''readability/streams'', ''readability/todo'',
      ''readability/utf8'', ''runtime/arrays'', ''runtime/casting'',
      ''runtime/explicit'', ''runtime/int'', ''runtime/init'',
      ''runtime/invalid_increment'', ''runtime/member_string_references'', ''runtime/memset'',
      ''runtime/operator'', ''runtime/printf'', ''runtime/printf_format'',
      ''runtime/references'', ''runtime/rtti'', ''runtime/sizeof'',
      ''runtime/string'', ''runtime/threadsafe_fn'', ''runtime/virtual'',
      ''whitespace/blank_line'', ''whitespace/braces'', ''whitespace/comma'',
      ''whitespace/comments'', ''whitespace/end_of_line'', ''whitespace/ending_newline'',
      ''whitespace/indent'', ''whitespace/labels'', ''whitespace/line_length'',
      ''whitespace/newline'', ''whitespace/operators'', ''whitespace/parens'',
      ''whitespace/semicolon'', ''whitespace/tab'', ''whitespace/todo'']"

definition DEFAULT_FILTERS :: "string list" where
  "DEFAULT_FILTERS = [''-build/include_alpha'']"

record lint_state =
  verbose_level :: int
  error_count :: nat
  filters :: "string list"
  counting :: string
  errors_by_category :: "(string \<times> nat) list"
  output_format :: string

definition init_lint :: lint_state where
  "init_lint =
     \<lparr>verbose_level = 1, error_count = 0, filters = DEFAULT_FILTERS, counting = ''total'',
      errors_by_category = [], output_format = ''emacs''\<rparr>"

type_synonym suppressions = "string option \<rightharpoonup> int set"

record world =
  lint :: lint_state
  suppressed :: suppressions
  stderr :: "string list"

definition init_world :: world where
  "init_world = \<lparr>lint = init_lint, suppressed = Map.empty, stderr = []\<rparr>"

type_synonym 'a act = "world \<Rightarrow> world \<times> (stop + 'a)"

definition retA :: "'a \<Rightarrow> 'a act" where
  "retA x w = (w, Inr x)"

definition raiseA :: "stop \<Rightarrow> 'a act" where
  "raiseA e w = (w, Inl e)"

definition bindA :: "'a act \<Rightarrow> ('a \<Rightarrow> 'b act) \<Rightarrow> 'b act" where
  "bindA m f w =
     (case m w of
        (w', Inl e) \<Rightarrow> (w', Inl e)
      | (w', Inr x) \<Rightarrow> f x w')"

definition whenA :: "bool \<Rightarrow> unit act \<Rightarrow> unit act" where
  "whenA b m = (if b then m else retA ())"

definition write_err :: "string \<Rightarrow> unit act" where
  "write_err s w = (w\<lparr>stderr := stderr w @ [s]\<rparr>, Inr ())"

lemma bindA_retA [simp]: "bindA (retA x) f = f x"
  by (simp add: bindA_def retA_def fun_eq_iff)

lemma bindA_raiseA [simp]: "bindA (raiseA e) f = raiseA e"
  by (simp add: bindA_def raiseA_def fun_eq_iff)

section \<open>Options and counters\<close>

definition SetOutputFormat :: "string \<Rightarrow> lint_state \<Rightarrow> lint_state" where
  "SetOutputFormat f s = s\<lparr>output_format := f\<rparr>"

definition SetVerboseLevel :: "int \<Rightarrow> lint_state \<Rightarrow> lint_state \<times> int" where
  "SetVerboseLevel level s = (s\<lparr>verbose_level := level\<rparr>, verbose_level s)"

definition SetCountingStyle :: "string \<Rightarrow> lint_state \<Rightarrow> lint_state" where
  "SetCountingStyle style s = s\<lparr>counting := style\<rparr>"

definition signed :: "string \<Rightarrow> bool" where
  "signed filt = (startswith filt ''+'' \<or> startswith filt ''-'')"

fun check_filters :: "string list \<Rightarrow> stop + unit" where
  "check_filters [] = Inr ()"
| "check_filters (filt # fs) =
     (if signed filt then check_filters fs
      else Inl (ValueError
             (''Every filter in --filters must start with + or - ('' @ filt @ '' does not)'')))"

text \<open>The new filters are stored before they are checked. The argument is a byte string, whose
  \<open>strip\<close> removes ASCII white space.\<close>

definition SetFilters :: "string \<Rightarrow> lint_state \<Rightarrow> lint_state \<times> (stop + unit)" where
  "SetFilters fs s =
     (let clean = filter (\<lambda>f. f \<noteq> []) (map (strip_set ascii_space) (split_on '','' fs));
          s' = s\<lparr>filters := DEFAULT_FILTERS @ clean\<rparr>
      in (s', check_filters (filters s')))"

definition ResetErrorCounts :: "lint_state \<Rightarrow> lint_state" where
  "ResetErrorCounts s = s\<lparr>error_count := 0, errors_by_category := []\<rparr>"

definition bump :: "string \<Rightarrow> (string \<times> nat) list \<Rightarrow> (string \<times> nat) list" where
  "bump k d = assoc_set k (Suc (case map_of d k of None \<Rightarrow> 0 | Some n \<Rightarrow> n)) d"

definition IncrementErrorCount :: "string \<Rightarrow> lint_state \<Rightarrow> lint_state" where
  "IncrementErrorCount category s =
     (let s' = s\<lparr>error_count := Suc (error_count s)\<rparr>
      in if counting s = ''toplevel'' \<or> counting s = ''detailed'' then
           (let category' = (if counting s \<noteq> ''detailed'' then before_first category ''/''
                             else category)
            in s'\<lparr>errors_by_category := bump category' (errors_by_category s)\<rparr>)
         else s')"

text \<open>A dictionary's iteration order is not specified in Python 2: \<open>order\<close> stands for it.\<close>

definition PrintErrorCounts ::
    "((string \<times> nat) list \<Rightarrow> (string \<times> nat) list) \<Rightarrow> lint_state \<Rightarrow> string list" where
  "PrintErrorCounts order s =
     map (\<lambda>(category, n). ''Category '' @ [CHR 0x27] @ category @ [CHR 0x27]
            @ '' errors found: '' @ str_of_nat n @ [CHR 0x0A]) (order (errors_by_category s))
     @ [''Total errors found: '' @ str_of_nat (error_count s) @ [CHR 0x0A]]"

section \<open>Suppression, filters and Error\<close>

definition suppressed_lines :: "suppressions \<Rightarrow> string option \<Rightarrow> int set" where
  "suppressed_lines nolint k = (case nolint k of None \<Rightarrow> {} | Some ls \<Rightarrow> ls)"

definition IsErrorSuppressedByNolint :: "suppressions \<Rightarrow> string \<Rightarrow> int \<Rightarrow> bool" where
  "IsErrorSuppressedByNolint nolint category linenum =
     (linenum \<in> suppressed_lines nolint (Some category) \<or> linenum \<in> suppressed_lines nolint None)"

definition ResetNolintSuppressions :: "world \<Rightarrow> world" where
  "ResetNolintSuppressions w = w\<lparr>suppressed := Map.empty\<rparr>"

fun filter_loop :: "string \<Rightarrow> string list \<Rightarrow> bool \<Rightarrow> stop + bool" where
  "filter_loop category [] is_filtered = Inr is_filtered"
| "filter_loop category (f # fs) is_filtered =
     (if startswith f ''-'' then
        filter_loop category fs (if startswith category (slice_from f 1) then True else is_filtered)
      else if startswith f ''+'' then
        filter_loop category fs (if startswith category (slice_from f 1) then False else is_filtered)
      else Inl AssertionError)"

definition ShouldPrintError :: "world \<Rightarrow> string \<Rightarrow> int \<Rightarrow> int \<Rightarrow> stop + bool" where
  "ShouldPrintError w category confidence linenum =
     (if IsErrorSuppressedByNolint (suppressed w) category linenum then Inr False
      else if confidence < verbose_level (lint w) then Inr False
      else case filter_loop category (filters (lint w)) False of
             Inl e \<Rightarrow> Inl e
           | Inr is_filtered \<Rightarrow> Inr (\<not> is_filtered))"

definition format_error :: "string \<Rightarrow> string \<Rightarrow> report \<Rightarrow> string" where
  "format_error fmt filename r =
     (if fmt = ''vs7''
      then filename @ ''('' @ str_of_int (rline r) @ ''):  ''
      else filename @ '':'' @ str_of_int (rline r) @ '':  '')
     @ rmsg r @ ''  ['' @ rcat r @ ''] ['' @ str_of_int (rconf r) @ '']'' @ [CHR 0x0A]"

definition Error :: "string \<Rightarrow> report \<Rightarrow> unit act" where
  "Error filename r w =
     (case ShouldPrintError w (rcat r) (rconf r) (rline r) of
        Inl e \<Rightarrow> (w, Inl e)
      | Inr False \<Rightarrow> (w, Inr ())
      | Inr True \<Rightarrow>
          (w\<lparr>lint := IncrementErrorCount (rcat r) (lint w),
             stderr := stderr w @ [format_error (output_format (lint w)) filename r]\<rparr>, Inr ()))"

text \<open>The reports of a check, given to \<open>error\<close> one after the other.\<close>

fun emit :: "('r \<Rightarrow> 's \<Rightarrow> 's \<times> (stop + unit)) \<Rightarrow> 'r list \<Rightarrow> 's \<Rightarrow> 's \<times> (stop + unit)" where
  "emit error [] w = (w, Inr ())"
| "emit error (r # rs) w =
     (case error r w of
        (w', Inl e) \<Rightarrow> (w', Inl e)
      | (w', Inr u) \<Rightarrow> emit error rs w')"

text \<open>Run a check with \<open>error\<close> as its callback.\<close>

definition run_check :: "(report \<Rightarrow> unit act) \<Rightarrow> 'a chk \<Rightarrow> 'a act" where
  "run_check error m w =
     (case emit error (fst m) w of
        (w', Inl e) \<Rightarrow> (w', Inl e)
      | (w', Inr u) \<Rightarrow> (w', snd m))"

end
