(* ===== verification/Reporting.thy ===== *)
theory Reporting
  imports LintState
begin

text \<open>
  What the reporting machinery of \<open>LintState\<close> guarantees: which errors the filters, the verbosity
  and the NOLINT table let through, what one call of \<open>Error\<close> changes, and what a whole sequence
  of reports prints and counts.

  The interface between the checks and their callback is the locale \<open>error_handler\<close>; \<open>Error\<close>
  is its instance in the program.
\<close>

section \<open>Filters: the last one that applies decides\<close>

definition filters_ok :: "lint_state \<Rightarrow> bool" where
  "filters_ok s \<longleftrightarrow> (\<forall>f \<in> set (filters s). signed f)"

definition applies :: "string \<Rightarrow> string \<Rightarrow> bool" where
  "applies category f = startswith category (slice_from f 1)"

definition passes_filters :: "string \<Rightarrow> string list \<Rightarrow> bool" where
  "passes_filters category fs =
     (case rev (filter (applies category) fs) of
        [] \<Rightarrow> True
      | f # _ \<Rightarrow> startswith f ''+'')"

lemma signed_exclusive: "startswith f ''-'' \<Longrightarrow> \<not> startswith f ''+''"
  by (auto simp: startswith_iff)

lemma filter_loop_append:
  "filter_loop c (fs @ gs) b =
     (case filter_loop c fs b of Inl e \<Rightarrow> Inl e | Inr b' \<Rightarrow> filter_loop c gs b')"
  by (induction c fs b rule: filter_loop.induct) auto

lemma filter_loop_signed:
  assumes "\<forall>f \<in> set fs. signed f"
  shows "filter_loop c fs False = Inr (\<not> passes_filters c fs)"
  using assms
proof (induction fs rule: rev_induct)
  case (snoc f fs)
  then show ?case
    by (auto simp: filter_loop_append passes_filters_def applies_def signed_def signed_exclusive
        split: list.splits)
qed (simp add: passes_filters_def)

lemma filter_loop_total_iff:
  "(\<exists>b'. filter_loop c fs b = Inr b') \<longleftrightarrow> (\<forall>f \<in> set fs. signed f)"
  by (induction c fs b rule: filter_loop.induct) (auto simp: signed_def)

lemma check_filters_iff: "check_filters fs = Inr () \<longleftrightarrow> (\<forall>f \<in> set fs. signed f)"
  by (induction fs) auto

lemma check_filters_cases: "check_filters fs = Inr () \<or> (\<exists>m. check_filters fs = Inl (ValueError m))"
  by (induction fs) auto

definition printable :: "world \<Rightarrow> report \<Rightarrow> bool" where
  "printable w r \<longleftrightarrow>
     \<not> IsErrorSuppressedByNolint (suppressed w) (rcat r) (rline r) \<and>
     verbose_level (lint w) \<le> rconf r \<and>
     passes_filters (rcat r) (filters (lint w))"

lemma ShouldPrintError_printable:
  "filters_ok (lint w) \<Longrightarrow>
     ShouldPrintError w (rcat r) (rconf r) (rline r) = Inr (printable w r)"
  by (auto simp: ShouldPrintError_def filter_loop_signed filters_ok_def printable_def)

section \<open>Counters\<close>

definition counts_by_category :: "lint_state \<Rightarrow> bool" where
  "counts_by_category s \<longleftrightarrow> counting s = ''toplevel'' \<or> counting s = ''detailed''"

definition count_key :: "lint_state \<Rightarrow> string \<Rightarrow> string" where
  "count_key s category = (if counting s = ''detailed'' then category
                           else before_first category ''/'')"

definition category_count :: "lint_state \<Rightarrow> string \<Rightarrow> nat" where
  "category_count s k = (case map_of (errors_by_category s) k of None \<Rightarrow> 0 | Some n \<Rightarrow> n)"

text \<open>The categories are counted once each, and their counts add up to the total.\<close>

definition counts_ok :: "lint_state \<Rightarrow> bool" where
  "counts_ok s \<longleftrightarrow>
     distinct (map fst (errors_by_category s)) \<and>
     (counts_by_category s \<longrightarrow> sum_list (map snd (errors_by_category s)) = error_count s)"

lemma sum_bump:
  "distinct (map fst d) \<Longrightarrow> sum_list (map snd (bump k d)) = Suc (sum_list (map snd d))"
proof (induction d)
  case (Cons x d)
  then show ?case by (cases x) (auto simp: bump_def)
qed (simp add: bump_def)

lemma IncrementErrorCount_fields [simp]:
  "error_count (IncrementErrorCount c s) = Suc (error_count s)"
  "verbose_level (IncrementErrorCount c s) = verbose_level s"
  "filters (IncrementErrorCount c s) = filters s"
  "counting (IncrementErrorCount c s) = counting s"
  "output_format (IncrementErrorCount c s) = output_format s"
  by (simp_all add: IncrementErrorCount_def Let_def)

lemma errors_by_category_Increment:
  "errors_by_category (IncrementErrorCount c s) =
     (if counts_by_category s then bump (count_key s c) (errors_by_category s)
      else errors_by_category s)"
  by (auto simp: IncrementErrorCount_def Let_def counts_by_category_def count_key_def)

lemma counts_ok_Increment: "counts_ok s \<Longrightarrow> counts_ok (IncrementErrorCount c s)"
  by (auto simp: counts_ok_def errors_by_category_Increment sum_bump counts_by_category_def)
    (auto simp: bump_def)

lemma counts_ok_Reset: "counts_ok (ResetErrorCounts s)"
  by (simp add: counts_ok_def ResetErrorCounts_def)

lemma category_count_Increment:
  "category_count (IncrementErrorCount c s) k =
     category_count s k + (if counts_by_category s \<and> count_key s c = k then 1 else 0)"
  by (auto simp: category_count_def errors_by_category_Increment bump_def split: option.splits)

section \<open>The callback of the checks\<close>

text \<open>
  A handler of reports keeps its state usable (\<open>ok\<close>), never raises on a usable state, appends
  its messages for the report to the output, and does not change how later reports are treated.
\<close>

locale error_handler =
  fixes error :: "'r \<Rightarrow> 's \<Rightarrow> 's \<times> (stop + unit)"
    and ok :: "'s \<Rightarrow> bool"
    and out :: "'s \<Rightarrow> 'm list"
    and msgs :: "'s \<Rightarrow> 'r \<Rightarrow> 'm list"
  assumes handled: "ok s \<Longrightarrow> snd (error r s) = Inr ()"
    and keeps_ok: "ok s \<Longrightarrow> ok (fst (error r s))"
    and appends: "ok s \<Longrightarrow> out (fst (error r s)) = out s @ msgs s r"
    and stable: "ok s \<Longrightarrow> msgs (fst (error r s)) = msgs s"
begin

lemma emit_all:
  assumes "ok s"
  shows "snd (emit error rs s) = Inr () \<and> ok (fst (emit error rs s)) \<and>
     out (fst (emit error rs s)) = out s @ concat (map (msgs s) rs) \<and>
     msgs (fst (emit error rs s)) = msgs s"
  using assms
proof (induction rs arbitrary: s)
  case (Cons r rs)
  obtain s' u where e: "error r s = (s', u)" by (cases "error r s")
  with handled [OF Cons.prems] have u: "u = Inr ()" by (metis snd_conv)
  from e keeps_ok [OF Cons.prems] have "ok s'" by (metis fst_conv)
  from Cons.IH [OF this] e u appends [OF Cons.prems, of r] stable [OF Cons.prems, of r]
  show ?case by simp
qed simp

lemma emit_append:
  assumes "ok s"
  shows "emit error (rs @ rs') s = emit error rs' (fst (emit error rs s))"
  using assms
proof (induction rs arbitrary: s)
  case (Cons r rs)
  obtain s' u where e: "error r s = (s', u)" by (cases "error r s")
  with handled [OF Cons.prems] have u: "u = Inr ()" by (metis snd_conv)
  from e keeps_ok [OF Cons.prems] have "ok s'" by (metis fst_conv)
  from Cons.IH [OF this] e u show ?case by simp
qed simp

end

definition world_ok :: "world \<Rightarrow> bool" where
  "world_ok w \<longleftrightarrow> filters_ok (lint w) \<and> counts_ok (lint w)"

definition messages :: "string \<Rightarrow> world \<Rightarrow> report \<Rightarrow> string list" where
  "messages filename w r =
     (if printable w r then [format_error (output_format (lint w)) filename r] else [])"

lemma Error_eq:
  assumes "filters_ok (lint w)"
  shows "Error filename r w =
     (if printable w r
      then w\<lparr>lint := IncrementErrorCount (rcat r) (lint w),
             stderr := stderr w @ messages filename w r\<rparr>
      else w, Inr ())"
  by (simp add: Error_def ShouldPrintError_printable [OF assms] messages_def)

lemma Error_frame:
  assumes "filters_ok (lint w)"
  shows "suppressed (fst (Error f r w)) = suppressed w"
    and "filters (lint (fst (Error f r w))) = filters (lint w)"
    and "verbose_level (lint (fst (Error f r w))) = verbose_level (lint w)"
    and "counting (lint (fst (Error f r w))) = counting (lint w)"
    and "output_format (lint (fst (Error f r w))) = output_format (lint w)"
  by (simp_all add: Error_eq [OF assms])

lemma printable_Error: "filters_ok (lint w) \<Longrightarrow> printable (fst (Error f r w)) = printable w"
  by (simp add: printable_def Error_frame fun_eq_iff)

interpretation err: error_handler "Error filename" world_ok stderr "messages filename"
  for filename
proof
  fix w r
  assume ok: "world_ok w"
  then have f: "filters_ok (lint w)" by (simp add: world_ok_def)
  show "snd (Error filename r w) = Inr ()" by (simp add: Error_eq [OF f])
  show "world_ok (fst (Error filename r w))"
    using ok by (auto simp: world_ok_def Error_eq [OF f] filters_ok_def counts_ok_Increment)
  show "stderr (fst (Error filename r w)) = stderr w @ messages filename w r"
    by (simp add: Error_eq [OF f] messages_def)
  show "messages filename (fst (Error filename r w)) = messages filename w"
    by (simp add: messages_def fun_eq_iff printable_Error [OF f] Error_frame [OF f])
qed

section \<open>Properties\<close>

text \<open>C2. With well-formed filters, an error is printed exactly when its line is not suppressed
  for its category, its confidence reaches the verbosity, and the last filter whose text is a
  prefix of the category is a \<open>+\<close> filter (or none is): later filters override earlier ones.\<close>

theorem ShouldPrintError_last_filter_wins:
  assumes "filters_ok (lint w)"
  shows "ShouldPrintError w category confidence linenum =
     Inr (\<not> IsErrorSuppressedByNolint (suppressed w) category linenum \<and>
          verbose_level (lint w) \<le> confidence \<and>
          (case rev (filter (applies category) (filters (lint w))) of
             [] \<Rightarrow> True
           | f # _ \<Rightarrow> startswith f ''+''))"
  using ShouldPrintError_printable [OF assms, of "Report linenum category confidence []"]
  by (simp add: printable_def passes_filters_def)

theorem ShouldPrintError_last_filter_wins_witness:
  "ShouldPrintError
     (init_world\<lparr>lint := init_lint\<lparr>filters := [''-build'', ''+build/include'']\<rparr>\<rparr>)
     ''build/include_alpha'' 3 7 = Inr True"
proof -
  let ?w = "init_world\<lparr>lint := init_lint\<lparr>filters := [''-build'', ''+build/include'']\<rparr>\<rparr>"
  have "filters_ok (lint ?w)"
    by (simp add: filters_ok_def signed_def startswith_def)
  then show ?thesis
    by (subst ShouldPrintError_last_filter_wins)
      (simp_all add: applies_def startswith_def slice_from_def clamp_index_def init_world_def
        init_lint_def IsErrorSuppressedByNolint_def suppressed_lines_def)
qed


lemma emit_Cons_Error:
  assumes "world_ok w"
  shows "emit (Error f) (r # rs) w = emit (Error f) rs (fst (Error f r w))"
proof -
  from assms have "filters_ok (lint w)" by (simp add: world_ok_def)
  then show ?thesis by (simp add: Error_eq)
qed

lemma emit_counts:
  assumes "world_ok w"
  shows "error_count (lint (fst (emit (Error f) rs w))) =
           error_count (lint w) + length (filter (printable w) rs) \<and>
         category_count (lint (fst (emit (Error f) rs w))) k = category_count (lint w) k +
           (if counts_by_category (lint w)
            then length (filter (\<lambda>r. count_key (lint w) (rcat r) = k) (filter (printable w) rs))
            else 0) \<and>
         suppressed (fst (emit (Error f) rs w)) = suppressed w"
  using assms
proof (induction rs arbitrary: w)
  case (Cons r rs)
  let ?w = "fst (Error f r w)"
  from Cons.prems have ok: "filters_ok (lint w)" by (simp add: world_ok_def)
  note IH = Cons.IH [OF err.keeps_ok [OF Cons.prems], of f r, unfolded printable_Error [OF ok]]
  have frame: "counts_by_category (lint ?w) = counts_by_category (lint w)"
    "count_key (lint ?w) = count_key (lint w)"
    by (simp_all add: counts_by_category_def count_key_def Error_frame [OF ok] fun_eq_iff)
  have step: "error_count (lint ?w) = error_count (lint w) + (if printable w r then 1 else 0)"
    "category_count (lint ?w) k = category_count (lint w) k +
       (if printable w r \<and> counts_by_category (lint w) \<and> count_key (lint w) (rcat r) = k
        then 1 else 0)"
    by (simp_all add: Error_eq [OF ok] category_count_Increment)
  from IH show ?case
    unfolding emit_Cons_Error [OF Cons.prems] frame step
    by (simp add: Error_frame [OF ok])
qed simp

text \<open>C1. Accounting: giving a sequence of reports to \<open>Error\<close> never raises, prints exactly the
  printable ones in order, one message each, raises the total by their number and each
  category's count (when counting by category) by the number of them in that category, and keeps
  the counters consistent: the categories are distinct and their counts sum up to the total.\<close>

theorem Error_accounting:
  assumes "world_ok w"
  shows "snd (emit (Error f) rs w) = Inr () \<and>
     stderr (fst (emit (Error f) rs w)) =
       stderr w @ map (format_error (output_format (lint w)) f) (filter (printable w) rs) \<and>
     error_count (lint (fst (emit (Error f) rs w))) =
       error_count (lint w) + length (filter (printable w) rs) \<and>
     (\<forall>k. category_count (lint (fst (emit (Error f) rs w))) k = category_count (lint w) k +
        (if counts_by_category (lint w)
         then length (filter (\<lambda>r. count_key (lint w) (rcat r) = k) (filter (printable w) rs))
         else 0)) \<and>
     world_ok (fst (emit (Error f) rs w))"
proof -
  have "concat (map (messages f w) rs) =
      map (format_error (output_format (lint w)) f) (filter (printable w) rs)"
    by (induction rs) (auto simp: messages_def)
  with err.emit_all [OF assms, of f rs] emit_counts [OF assms, of f rs] show ?thesis by simp
qed

theorem Error_accounting_witness:
  "stderr (fst (emit (Error ''a.cc'')
      [Report 3 ''whitespace/tab'' 1 ''Tab'', Report 4 ''build/include_alpha'' 4 ''x'']
      (init_world\<lparr>lint := init_lint\<lparr>counting := ''toplevel''\<rparr>\<rparr>))) =
     [''a.cc:3:  Tab  [whitespace/tab] [1]'' @ [CHR 0x0A]] \<and>
   category_count (lint (fst (emit (Error ''a.cc'')
      [Report 3 ''whitespace/tab'' 1 ''Tab'', Report 4 ''build/include_alpha'' 4 ''x'']
      (init_world\<lparr>lint := init_lint\<lparr>counting := ''toplevel''\<rparr>\<rparr>)))) ''whitespace'' = 1"
proof -
  let ?w = "init_world\<lparr>lint := init_lint\<lparr>counting := ''toplevel''\<rparr>\<rparr>"
  let ?rs = "[Report 3 ''whitespace/tab'' 1 ''Tab'', Report 4 ''build/include_alpha'' 4 ''x'']"
  have ok: "world_ok ?w"
    by (simp add: world_ok_def filters_ok_def counts_ok_def init_lint_def DEFAULT_FILTERS_def
        signed_def startswith_def)
  have p: "filter (printable ?w) ?rs = [hd ?rs]" by code_simp
  have f: "map (format_error (output_format (lint ?w)) ''a.cc'') [hd ?rs] =
      [''a.cc:3:  Tab  [whitespace/tab] [1]'' @ [CHR 0x0A]]" by code_simp
  have k: "length (filter (\<lambda>r. count_key (lint ?w) (rcat r) = ''whitespace'') [hd ?rs]) = 1"
    by code_simp
  have z: "stderr ?w = []" "category_count (lint ?w) ''whitespace'' = 0"
    "counts_by_category (lint ?w)"
    by (simp_all add: init_world_def init_lint_def category_count_def counts_by_category_def)
  note acc = Error_accounting [OF ok, of "''a.cc''" ?rs]
  from acc have "stderr (fst (emit (Error ''a.cc'') ?rs ?w)) =
      [''a.cc:3:  Tab  [whitespace/tab] [1]'' @ [CHR 0x0A]]"
    unfolding p f z(1) append_Nil by blast
  moreover from acc have "category_count (lint (fst (emit (Error ''a.cc'') ?rs ?w)))
      ''whitespace'' = category_count (lint ?w) ''whitespace'' +
        (if counts_by_category (lint ?w)
         then length (filter (\<lambda>r. count_key (lint ?w) (rcat r) = ''whitespace'')
                (filter (printable ?w) ?rs)) else 0)" by blast
  then have "category_count (lint (fst (emit (Error ''a.cc'') ?rs ?w))) ''whitespace'' = 1"
    unfolding p k by (simp only: z if_True)
  ultimately show ?thesis by simp
qed

end
