(* ===== verification/Nolint.thy ===== *)
theory Nolint
  imports Reporting
begin

text \<open>
  NOLINT comments (tools/cpplint.py, \<open>ParseNolintSuppressions\<close>): a line that holds \<open>NOLINT\<close> or
  \<open>NOLINT(category)\<close> enters its number into the table that \<open>Error\<close> consults.
\<close>

definition suppress :: "string option \<Rightarrow> int \<Rightarrow> world \<Rightarrow> world" where
  "suppress k linenum w =
     w\<lparr>suppressed := (suppressed w)(k \<mapsto> insert linenum (suppressed_lines (suppressed w) k))\<rparr>"

definition RE_SUPPRESSION :: string where
  "RE_SUPPRESSION = raw ''`bNOLINT`b(`([^)]*`))?''"

definition ParseNolintSuppressions ::
    "(report \<Rightarrow> unit act) \<Rightarrow> string \<Rightarrow> int \<Rightarrow> unit act" where
  "ParseNolintSuppressions error raw_line linenum w =
     (case Search RE_SUPPRESSION raw_line of
        None \<Rightarrow> (w, Inr ())
      | Some m \<Rightarrow>
          (case group m 1 of
             None \<Rightarrow> (suppress None linenum w, Inr ())
           | Some category \<Rightarrow>
               if category = ''(*)'' then (suppress None linenum w, Inr ())
               else if startswith category ''('' \<and> endswith category '')'' then
                 (let category' = slice_to (slice_from category 1) (-1)
                  in if category' \<in> set ERROR_CATEGORIES
                     then (suppress (Some category') linenum w, Inr ())
                     else error (Report linenum ''readability/nolint'' 5
                                   (''Unknown NOLINT error category: '' @ category')) w)
               else (w, Inr ())))"

section \<open>What a NOLINT comment covers\<close>

definition nolint_covers :: "string \<Rightarrow> string \<Rightarrow> bool" where
  "nolint_covers raw_line category \<longleftrightarrow>
     (case Search RE_SUPPRESSION raw_line of
        None \<Rightarrow> False
      | Some m \<Rightarrow>
          (case group m 1 of
             None \<Rightarrow> True
           | Some g \<Rightarrow> g = ''(*)'' \<or>
               (g = ''('' @ category @ '')'' \<and> category \<in> set ERROR_CATEGORIES)))"

lemma suppress_simps [simp]:
  "lint (suppress k n w) = lint w" "stderr (suppress k n w) = stderr w"
  by (simp_all add: suppress_def)

lemma IsErrorSuppressed_suppress:
  "IsErrorSuppressedByNolint (suppressed (suppress k n w)) c l \<longleftrightarrow>
     IsErrorSuppressedByNolint (suppressed w) c l \<or> (l = n \<and> (k = None \<or> k = Some c))"
  by (auto simp: IsErrorSuppressedByNolint_def suppressed_lines_def suppress_def
      split: option.splits if_splits)

lemma parenthesized:
  "startswith g ''('' \<and> endswith g '')'' \<longleftrightarrow> (\<exists>c. g = ''('' @ c @ '')'')"
proof
  assume g: "startswith g ''('' \<and> endswith g '')''"
  then obtain a b where a: "g = ''('' @ a" and b: "g = b @ '')''"
    unfolding startswith_iff endswith_iff by blast
  from a b have "''('' @ a = b @ '')''" by simp
  with b show "\<exists>c. g = ''('' @ c @ '')''" by (cases b) auto
qed (auto simp: startswith_def endswith_iff)

lemma inner_of_parenthesized [simp]:
  "slice_to (slice_from (''('' @ c @ '')'') 1) (-1) = c"
proof -
  have "slice_from (''('' @ c @ '')'') 1 = c @ '')''"
    by (simp add: slice_from_def clamp_index_def)
  then show ?thesis using slice_to_drop_suffix [of "'')''" c] by simp
qed

text \<open>The result of one call, by what the line says.\<close>

lemma ParseNolint_cases:
  obtains (nothing) "Search RE_SUPPRESSION s = None"
      "ParseNolintSuppressions error s n = (\<lambda>w. (w, Inr ()))"
  | (all) m where "Search RE_SUPPRESSION s = Some m"
      "group m 1 = None \<or> group m 1 = Some ''(*)''"
      "ParseNolintSuppressions error s n = (\<lambda>w. (suppress None n w, Inr ()))"
  | (known) m c where "Search RE_SUPPRESSION s = Some m" "group m 1 = Some (''('' @ c @ '')'')"
      "''('' @ c @ '')'' \<noteq> ''(*)''" "c \<in> set ERROR_CATEGORIES"
      "ParseNolintSuppressions error s n = (\<lambda>w. (suppress (Some c) n w, Inr ()))"
  | (unknown) m c where "Search RE_SUPPRESSION s = Some m"
      "group m 1 = Some (''('' @ c @ '')'')"
      "''('' @ c @ '')'' \<noteq> ''(*)''" "c \<notin> set ERROR_CATEGORIES"
      "ParseNolintSuppressions error s n =
         error (Report n ''readability/nolint'' 5 (''Unknown NOLINT error category: '' @ c))"
  | (other) m g where "Search RE_SUPPRESSION s = Some m" "group m 1 = Some g"
      "\<nexists>c. g = ''('' @ c @ '')''"
      "ParseNolintSuppressions error s n = (\<lambda>w. (w, Inr ()))"
proof (cases "Search RE_SUPPRESSION s")
  case None
  then show ?thesis
    by (rule nothing) (simp add: ParseNolintSuppressions_def None fun_eq_iff)
next
  case S: (Some m)
  show ?thesis
  proof (cases "group m 1")
    case None
    with S show ?thesis
      by (intro all [OF S]) (simp_all add: ParseNolintSuppressions_def fun_eq_iff del: One_nat_def)
  next
    case G: (Some g)
    show ?thesis
    proof (cases "\<exists>c. g = ''('' @ c @ '')''")
      case False
      then have n: "\<not> (startswith g ''('' \<and> endswith g '')'')" by (simp only: parenthesized) blast
      moreover from False have "g \<noteq> ''(*)''" by (metis append_Cons append_Nil)
      ultimately have "ParseNolintSuppressions error s n = (\<lambda>w. (w, Inr ()))"
        using n by (auto simp: ParseNolintSuppressions_def fun_eq_iff S G simp del: One_nat_def)
      then show ?thesis by (rule other [OF S G False])
    next
      case True
      then obtain c where c: "g = ''('' @ c @ '')''" by blast
      then have p: "startswith g ''(''" "endswith g '')''" using parenthesized [of g] by blast+
      have i: "slice_to (slice_from g 1) (-1) = c" unfolding c by (rule inner_of_parenthesized)
      have eq: "ParseNolintSuppressions error s n w =
          (if g = ''(*)'' then (suppress None n w, Inr ())
           else if c \<in> set ERROR_CATEGORIES then (suppress (Some c) n w, Inr ())
           else error (Report n ''readability/nolint'' 5
                         (''Unknown NOLINT error category: '' @ c)) w)" for w
        by (simp add: ParseNolintSuppressions_def S G p i Let_def del: One_nat_def append_Cons)
      consider "g = ''(*)''" | "g \<noteq> ''(*)''" "c \<in> set ERROR_CATEGORIES"
        | "g \<noteq> ''(*)''" "c \<notin> set ERROR_CATEGORIES" by blast
      then show ?thesis
      proof cases
        case 1
        then show ?thesis by (intro all [OF S]) (simp_all add: eq G fun_eq_iff del: One_nat_def)
      next
        case 2
        then show ?thesis
          by (intro known [OF S G [unfolded c]]) (simp_all add: eq fun_eq_iff c)
      next
        case 3
        then show ?thesis
          by (intro unknown [OF S G [unfolded c]]) (simp_all add: eq fun_eq_iff c)
      qed
    qed
  qed
qed

lemma ParseNolint_suppressed:
  assumes "filters_ok (lint w)"
  shows "IsErrorSuppressedByNolint
           (suppressed (fst (ParseNolintSuppressions (Error f) s n w))) c l \<longleftrightarrow>
         IsErrorSuppressedByNolint (suppressed w) c l \<or> (l = n \<and> nolint_covers s c)"
  by (cases rule: ParseNolint_cases [of s "Error f" n])
    (auto simp: nolint_covers_def IsErrorSuppressed_suppress Error_frame [OF assms])

lemma ParseNolint_ok:
  assumes "world_ok w"
  shows "snd (ParseNolintSuppressions (Error f) s n w) = Inr () \<and>
         world_ok (fst (ParseNolintSuppressions (Error f) s n w))"
  by (cases rule: ParseNolint_cases [of s "Error f" n])
    (use assms err.handled [OF assms] err.keeps_ok [OF assms] in
      \<open>auto simp: world_ok_def\<close>)

end
