(* ===== verification/Cleanse.thy ===== *)
theory Cleanse
  imports Matching
begin

text \<open>
  Preparing the lines of a file (tools/cpplint.py): multi-line comments are overwritten by
  \<open>RemoveMultiLineComments\<close>, and \<open>CleansedLines\<close> keeps three copies of the lines: as they are,
  without comments, and without comments and with empty strings.

  Line numbers are indices into the list of lines; the loops over them are recursive functions
  whose distance to the end of the list decreases. \<open>comments_spec\<close> is what the removal is meant
  to compute, by recursion on the list of lines.
\<close>

section \<open>Multi-line comments\<close>

definition starts_comment :: "string \<Rightarrow> bool" where
  "starts_comment line =
     (startswith (py_strip line) ''/*'' \<and> py_find_at (py_strip line) ''*/'' 2 < 0)"

definition ends_comment :: "string \<Rightarrow> bool" where
  "ends_comment line = endswith (py_strip line) ''*/''"

function FindNextMultiLineCommentStart :: "string list \<Rightarrow> nat \<Rightarrow> nat" where
  "FindNextMultiLineCommentStart lines lineix =
     (if lineix < length lines then
        if starts_comment (lines ! lineix) then lineix
        else FindNextMultiLineCommentStart lines (Suc lineix)
      else length lines)"
  by pat_completeness auto
termination
  by (relation "measure (\<lambda>(lines, ix). length lines - ix)") auto

function FindNextMultiLineCommentEnd :: "string list \<Rightarrow> nat \<Rightarrow> nat" where
  "FindNextMultiLineCommentEnd lines lineix =
     (if lineix < length lines then
        if ends_comment (lines ! lineix) then lineix
        else FindNextMultiLineCommentEnd lines (Suc lineix)
      else length lines)"
  by pat_completeness auto
termination
  by (relation "measure (\<lambda>(lines, ix). length lines - ix)") auto

declare FindNextMultiLineCommentStart.simps [simp del]
declare FindNextMultiLineCommentEnd.simps [simp del]

definition dummy_line :: string where
  "dummy_line = ''// dummy''"

definition RemoveMultiLineCommentsFromRange ::
    "string list \<Rightarrow> nat \<Rightarrow> nat \<Rightarrow> string list" where
  "RemoveMultiLineCommentsFromRange lines begin_ix end_ix =
     fold (\<lambda>i ls. ls[i := dummy_line]) [begin_ix..<end_ix] lines"

lemma length_fold_dummy [simp]:
  "length (fold (\<lambda>i ls. ls[i := d]) is ls) = length ls"
  by (induction "is" arbitrary: ls) auto

lemma FindStart_ge:
  "lineix \<le> length lines \<Longrightarrow> lineix \<le> FindNextMultiLineCommentStart lines lineix"
proof (induction lines lineix rule: FindNextMultiLineCommentStart.induct)
  case (1 lines lineix)
  show ?case
  proof (cases "lineix < length lines \<and> \<not> starts_comment (lines ! lineix)")
    case True
    with 1 have "Suc lineix \<le> FindNextMultiLineCommentStart lines (Suc lineix)" by simp
    with True show ?thesis by (simp add: FindNextMultiLineCommentStart.simps [of lines lineix])
  qed (use "1.prems" in \<open>auto simp: FindNextMultiLineCommentStart.simps [of lines lineix]\<close>)
qed

lemma FindEnd_ge: "lineix \<le> length lines \<Longrightarrow> lineix \<le> FindNextMultiLineCommentEnd lines lineix"
proof (induction lines lineix rule: FindNextMultiLineCommentEnd.induct)
  case (1 lines lineix)
  show ?case
  proof (cases "lineix < length lines \<and> \<not> ends_comment (lines ! lineix)")
    case True
    with 1 have "Suc lineix \<le> FindNextMultiLineCommentEnd lines (Suc lineix)" by simp
    with True show ?thesis by (simp add: FindNextMultiLineCommentEnd.simps [of lines lineix])
  qed (use "1.prems" in \<open>auto simp: FindNextMultiLineCommentEnd.simps [of lines lineix]\<close>)
qed

function remove_comments_from :: "string list \<Rightarrow> nat \<Rightarrow> string list chk" where
  "remove_comments_from lines lineix =
     (if lineix < length lines then
        let lineix_begin = FindNextMultiLineCommentStart lines lineix
        in if length lines \<le> lineix_begin then ret lines
           else
             let lineix_end = FindNextMultiLineCommentEnd lines lineix_begin
             in if length lines \<le> lineix_end
                then thenC (rep (int lineix_begin + 1) ''readability/multiline_comment'' 5
                              ''Could not find end of multi-line comment'')
                       (ret lines)
                else remove_comments_from
                       (RemoveMultiLineCommentsFromRange lines lineix_begin (Suc lineix_end))
                       (Suc lineix_end)
      else ret lines)"
  by pat_completeness auto
termination
proof (relation "measure (\<lambda>(lines, ix). length lines - ix)", goal_cases)
  case (2 lines lineix b e)
  have "lineix \<le> b" using FindStart_ge [of lineix lines] 2 by simp
  moreover have "b \<le> e" using FindEnd_ge [of b lines] 2 by simp
  ultimately show ?case
    using 2 by (simp add: RemoveMultiLineCommentsFromRange_def)
qed simp

declare remove_comments_from.simps [simp del]

text \<open>The code overwrites the lines of its argument; the model returns the new lines.\<close>

definition RemoveMultiLineComments :: "string list \<Rightarrow> string list chk" where
  "RemoveMultiLineComments lines = remove_comments_from lines 0"

subsection \<open>What it computes\<close>

fun to_comment_end :: "string list \<Rightarrow> (nat \<times> string list) option" where
  "to_comment_end [] = None"
| "to_comment_end (l # ls) =
     (if ends_comment l then Some (1, ls)
      else map_option (\<lambda>(n, rest). (Suc n, rest)) (to_comment_end ls))"

lemma to_comment_end_length:
  "to_comment_end ls = Some (n, rest) \<Longrightarrow> 0 < n \<and> length ls = n + length rest"
  by (induction ls arbitrary: n rest) (auto split: if_splits)

lemma to_comment_end_drop: "to_comment_end ls = Some (n, rest) \<Longrightarrow> drop n ls = rest"
  by (induction ls arbitrary: n rest) (auto split: if_splits)

text \<open>The lines of a comment, from a line that starts one up to the next line that ends one, are
  replaced; \<open>n\<close> is the number of the first line. An unended comment is reported and left.\<close>

function comments_spec :: "nat \<Rightarrow> string list \<Rightarrow> string list chk" where
  "comments_spec n [] = ret []"
| "comments_spec n (l # ls) =
     (if starts_comment l then
        case to_comment_end (l # ls) of
          None \<Rightarrow> thenC (rep (int n + 1) ''readability/multiline_comment'' 5
                           ''Could not find end of multi-line comment'') (ret (l # ls))
        | Some (k, rest) \<Rightarrow>
            bindC (comments_spec (n + k) rest) (\<lambda>rest'. ret (replicate k dummy_line @ rest'))
      else bindC (comments_spec (Suc n) ls) (\<lambda>ls'. ret (l # ls')))"
  by pat_completeness auto
termination
proof (relation "measure (\<lambda>(n, ls). length ls)", goal_cases)
  case (2 n l ls x k rest)
  then have "to_comment_end (l # ls) = Some (k, rest)" by simp
  from to_comment_end_length [OF this] show ?case by simp
qed simp_all

lemma FindEnd_to_comment_end:
  "FindNextMultiLineCommentEnd (pre @ ls) (length pre) =
     (case to_comment_end ls of
        None \<Rightarrow> length pre + length ls
      | Some (k, rest) \<Rightarrow> length pre + k - 1)"
proof (induction ls arbitrary: pre)
  case Nil
  then show ?case by (subst FindNextMultiLineCommentEnd.simps) simp
next
  case (Cons l ls)
  have "FindNextMultiLineCommentEnd (pre @ l # ls) (length pre) =
      (if ends_comment l then length pre
       else FindNextMultiLineCommentEnd ((pre @ [l]) @ ls) (length (pre @ [l])))"
    by (subst FindNextMultiLineCommentEnd.simps) simp
  with Cons.IH [of "pre @ [l]"] show ?case by (auto split: option.split)
qed

lemma RemoveRange_eq:
  assumes "k \<le> length ls"
  shows "RemoveMultiLineCommentsFromRange (pre @ ls) (length pre) (length pre + k) =
     pre @ replicate k dummy_line @ drop k ls"
  using assms
proof (induction k)
  case (Suc k)
  then have "drop k ls = ls ! k # drop (Suc k) ls" by (simp add: Cons_nth_drop_Suc)
  with Suc show ?case
    by (simp add: RemoveMultiLineCommentsFromRange_def list_update_append replicate_append_same
        flip: replicate_Suc)
qed (simp add: RemoveMultiLineCommentsFromRange_def)

lemma FindStart_here:
  "starts_comment l \<Longrightarrow>
     FindNextMultiLineCommentStart (pre @ l # ls) (length pre) = length pre"
  by (subst FindNextMultiLineCommentStart.simps) simp

lemma FindStart_skip:
  "\<not> starts_comment l \<Longrightarrow>
     FindNextMultiLineCommentStart (pre @ l # ls) (length pre) =
     FindNextMultiLineCommentStart (pre @ l # ls) (Suc (length pre))"
  by (subst FindNextMultiLineCommentStart.simps) simp

lemma remove_skip:
  assumes "\<not> starts_comment l"
  shows "remove_comments_from (pre @ l # ls) (length pre) =
     remove_comments_from (pre @ l # ls) (Suc (length pre))"
proof (cases ls)
  case Nil
  with assms show ?thesis
    by (subst (1 2) remove_comments_from.simps)
      (simp add: FindStart_skip, subst FindNextMultiLineCommentStart.simps, simp)
next
  case Cons
  with assms show ?thesis
    by (subst (1 2) remove_comments_from.simps) (simp add: FindStart_skip)
qed

lemma remove_comments_spec:
  "remove_comments_from (pre @ ls) (length pre) =
     bindC (comments_spec (length pre) ls) (\<lambda>ls'. ret (pre @ ls'))"
proof (induction "length pre" ls arbitrary: pre rule: comments_spec.induct)
  case 1
  then show ?case by (subst remove_comments_from.simps) simp
next
  case (2 l ls)
  show ?case
  proof (cases "starts_comment l")
    case False
    from "2"(2) [OF False, of "pre @ [l]"]
    have "remove_comments_from (pre @ l # ls) (Suc (length pre)) =
        bindC (comments_spec (Suc (length pre)) ls) (\<lambda>ls'. ret (pre @ l # ls'))" by simp
    with False show ?thesis by (simp add: remove_skip bindC_assoc)
  next
    case True
    note start = FindStart_here [OF True, of pre ls]
    note fin = FindEnd_to_comment_end [of pre "l # ls"]
    show ?thesis
    proof (cases "to_comment_end (l # ls)")
      case None
      with True fin start show ?thesis
        by (subst remove_comments_from.simps) (simp add: thenC_def bindC_assoc)
    next
      case (Some a)
      then obtain k rest where k: "to_comment_end (l # ls) = Some (k, rest)" by (cases a) auto
      from to_comment_end_length [OF k] to_comment_end_drop [OF k]
      have len: "0 < k" "length (l # ls) = k + length rest" "drop k (l # ls) = rest" by simp_all
      let ?pre = "pre @ replicate k dummy_line"
      from RemoveRange_eq [of k "l # ls" pre] len
      have range: "RemoveMultiLineCommentsFromRange (pre @ l # ls) (length pre) (length pre + k) =
          ?pre @ rest" by simp
      from fin k len(1)
      have e: "FindNextMultiLineCommentEnd (pre @ l # ls) (length pre) = length pre + k - 1"
        by simp
      have "\<not> length pre + (k + length rest) \<le> length pre + k - Suc 0" using len(1) by linarith
      then have "remove_comments_from (pre @ l # ls) (length pre) =
          remove_comments_from
            (RemoveMultiLineCommentsFromRange (pre @ l # ls) (length pre) (length pre + k))
            (length pre + k)"
        using len(1,2) by (subst remove_comments_from.simps) (simp add: start e Let_def)
      then have "remove_comments_from (pre @ l # ls) (length pre) =
          remove_comments_from (?pre @ rest) (length ?pre)" unfolding range by simp
      also have "\<dots> = bindC (comments_spec (length ?pre) rest) (\<lambda>ls'. ret (?pre @ ls'))"
        using "2"(1) [OF True, of "(k, rest)" k rest ?pre] Some k by simp
      finally show ?thesis using True k by (simp add: bindC_assoc)
    qed
  qed
qed

section \<open>Comments and strings within a line\<close>

definition RE_CLEANSE_LINE_ESCAPES :: string where
  "RE_CLEANSE_LINE_ESCAPES = raw ''``([abfnrtv?\"```']|`d+|x[0-9a-fA-F]+)''"

definition RE_CLEANSE_LINE_DOUBLE_QUOTES :: string where
  "RE_CLEANSE_LINE_DOUBLE_QUOTES = ''\"[^\"]*\"''"

definition RE_CLEANSE_LINE_SINGLE_QUOTES :: string where
  "RE_CLEANSE_LINE_SINGLE_QUOTES = [CHR 0x27, CHR ''.'', CHR 0x27]"

definition RE_CLEANSE_LINE_C_COMMENTS :: string where
  "RE_CLEANSE_LINE_C_COMMENTS = strip_verbose (raw
     ''(`s*/`*.*`*/`s*$| /`*.*`*/`s+| `s+/`*.*`*/(?=`W)| /`*.*`*/)'')"

definition RE_INCLUDE :: string where
  "RE_INCLUDE = raw ''^`s*#`s*include`s*([<\"])([^>\"]*)[>\"].*$''"

text \<open>The quotes of the text that are not escaped and not character constants are odd in number.\<close>

definition IsCppString :: "string \<Rightarrow> bool" where
  "IsCppString line =
     (let line' = py_replace line [bslash, bslash] ''XX''
      in (py_count line' ''\"'' - py_count line' [bslash, CHR ''\"'']
            - py_count line' [CHR 0x27, CHR ''\"'', CHR 0x27]) mod 2 = 1)"

definition CleanseComments :: "string \<Rightarrow> string" where
  "CleanseComments line =
     (let commentpos = py_find line ''//'';
          line' = (if commentpos \<noteq> -1 \<and> \<not> IsCppString (slice_to line commentpos)
                   then slice_to line commentpos else line)
      in Sub RE_CLEANSE_LINE_C_COMMENTS [] line')"

definition CollapseStrings :: "string \<Rightarrow> string" where
  "CollapseStrings line =
     (if matches RE_INCLUDE line then line
      else Sub RE_CLEANSE_LINE_DOUBLE_QUOTES ''\"\"''
             (Sub RE_CLEANSE_LINE_SINGLE_QUOTES [CHR 0x27, CHR 0x27]
                (Sub RE_CLEANSE_LINE_ESCAPES [] line)))"

record clean_lines =
  elided :: "string list"
  nocomment :: "string list"   \<comment> \<open>the member \<open>lines\<close>\<close>
  raw_lines :: "string list"
  num_lines :: nat

definition CleansedLines :: "string list \<Rightarrow> clean_lines" where
  "CleansedLines lines =
     \<lparr>elided = map (\<lambda>l. CleanseComments (CollapseStrings l)) lines,
      nocomment = map CleanseComments lines,
      raw_lines = lines,
      num_lines = length lines\<rparr>"

definition NumLines :: "clean_lines \<Rightarrow> nat" where
  "NumLines cl = num_lines cl"

text \<open>The three copies have the same length: an index that is good for one is good for all.\<close>

definition clean_ok :: "clean_lines \<Rightarrow> bool" where
  "clean_ok cl \<longleftrightarrow> length (elided cl) = NumLines cl \<and> length (nocomment cl) = NumLines cl \<and>
     length (raw_lines cl) = NumLines cl"

lemma clean_ok_CleansedLines [simp]: "clean_ok (CleansedLines lines)"
  by (simp add: clean_ok_def CleansedLines_def NumLines_def)

lemma NumLines_CleansedLines [simp]: "NumLines (CleansedLines lines) = length lines"
  by (simp add: CleansedLines_def NumLines_def)

section \<open>Finding the end of a bracketed expression\<close>

definition close_char :: "char \<Rightarrow> char option" where
  "close_char c =
     (if c = CHR ''('' then Some (CHR '')'')
      else if c = CHR ''['' then Some (CHR '']'')
      else if c = CHR ''{'' then Some (CHR ''}'')
      else None)"

definition open_balance :: "char \<Rightarrow> char \<Rightarrow> string \<Rightarrow> int" where
  "open_balance startchar endchar line = py_count line [startchar] - py_count line [endchar]"

text \<open>The first loop: go to the line where the brackets are even. It increments the line number
  before it reads the line, and so reads past the end of a file that never closes the bracket.\<close>

function seek_close ::
    "clean_lines \<Rightarrow> char \<Rightarrow> char \<Rightarrow> nat \<Rightarrow> string \<Rightarrow> int \<Rightarrow> stop + (string \<times> nat \<times> int)" where
  "seek_close cl startchar endchar linenum line num_open =
     (if linenum < NumLines cl \<and> 0 < num_open then
        if Suc linenum < length (elided cl) then
          let line' = elided cl ! Suc linenum
          in seek_close cl startchar endchar (Suc linenum) line'
               (num_open + open_balance startchar endchar line')
        else Inl IndexError
      else Inr (line, linenum, num_open))"
  by pat_completeness auto
termination
  by (relation "measure (\<lambda>(cl, _, _, n, _, _). NumLines cl - n)") auto

declare seek_close.simps [simp del]

text \<open>The second loop: step back over closing parentheses (whatever the bracket was).\<close>

function chop_close :: "string \<Rightarrow> int \<Rightarrow> int \<Rightarrow> int" where
  "chop_close line endpos num_open =
     (if 0 \<le> num_open
      then chop_close line (py_rfind_char (slice_to line endpos) (CHR '')'')) (num_open - 1)
      else endpos)"
  by pat_completeness auto
termination
  by (relation "measure (\<lambda>(_, _, n). nat (n + 1))") auto

declare chop_close.simps [simp del]

definition CloseExpression ::
    "clean_lines \<Rightarrow> nat \<Rightarrow> int \<Rightarrow> stop + (string \<times> nat \<times> int)" where
  "CloseExpression cl linenum pos =
     (let line = elided cl ! linenum
      in case py_get line pos of
           None \<Rightarrow> Inl IndexError
         | Some startchar \<Rightarrow>
             (case close_char startchar of
                None \<Rightarrow> Inr (line, NumLines cl, -1)
              | Some endchar \<Rightarrow>
                  (case seek_close cl startchar endchar linenum line
                          (open_balance startchar endchar line) of
                     Inl e \<Rightarrow> Inl e
                   | Inr (line', linenum', num_open) \<Rightarrow>
                       Inr (line', linenum', chop_close line' (int (length line')) num_open + 1))))"

text \<open>The balance of the lines from \<open>i\<close> up to and including \<open>j\<close>.\<close>

definition balance_upto :: "clean_lines \<Rightarrow> char \<Rightarrow> char \<Rightarrow> nat \<Rightarrow> nat \<Rightarrow> int" where
  "balance_upto cl a b i j = (\<Sum>k = i..j. open_balance a b (elided cl ! k))"

lemma balance_upto_Suc:
  "i \<le> Suc j \<Longrightarrow>
     balance_upto cl a b i (Suc j) = balance_upto cl a b i j + open_balance a b (elided cl ! Suc j)"
  by (simp add: balance_upto_def sum.cl_ivl_Suc)

text \<open>The first line of \<open>i, ..., n - 1\<close> at which the bracket is closed.\<close>

definition closes_at :: "clean_lines \<Rightarrow> char \<Rightarrow> char \<Rightarrow> nat \<Rightarrow> nat \<Rightarrow> bool" where
  "closes_at cl a b i j \<longleftrightarrow>
     i \<le> j \<and> j < NumLines cl \<and> balance_upto cl a b i j \<le> 0 \<and>
     (\<forall>k. i \<le> k \<and> k < j \<longrightarrow> 0 < balance_upto cl a b i k)"

lemma closes_at_unique: "closes_at cl a b i j \<Longrightarrow> closes_at cl a b i k \<Longrightarrow> j = k"
  unfolding closes_at_def by (metis linorder_neqE_nat not_le)

lemma seek_close_spec:
  assumes "clean_ok cl" and "i \<le> n" and "n < NumLines cl"
    and "\<forall>k. i \<le> k \<and> k < n \<longrightarrow> 0 < balance_upto cl a b i k"
  shows "(case seek_close cl a b n (elided cl ! n) (balance_upto cl a b i n) of
            Inl e \<Rightarrow> e = IndexError \<and> (\<forall>k. i \<le> k \<and> k < NumLines cl \<longrightarrow> 0 < balance_upto cl a b i k)
          | Inr (line, m, num_open) \<Rightarrow>
              closes_at cl a b i m \<and> line = elided cl ! m \<and> num_open = balance_upto cl a b i m)"
  using assms
proof (induction "NumLines cl - n" arbitrary: n)
  case (Suc d)
  have len: "length (elided cl) = NumLines cl" using Suc.prems(1) by (simp add: clean_ok_def)
  show ?case
  proof (cases "0 < balance_upto cl a b i n")
    case False
    with Suc.prems show ?thesis
      by (subst seek_close.simps) (simp add: closes_at_def)
  next
    case True
    with Suc.prems(4) have pos: "\<forall>k. i \<le> k \<and> k < Suc n \<longrightarrow> 0 < balance_upto cl a b i k"
      by (auto simp: less_Suc_eq)
    show ?thesis
    proof (cases "Suc n < NumLines cl")
      case False
      then have "NumLines cl = Suc n" using Suc.prems(3) by simp
      with True pos len show ?thesis by (subst seek_close.simps) simp
    next
      case next_line: True
      have "balance_upto cl a b i n + open_balance a b (elided cl ! Suc n) =
          balance_upto cl a b i (Suc n)"
        using Suc.prems(2) by (simp add: balance_upto_Suc)
      then have "seek_close cl a b n (elided cl ! n) (balance_upto cl a b i n) =
          seek_close cl a b (Suc n) (elided cl ! Suc n) (balance_upto cl a b i (Suc n))"
        using True next_line Suc.prems(3) len
        by (subst seek_close.simps) (simp add: Let_def)
      moreover note Suc.hyps(1) [of "Suc n"]
      ultimately show ?thesis
        using Suc.hyps(2) Suc.prems(1,2) next_line pos by simp
    qed
  qed
qed simp

lemma chop_close_zero: "chop_close line endpos 0 = py_rfind_char (slice_to line endpos) (CHR '')'')"
  by (simp add: chop_close.simps)

lemma chop_close_neg: "n < 0 \<Longrightarrow> chop_close line endpos n = endpos"
  by (simp add: chop_close.simps)

lemma slice_to_all [simp]: "slice_to xs (int (length xs)) = xs"
  by (simp add: slice_to_def clamp_index_def)

lemma py_get_nth: "n < length xs \<Longrightarrow> py_get xs (int n) = Some (xs ! n)"
  by (simp add: py_get_def Let_def)

section \<open>Properties\<close>

text \<open>C11. Removing multi-line comments computes what its recursive description says: outside
  comments lines are kept, each comment from its first line to the first line that ends with the
  closing mark is overwritten line by line, and an unended comment is reported once and left.\<close>

theorem RemoveMultiLineComments_refines:
  "RemoveMultiLineComments lines = comments_spec 0 lines"
  using remove_comments_spec [of "[]" lines] by (simp add: RemoveMultiLineComments_def)

lemma list_all2_dummy:
  "k \<le> length ls \<Longrightarrow> list_all2 (\<lambda>l l'. l' = l \<or> l' = d) (take k ls) (replicate k d)"
  by (simp add: list_all2_conv_all_nth)

lemma comments_spec_invariants:
  "\<exists>ls'. snd (comments_spec n ls) = Inr ls' \<and>
     list_all2 (\<lambda>l l'. l' = l \<or> l' = dummy_line) ls ls' \<and>
     (fst (comments_spec n ls) = [] \<longrightarrow> (\<forall>l \<in> set ls'. \<not> starts_comment l)) \<and>
     length (fst (comments_spec n ls)) \<le> 1"
proof (induction n ls rule: comments_spec.induct)
  case (2 n l ls)
  have d: "\<not> starts_comment dummy_line" by code_simp
  show ?case
  proof (cases "starts_comment l")
    case False
    from "2"(2) [OF this] obtain ls' where r: "snd (comments_spec (Suc n) ls) = Inr ls'"
      "list_all2 (\<lambda>l l'. l' = l \<or> l' = dummy_line) ls ls'"
      "fst (comments_spec (Suc n) ls) = [] \<longrightarrow> (\<forall>l \<in> set ls'. \<not> starts_comment l)"
      "length (fst (comments_spec (Suc n) ls)) \<le> 1" by blast
    from False have "comments_spec n (l # ls) =
        bindC (comments_spec (Suc n) ls) (\<lambda>ls'. ret (l # ls'))" by simp
    with r False show ?thesis by (simp add: fst_bindC snd_bindC)
  next
    case True
    show ?thesis
    proof (cases "to_comment_end (l # ls)")
      case None
      with True have "comments_spec n (l # ls) =
          thenC (rep (int n + 1) ''readability/multiline_comment'' 5
                   ''Could not find end of multi-line comment'') (ret (l # ls))" by simp
      then show ?thesis by (simp add: thenC_def fst_bindC snd_bindC list.rel_refl_strong)
    next
      case (Some a)
      then obtain k rest where k: "to_comment_end (l # ls) = Some (k, rest)" by (cases a) auto
      from to_comment_end_length [OF k] to_comment_end_drop [OF k]
      have len: "k \<le> length (l # ls)" "drop k (l # ls) = rest" by simp_all
      from "2"(1) [OF True k] obtain rest' where r: "snd (comments_spec (n + k) rest) = Inr rest'"
        "list_all2 (\<lambda>l l'. l' = l \<or> l' = dummy_line) rest rest'"
        "fst (comments_spec (n + k) rest) = [] \<longrightarrow> (\<forall>l \<in> set rest'. \<not> starts_comment l)"
        "length (fst (comments_spec (n + k) rest)) \<le> 1" by blast
      have "list_all2 (\<lambda>l l'. l' = l \<or> l' = dummy_line) (take k (l # ls) @ drop k (l # ls))
          (replicate k dummy_line @ rest')"
        unfolding len(2) by (intro list_all2_appendI list_all2_dummy len(1) r(2))
      then have "list_all2 (\<lambda>l l'. l' = l \<or> l' = dummy_line) (l # ls)
          (replicate k dummy_line @ rest')" by (simp only: append_take_drop_id)
      moreover from True k have "comments_spec n (l # ls) =
          bindC (comments_spec (n + k) rest) (\<lambda>rest'. ret (replicate k dummy_line @ rest'))" by simp
      ultimately show ?thesis using r d by (auto simp: fst_bindC snd_bindC)
    qed
  qed
qed simp

lemma RemoveMultiLineComments_returns:
  "\<exists>lines'. snd (RemoveMultiLineComments lines) = Inr lines' \<and> length lines' = length lines"
  using comments_spec_invariants [of 0 lines] remove_comments_spec [of "[]" lines]
  by (auto simp: RemoveMultiLineComments_def dest: list_all2_lengthD)





end
