(* ===== verification/FileChecks.thy ===== *)
theory FileChecks
  imports FileInfo Nolint Cleanse
begin

text \<open>
  The checks of tools/cpplint.py that look at a whole file or at one line by itself, from
  \<open>CheckForCopyright\<close> to \<open>CheckInvalidIncrement\<close>.

  \<open>CheckForHeaderGuard\<close> parses NOLINT comments between its reports, so it is an action on the
  global state that takes \<open>error\<close> as an argument; the others only report.
\<close>

section \<open>CheckForCopyright\<close>

definition CheckForCopyright :: "string list \<Rightarrow> unit chk" where
  "CheckForCopyright lines =
     (if list_ex (\<lambda>line. SearchI ''Copyright'' (lines ! line) \<noteq> None)
           [1..<min (length lines) 11]
      then ret ()
      else rep 0 ''legal/copyright'' 5
             (''No copyright message found.  ''
              @ ''You should have a line: \"Copyright [year] <Copyright Owner>\"''))"

section \<open>CheckForHeaderGuard\<close>

record guard_state =
  gs_ifndef :: "string option"
  gs_ifndef_linenum :: nat
  gs_define :: "string option"
  gs_endif :: "string option"
  gs_endif_linenum :: nat

definition init_guard_state :: guard_state where
  "init_guard_state =
     \<lparr>gs_ifndef = None, gs_ifndef_linenum = 0, gs_define = None, gs_endif = None,
      gs_endif_linenum = 0\<rparr>"

text \<open>\<open>not x\<close> for a variable that holds None or a string.\<close>

definition unset :: "string option \<Rightarrow> bool" where
  "unset x = (x = None \<or> x = Some [])"

definition guard_line :: "nat \<times> string \<Rightarrow> guard_state \<Rightarrow> guard_state" where
  "guard_line nl g =
     (let (linenum, line) = nl;
          linesplit = split_ws line;
          g1 = (if 2 \<le> length linesplit \<and> unset (gs_ifndef g) \<and> linesplit ! 0 = ''#ifndef''
                then g\<lparr>gs_ifndef := Some (linesplit ! 1), gs_ifndef_linenum := linenum\<rparr> else g);
          g2 = (if 2 \<le> length linesplit \<and> unset (gs_define g1) \<and> linesplit ! 0 = ''#define''
                then g1\<lparr>gs_define := Some (linesplit ! 1)\<rparr> else g1)
      in if startswith line ''#endif''
         then g2\<lparr>gs_endif := Some line, gs_endif_linenum := linenum\<rparr> else g2)"

definition scan_guard :: "string list \<Rightarrow> guard_state" where
  "scan_guard lines = fold guard_line (enumerate 0 lines) init_guard_state"

definition CheckForHeaderGuard ::
    "os \<Rightarrow> (report \<Rightarrow> unit act) \<Rightarrow> string \<Rightarrow> string list \<Rightarrow> unit act" where
  "CheckForHeaderGuard os error filename lines =
     (case GetHeaderGuardCPPVariable os filename of
        Inl e \<Rightarrow> raiseA e
      | Inr cppvar \<Rightarrow>
          let g = scan_guard lines in
          if unset (gs_ifndef g) \<or> unset (gs_define g) \<or> gs_ifndef g \<noteq> gs_define g then
            error (Report 0 ''build/header_guard'' 5
              (''No #ifndef header guard found, suggested CPP variable is: '' @ cppvar))
          else
            bindA
              (if gs_ifndef g \<noteq> Some cppvar then
                 bindA (ParseNolintSuppressions error (lines ! gs_ifndef_linenum g)
                          (int (gs_ifndef_linenum g)))
                   (\<lambda>_. error (Report (int (gs_ifndef_linenum g)) ''build/header_guard''
                     (if gs_ifndef g \<noteq> Some (cppvar @ ''_'') then 5 else 0)
                     (''#ifndef header guard has wrong style, please use: '' @ cppvar)))
               else retA ())
              (\<lambda>_.
                if gs_endif g \<noteq> Some (''#endif  // '' @ cppvar) then
                  bindA (ParseNolintSuppressions error (lines ! gs_endif_linenum g)
                           (int (gs_endif_linenum g)))
                    (\<lambda>_. error (Report (int (gs_endif_linenum g)) ''build/header_guard''
                      (if gs_endif g \<noteq> Some (''#endif  // '' @ cppvar @ ''_'') then 5 else 0)
                      (''#endif line should be \"#endif  // '' @ cppvar @ ''\"'')))
                else retA ()))"

section \<open>Checks of the raw lines\<close>

definition CheckForUnicodeReplacementCharacters :: "string list \<Rightarrow> unit chk" where
  "CheckForUnicodeReplacementCharacters lines =
     seqC (map (\<lambda>(linenum, line).
       whenC (contains line [CHR 0xFF])
         (rep (int linenum) ''readability/utf8'' 5
            ''Line contains invalid UTF-8 (or Unicode replacement character).''))
       (enumerate 0 lines))"

definition CheckForNewlineAtEOF :: "string list \<Rightarrow> unit chk" where
  "CheckForNewlineAtEOF lines =
     whenC (length lines < 3 \<or> lines ! (length lines - 2) \<noteq> [])
       (rep (int (length lines) - 2) ''whitespace/ending_newline'' 5
          ''Could not find a newline character at the end of the file.'')"

section \<open>Checks of one line\<close>

definition CheckForMultilineCommentsAndStrings :: "clean_lines \<Rightarrow> nat \<Rightarrow> unit chk" where
  "CheckForMultilineCommentsAndStrings cl linenum =
     (let line = py_replace (elided cl ! linenum) [bslash, bslash] []
      in thenC
           (whenC (py_count line ''*/'' < py_count line ''/*'')
              (rep (int linenum) ''readability/multiline_comment'' 5
                 (''Complex multi-line /*...*/-style comment found. ''
                  @ ''Lint may give bogus warnings.  ''
                  @ ''Consider replacing these with //-style comments, ''
                  @ ''with #if 0...#endif, ''
                  @ ''or with more clearly structured multi-line comments.'')))
           (whenC ((py_count line ''\"'' - py_count line [bslash, CHR 0x22]) mod 2 \<noteq> 0)
              (rep (int linenum) ''readability/multiline_string'' 5
                 (''Multi-line string (\"...\") found.  This lint script doesn'' @ [CHR 0x27]
                  @ ''t do well with such strings, and may give bogus warnings.  They''
                  @ [CHR 0x27] @ ''re ugly and unnecessary, and you should use concatenation ''
                  @ ''instead\".''))))"

definition threading_list :: "(string \<times> string) list" where
  "threading_list =
     [(''asctime('', ''asctime_r(''),
      (''ctime('', ''ctime_r(''),
      (''getgrgid('', ''getgrgid_r(''),
      (''getgrnam('', ''getgrnam_r(''),
      (''getlogin('', ''getlogin_r(''),
      (''getpwnam('', ''getpwnam_r(''),
      (''getpwuid('', ''getpwuid_r(''),
      (''gmtime('', ''gmtime_r(''),
      (''localtime('', ''localtime_r(''),
      (''rand('', ''rand_r(''),
      (''readdir('', ''readdir_r(''),
      (''strtok('', ''strtok_r(''),
      (''ttyname('', ''ttyname_r('')]"

definition CheckPosixThreading :: "clean_lines \<Rightarrow> nat \<Rightarrow> unit chk" where
  "CheckPosixThreading cl linenum =
     (let line = elided cl ! linenum
      in seqC (map (\<lambda>(single_thread_function, multithread_safe_function).
           let ix = py_find line single_thread_function
           in whenC (0 \<le> ix \<and>
                (ix = 0 \<or> (\<not> py_isalnum (line ! nat (ix - 1)) \<and>
                           line ! nat (ix - 1) \<notin> set [CHR ''_'', CHR ''.'', CHR ''>''])))
                (rep (int linenum) ''runtime/threadsafe_fn'' 2
                   (''Consider using '' @ multithread_safe_function
                    @ ''...) instead of '' @ single_thread_function
                    @ ''...) for improved thread safety.'')))
         threading_list))"

definition RE_INVALID_INCREMENT :: string where
  "RE_INVALID_INCREMENT = raw ''^`s*`*`w+(`+`+|--);''"

definition CheckInvalidIncrement :: "clean_lines \<Rightarrow> nat \<Rightarrow> unit chk" where
  "CheckInvalidIncrement cl linenum =
     (let line = elided cl ! linenum
      in whenC (matches RE_INVALID_INCREMENT line)
           (rep (int linenum) ''runtime/invalid_increment'' 5
              ''Changing pointer instead of value (or unused value of operator*).''))"

end
