(* ===== verification/FunctionState.thy ===== *)
theory FunctionState
  imports Matching
begin

text \<open>
  \<open>_FunctionState\<close> (tools/cpplint.py): the function whose body is being read and the number of
  its lines so far, and the check on that number. The verbosity level, which \<open>Check\<close> reads from
  the global state, is an argument.

  \<open>int(math.log(n, 2))\<close> is the integer logarithm \<open>ilog2\<close>; \<open>math.log\<close> raises ValueError at 0.
  With a negative level, \<open>2**level\<close> is a fraction: \<open>lines > trigger\<close> is then stated with the
  power on the other side, and \<open>%d\<close> prints the trigger rounded down.
\<close>

section \<open>The state and its operations\<close>

record function_state =
  in_a_function :: bool
  lines_in_function :: nat
  current_function :: string

definition init_function_state :: function_state where
  "init_function_state =
     \<lparr>in_a_function = False, lines_in_function = 0, current_function = []\<rparr>"

definition NORMAL_TRIGGER :: nat where
  "NORMAL_TRIGGER = 250"

definition TEST_TRIGGER :: nat where
  "TEST_TRIGGER = 400"

definition BeginFunction :: "string \<Rightarrow> function_state \<Rightarrow> function_state" where
  "BeginFunction function_name fs =
     fs\<lparr>in_a_function := True, lines_in_function := 0, current_function := function_name\<rparr>"

definition CountLine :: "function_state \<Rightarrow> function_state" where
  "CountLine fs =
     (if in_a_function fs then fs\<lparr>lines_in_function := Suc (lines_in_function fs)\<rparr> else fs)"

definition EndFunction :: "function_state \<Rightarrow> function_state" where
  "EndFunction fs = fs\<lparr>in_a_function := False\<rparr>"

fun ilog2 :: "nat \<Rightarrow> nat" where
  "ilog2 n = (if n < 2 then 0 else Suc (ilog2 (n div 2)))"

declare ilog2.simps [simp del]

definition base_trigger :: "function_state \<Rightarrow> nat" where
  "base_trigger fs =
     (if matches ''T(EST|est)'' (current_function fs) then TEST_TRIGGER else NORMAL_TRIGGER)"

definition over_trigger :: "int \<Rightarrow> nat \<Rightarrow> nat \<Rightarrow> bool" where
  "over_trigger level base lines =
     (if 0 \<le> level then base * 2 ^ nat level < lines
      else base < lines * 2 ^ nat (- level))"

definition printed_trigger :: "int \<Rightarrow> nat \<Rightarrow> nat" where
  "printed_trigger level base =
     (if 0 \<le> level then base * 2 ^ nat level else base div 2 ^ nat (- level))"

definition CheckFunction :: "int \<Rightarrow> function_state \<Rightarrow> int \<Rightarrow> unit chk" where
  "CheckFunction level fs linenum =
     (let base = base_trigger fs; lines = lines_in_function fs
      in if \<not> over_trigger level base lines then ret ()
         else if lines div base = 0 then raise (ValueError ''math domain error'')
         else
           (let l = ilog2 (lines div base);
                error_level = (if 5 < l then 5 else l)
            in rep linenum ''readability/fn_size'' (int error_level)
                 (''Small and focused functions are preferred:'' @
                  '' '' @ current_function fs @ '' has '' @ str_of_nat lines
                  @ '' non-comment lines'' @
                  '' (error triggered by exceeding '' @ str_of_nat (printed_trigger level base)
                  @ '' lines).'')))"

section \<open>The integer logarithm\<close>

lemma ilog2_bounds: "0 < n \<Longrightarrow> 2 ^ ilog2 n \<le> n \<and> n < 2 ^ Suc (ilog2 n)"
proof (induction n rule: ilog2.induct)
  case (1 n)
  show ?case
  proof (cases "n < 2")
    case True
    with "1.prems" show ?thesis by (simp add: ilog2.simps)
  next
    case False
    with "1.IH" have "2 ^ ilog2 (n div 2) \<le> n div 2" "n div 2 < 2 ^ Suc (ilog2 (n div 2))"
      by simp_all
    then have "2 * 2 ^ ilog2 (n div 2) \<le> n" "n < 2 * 2 ^ Suc (ilog2 (n div 2))" by linarith+
    with False show ?thesis by (simp add: ilog2.simps [of n])
  qed
qed

lemma ilog2_le: "2 ^ k \<le> n \<Longrightarrow> k \<le> ilog2 n"
proof -
  assume k: "2 ^ k \<le> n"
  have "0 < (2::nat) ^ k" by simp
  with k have "0 < n" by linarith
  with k ilog2_bounds [of n] have "(2::nat) ^ k < 2 ^ Suc (ilog2 n)" by linarith
  then have "k < Suc (ilog2 n)" by (rule power_less_imp_less_exp [rotated]) simp
  then show ?thesis by simp
qed

section \<open>What a check reports\<close>

lemma base_trigger_pos: "0 < base_trigger fs"
  by (simp add: base_trigger_def NORMAL_TRIGGER_def TEST_TRIGGER_def)

lemma over_trigger_div:
  assumes "over_trigger level base lines" and "0 \<le> level" and "0 < base"
  shows "2 ^ nat level \<le> lines div base"
proof -
  from assms have "base * 2 ^ nat level \<le> lines" by (simp add: over_trigger_def)
  then have "base * 2 ^ nat level div base \<le> lines div base" by (rule div_le_mono)
  with assms(3) show ?thesis by simp
qed

lemma CheckFunction_reports [chk_ok]:
  "all_reports (\<lambda>r. rline r = linenum \<and> rcat r = ''readability/fn_size'' \<and>
       0 \<le> rconf r \<and> rconf r \<le> 5) (CheckFunction level fs linenum)"
  by (simp add: CheckFunction_def Let_def)

lemma CheckFunction_returns [chk_total]: "0 \<le> level \<Longrightarrow> returns (CheckFunction level fs linenum)"
proof (cases "over_trigger level (base_trigger fs) (lines_in_function fs)")
  case True
  assume "0 \<le> level"
  from over_trigger_div [OF True this base_trigger_pos]
  have "lines_in_function fs div base_trigger fs \<noteq> 0"
    by (metis not_one_le_zero one_le_numeral one_le_power order_trans)
  then show ?thesis by (simp add: CheckFunction_def Let_def)
qed (simp add: CheckFunction_def Let_def)

section \<open>Runs over the lines of a body\<close>

lemma CountLine_iterate:
  "in_a_function fs \<Longrightarrow>
     (CountLine ^^ n) fs = fs\<lparr>lines_in_function := lines_in_function fs + n\<rparr>"
  by (induction n) (simp_all add: CountLine_def)

section \<open>Properties\<close>

text \<open>C9. With a verbosity from 0 to 5, the length check of a function of \<open>n\<close> counted lines
  returns; it reports exactly when \<open>n\<close> exceeds the trigger \<open>base * 2^level\<close>, once, and then its
  confidence is at least the verbosity (so verbosity never hides it) and is the greatest \<open>k \<le> 5\<close>
  such that the function has at least \<open>base * 2^k\<close> lines.\<close>

theorem function_length_report:
  assumes "0 \<le> level" and "level \<le> 5"
    and fs: "fs = (CountLine ^^ n) (BeginFunction name fs0)"
  shows "snd (CheckFunction level fs linenum) = Inr () \<and>
    (fst (CheckFunction level fs linenum) = [] \<longleftrightarrow> n \<le> base_trigger fs * 2 ^ nat level) \<and>
    (\<forall>r \<in> set (fst (CheckFunction level fs linenum)).
       level \<le> rconf r \<and> rconf r \<le> 5 \<and>
       base_trigger fs * 2 ^ nat (rconf r) \<le> n \<and>
       (rconf r < 5 \<longrightarrow> n < base_trigger fs * 2 ^ Suc (nat (rconf r))))"
proof -
  let ?b = "base_trigger fs"
  have n: "lines_in_function fs = n"
    by (simp add: fs BeginFunction_def CountLine_iterate)
  have over: "over_trigger level ?b n \<longleftrightarrow> \<not> n \<le> ?b * 2 ^ nat level"
    using assms(1) by (simp add: over_trigger_def not_le)
  have R: "snd (CheckFunction level fs linenum) = Inr ()"
    using CheckFunction_returns [OF assms(1), of fs linenum]
    by (cases "snd (CheckFunction level fs linenum)") (simp_all add: returns_def)
  have div0: "n div ?b \<noteq> 0" if "over_trigger level ?b n"
    using CheckFunction_returns [OF assms(1), of fs linenum] that n
    by (auto simp: CheckFunction_def Let_def split: if_splits)
  have E: "fst (CheckFunction level fs linenum) = [] \<longleftrightarrow> n \<le> ?b * 2 ^ nat level"
    using div0 over n by (auto simp: CheckFunction_def Let_def)
  have L: "level \<le> rconf r \<and> rconf r \<le> 5 \<and> ?b * 2 ^ nat (rconf r) \<le> n \<and>
       (rconf r < 5 \<longrightarrow> n < ?b * 2 ^ Suc (nat (rconf r)))"
    if r: "r \<in> set (fst (CheckFunction level fs linenum))" for r
  proof -
    let ?q = "n div ?b"
    from r n have o: "over_trigger level ?b n"
      by (auto simp: CheckFunction_def Let_def split: if_splits)
    with div0 r n have c: "rconf r = int (min 5 (ilog2 ?q))"
      by (auto simp: CheckFunction_def Let_def min_def split: if_splits)
    from ilog2_le [OF over_trigger_div [OF o assms(1) base_trigger_pos]]
    have "level \<le> int (ilog2 ?q)" by linarith
    with assms(2) have l: "level \<le> rconf r" unfolding c by linarith
    have q: "2 ^ ilog2 ?q \<le> ?q" "?q < 2 ^ Suc (ilog2 ?q)"
      using ilog2_bounds [of ?q] div0 [OF o] by simp_all
    have "(2::nat) ^ nat (rconf r) \<le> 2 ^ ilog2 ?q" by (simp add: c)
    with q(1) have "2 ^ nat (rconf r) \<le> ?q" by linarith
    then have "?b * 2 ^ nat (rconf r) \<le> ?b * ?q" by simp
    also have "\<dots> \<le> n" by simp
    finally have lo: "?b * 2 ^ nat (rconf r) \<le> n" .
    have "n < ?b * 2 ^ Suc (nat (rconf r))" if "rconf r < 5"
    proof -
      from that c have "nat (rconf r) = ilog2 ?q" by simp
      with q(2) have "Suc ?q \<le> 2 ^ Suc (nat (rconf r))" by simp
      then have "?b * Suc ?q \<le> ?b * 2 ^ Suc (nat (rconf r))" by (rule mult_le_mono2)
      moreover have "n < ?b * Suc ?q"
        using base_trigger_pos [of fs] by (simp add: dividend_less_times_div)
      ultimately show ?thesis by linarith
    qed
    with l lo c show ?thesis by simp
  qed
  from R E L show ?thesis by blast
qed

theorem function_length_report_witness:
  "fst (CheckFunction 1 ((CountLine ^^ 500) (BeginFunction ''f()'' init_function_state)) 9) = [] \<and>
   fst (CheckFunction 1 ((CountLine ^^ 501) (BeginFunction ''f()'' init_function_state)) 9) \<noteq> []"
proof -
  have b: "base_trigger ((CountLine ^^ n) (BeginFunction ''f()'' init_function_state)) = 250" for n
  proof -
    have "current_function ((CountLine ^^ n) (BeginFunction ''f()'' init_function_state)) = ''f()''"
      by (simp add: BeginFunction_def CountLine_iterate)
    moreover have "\<not> matches ''T(EST|est)'' ''f()''" by code_simp
    ultimately show ?thesis by (simp add: base_trigger_def NORMAL_TRIGGER_def)
  qed
  show ?thesis
    using function_length_report [of 1 _ 500 "''f()''" init_function_state 9]
      function_length_report [of 1 _ 501 "''f()''" init_function_state 9]
    by (simp add: b)
qed



end
