(* ===== verification/FunctionLengths.thy ===== *)
theory FunctionLengths
  imports FunctionState Cleanse
begin

text \<open>
  \<open>CheckForFunctionLengths\<close> (tools/cpplint.py): recognises the first line of a function, looks for
  its body, counts the lines of the body and has \<open>_FunctionState.Check\<close> report at the closing
  brace. The verbosity level is an argument, as in \<open>CheckFunction\<close>.
\<close>

definition RE_FUNCTION_START :: string where
  "RE_FUNCTION_START = raw ''(`w(`w|::|`*|`&|`s)*)`(''"

definition RE_FUNCTION_NAME :: string where
  "RE_FUNCTION_NAME = raw ''((`w|:)*)`(''"

text \<open>Does a function start here? All-capital names are taken for macros, apart from \<open>TEST\<close> and
  \<open>TEST_F\<close>.\<close>

definition starting_func :: "string \<Rightarrow> bool chk" where
  "starting_func line =
     (case Match RE_FUNCTION_START line of
        None \<Rightarrow> ret False
      | Some m \<Rightarrow>
          (case py_get (split_ws (group_text m 1)) (-1) of
             None \<Rightarrow> raise IndexError
           | Some function_name \<Rightarrow>
               ret (function_name = ''TEST'' \<or> function_name = ''TEST_F'' \<or>
                    \<not> matches ''[A-Z_]+$'' function_name)))"

text \<open>Where the search for the body stops: nowhere, at a declaration or trivial function, or at an
  opening brace, with the lines read so far joined.\<close>

datatype body = NoBody | Trivial | BodyAt string

fun find_body :: "string list \<Rightarrow> string \<Rightarrow> body" where
  "find_body [] joined_line = NoBody"
| "find_body (start_line # ls) joined_line =
     (if found ''(;|})'' start_line then Trivial
      else if found ''{'' start_line then BodyAt (joined_line @ '' '' @ py_lstrip start_line)
      else find_body ls (joined_line @ '' '' @ py_lstrip start_line))"

definition function_title :: "string \<Rightarrow> string \<Rightarrow> string option" where
  "function_title line joined_line =
     map_option
       (\<lambda>m. let function = group_text m 1
            in if matches ''TEST'' function then
                 (case Search (raw ''(`(.*`))'') joined_line of
                    None \<Rightarrow> function
                  | Some parameter_regexp \<Rightarrow> function @ group_text parameter_regexp 1)
               else function @ ''()'')
       (Search RE_FUNCTION_NAME line)"

definition CheckForFunctionLengths ::
    "int \<Rightarrow> clean_lines \<Rightarrow> nat \<Rightarrow> function_state \<Rightarrow> function_state chk" where
  "CheckForFunctionLengths level cl linenum fs =
     (let line = nocomment cl ! linenum
      in bindC (starting_func line) (\<lambda>starting.
           if starting then
             (case find_body (drop linenum (take (NumLines cl) (nocomment cl))) [] of
                NoBody \<Rightarrow>
                  thenC (rep (int linenum) ''readability/fn_size'' 5
                           ''Lint failed to find start of function body.'')
                    (ret fs)
              | Trivial \<Rightarrow> ret fs
              | BodyAt joined_line \<Rightarrow>
                  bindC (of_option AttributeError (function_title line joined_line))
                    (\<lambda>function. ret (BeginFunction function fs)))
           else if matches (raw ''^`}`s*$'') line then
             thenC (CheckFunction level fs (int linenum)) (ret (EndFunction fs))
           else if \<not> matches (raw ''^`s*$'') line then ret (CountLine fs)
           else ret fs))"

end
