(* ===== verification/ClassCheck.thy ===== *)
theory ClassCheck
  imports Cleanse
begin

text \<open>
  \<open>_ClassInfo\<close>, \<open>_ClassState\<close> and \<open>CheckForNonStandardConstructs\<close> (tools/cpplint.py): the stack
  of class declarations that the checker believes it is in, and the checks that use it.

  The stack is the list \<open>classinfo_stack\<close>, its top the last element. The code mutates the top
  in place; \<open>set_top\<close> stores the changed record there.
\<close>

section \<open>The state\<close>

record class_info =
  ci_name :: string
  ci_linenum :: nat
  seen_open_brace :: bool
  is_derived :: bool
  virtual_method_linenumber :: "nat option"
  has_virtual_destructor :: bool
  brace_depth :: int

definition ClassInfo :: "string \<Rightarrow> nat \<Rightarrow> class_info" where
  "ClassInfo name linenum =
     \<lparr>ci_name = name, ci_linenum = linenum, seen_open_brace = False, is_derived = False,
      virtual_method_linenumber = None, has_virtual_destructor = False, brace_depth = 0\<rparr>"

type_synonym class_state = "class_info list"

definition set_top :: "class_info \<Rightarrow> class_state \<Rightarrow> class_state" where
  "set_top ci st = butlast st @ [ci]"

definition CheckFinished :: "class_state \<Rightarrow> unit chk" where
  "CheckFinished st =
     (if st \<noteq> [] then
        rep (int (ci_linenum (st ! 0))) ''build/class'' 5
          (''Failed to find complete declaration of class '' @ ci_name (st ! 0))
      else ret ())"

section \<open>Constructs that are not standard\<close>

definition nonstandard_reports :: "clean_lines \<Rightarrow> nat \<Rightarrow> unit chk" where
  "nonstandard_reports cl linenum =
     (let line1 = nocomment cl ! linenum;
          line2 = py_replace line1 [bslash, bslash] [];
          line = elided cl ! linenum;
          error = rep (int linenum)
      in seqC
        [whenC (found (raw ''printf`s*`(.*\".*%[-+ ]?`d*q'') line1)
           (error ''runtime/printf_format'' 3
              ''%q in format strings is deprecated.  Use %ll instead.''),
         whenC (found (raw ''printf`s*`(.*\".*%`d+`$'') line1)
           (error ''runtime/printf_format'' 2
              ''%N$ formats are unconventional.  Try rewriting to avoid them.''),
         whenC (found (raw (''(\"|`'' @ [CHR 0x27] @ '').*``(%|`[|`(|{)'')) line2)
           (error ''build/printf_format'' 3
              ''%, [, (, and { are undefined character escapes.  Unescape them.''),
         whenC (found (raw (''`b(const|volatile|void|char|short|int|long''
                            @ ''|float|double|signed|unsigned''
                            @ ''|schar|u?int8|u?int16|u?int32|u?int64)''
                            @ ''`s+(auto|register|static|extern|typedef)`b'')) line)
           (error ''build/storage_class'' 5
              ''Storage class (static, extern, typedef, etc) should be first.''),
         whenC (matches (raw ''`s*#`s*endif`s*[^/`s]+'') line)
           (error ''build/endif_comment'' 5
              ''Uncommented text after #endif is non-standard.  Use a comment.''),
         whenC (matches (raw ''`s*class`s+(`w+`s*::`s*)+`w+`s*;'') line)
           (error ''build/forward_decl'' 5
              ''Inner-style forward declarations are invalid.  Remove this line.''),
         whenC (found (raw ''(`w+|[+-]?`d+(`.`d*)?)`s*(<|>)`?=?`s*(`w+|[+-]?`d+)(`.`d*)?'') line)
           (error ''build/deprecated'' 3
              ''>? and <? (max and min) operators are non-standard and deprecated.''),
         whenC (found (raw ''^`s*const`s*string`s*&`s*`w+`s*;'') line)
           (error ''runtime/member_string_references'' 2
              (''const string& members are dangerous. It is much better to use ''
               @ ''alternatives, such as pointers or simple constants.''))])"

section \<open>Tracking classes\<close>

definition RE_CLASS_DECL :: string where
  "RE_CLASS_DECL = raw ''`s*(template`s*<[`w`s<>,:]*>`s*)?(class|struct)`s+(`w+(::`w+)*)''"

definition declared_class :: "string \<Rightarrow> string option" where
  "declared_class line = map_option (\<lambda>m. group_text m 3) (Match RE_CLASS_DECL line)"

text \<open>Look for the opening brace and for parent classes: the new top, or None when the line has a
  semicolon and the entry is dropped.\<close>

definition open_class :: "string \<Rightarrow> class_info \<Rightarrow> class_info option" where
  "open_class line ci =
     (if py_find line '';'' \<noteq> -1 then None
      else
        let ci1 = ci\<lparr>seen_open_brace := (py_find line ''{'' \<noteq> -1)\<rparr>
        in Some (if found ''(^|[^:]):($|[^:])'' line then ci1\<lparr>is_derived := True\<rparr> else ci1))"

definition base_classname :: "class_info \<Rightarrow> string" where
  "base_classname ci = last (split_on ''::'' (ci_name ci))"

definition explicit_report :: "nat \<Rightarrow> string \<Rightarrow> string \<Rightarrow> unit chk" where
  "explicit_report linenum line base =
     (case Match (raw ''(?<!explicit)`s+'' @ re_escape base @ raw ''`s*`(([^,()]+)`)'') line of
        None \<Rightarrow> ret ()
      | Some args \<Rightarrow>
          whenC (group_text args 1 \<noteq> ''void'' \<and>
                 \<not> matches (raw ''(const`s+)?'' @ re_escape base @ raw ''`s*&'')
                      (py_strip (group_text args 1)))
            (rep (int linenum) ''runtime/explicit'' 5
               ''Single-argument constructors should be marked explicit.''))"

definition note_virtual :: "nat \<Rightarrow> string \<Rightarrow> string \<Rightarrow> class_info \<Rightarrow> class_info" where
  "note_virtual linenum line base ci =
     (if found (raw ''`bvirtual`b'') line then
        (let ci1 = ci\<lparr>virtual_method_linenumber := Some linenum\<rparr>
         in if found (''~'' @ base @ raw ''`s*`('') line
            then ci1\<lparr>has_virtual_destructor := True\<rparr> else ci1)
      else ci)"

definition virtual_report :: "class_info \<Rightarrow> unit chk" where
  "virtual_report ci =
     (case virtual_method_linenumber ci of
        None \<Rightarrow> ret ()
      | Some n \<Rightarrow>
          whenC (\<not> has_virtual_destructor ci \<and> \<not> is_derived ci)
            (rep (int (ci_linenum ci)) ''runtime/virtual'' 4
               (''The class '' @ ci_name ci @ '' probably needs a virtual destructor due to ''
                @ ''having virtual method(s), one declared at line ''
                @ str_of_nat n @ ''.'')))"

text \<open>The part after the opening brace, for a stack whose top is \<open>ci\<close>.\<close>

definition in_class :: "nat \<Rightarrow> string \<Rightarrow> class_info \<Rightarrow> class_state \<Rightarrow> class_state chk" where
  "in_class linenum line ci st =
     (let base = base_classname ci;
          ci1 = note_virtual linenum line base ci;
          depth = brace_depth ci1 + py_count line ''{'' - py_count line ''}''
      in thenC (explicit_report linenum line base)
           (if depth \<le> 0 then thenC (virtual_report ci1) (ret (butlast st))
            else ret (set_top (ci1\<lparr>brace_depth := depth\<rparr>) st)))"

definition push_class :: "nat \<Rightarrow> string \<Rightarrow> class_state \<Rightarrow> class_state" where
  "push_class linenum line st =
     (case declared_class line of
        None \<Rightarrow> st
      | Some name \<Rightarrow> st @ [ClassInfo name linenum])"

definition track_top :: "nat \<Rightarrow> string \<Rightarrow> class_state \<Rightarrow> class_state chk" where
  "track_top linenum line st =
     (if st = [] then ret []
      else
        let ci = last st in
        if seen_open_brace ci then in_class linenum line ci st
        else case open_class line ci of
               None \<Rightarrow> ret (butlast st)
             | Some ci1 \<Rightarrow>
                 if seen_open_brace ci1 then in_class linenum line ci1 st
                 else ret (set_top ci1 st))"

definition CheckForNonStandardConstructs ::
    "clean_lines \<Rightarrow> nat \<Rightarrow> class_state \<Rightarrow> class_state chk" where
  "CheckForNonStandardConstructs cl linenum st =
     thenC (nonstandard_reports cl linenum) 
       (track_top linenum (elided cl ! linenum) (push_class linenum (elided cl ! linenum) st))"

section \<open>Shape of the stack\<close>

text \<open>What every entry satisfies after the lines before \<open>n\<close>: an entry whose brace has been seen has
  at least one open; one whose brace has not been seen has recorded nothing else; its lines are
  earlier ones.\<close>

definition class_info_ok :: "nat \<Rightarrow> class_info \<Rightarrow> bool" where
  "class_info_ok n ci \<longleftrightarrow>
     (if seen_open_brace ci then 0 < brace_depth ci
      else brace_depth ci = 0 \<and> virtual_method_linenumber ci = None \<and>
           \<not> has_virtual_destructor ci) \<and>
     ci_linenum ci < n \<and>
     (has_virtual_destructor ci \<longrightarrow> virtual_method_linenumber ci \<noteq> None) \<and>
     pred_option (\<lambda>v. ci_linenum ci \<le> v \<and> v < n) (virtual_method_linenumber ci)"

definition class_stack_ok :: "nat \<Rightarrow> class_state \<Rightarrow> bool" where
  "class_stack_ok n st \<longleftrightarrow>
     list_all (class_info_ok n) st \<and> sorted_wrt (<) (map ci_linenum st)"

lemma class_info_ok_Suc: "class_info_ok n ci \<Longrightarrow> class_info_ok (Suc n) ci"
  by (cases "virtual_method_linenumber ci") (auto simp: class_info_ok_def split: if_splits)

lemma note_virtual_simps [simp]:
  "ci_name (note_virtual n l b ci) = ci_name ci"
  "ci_linenum (note_virtual n l b ci) = ci_linenum ci"
  "seen_open_brace (note_virtual n l b ci) = seen_open_brace ci"
  "is_derived (note_virtual n l b ci) = is_derived ci"
  "brace_depth (note_virtual n l b ci) = brace_depth ci"
  by (simp_all add: note_virtual_def Let_def)

lemma open_class_SomeD:
  "open_class line ci = Some ci1 \<Longrightarrow>
     ci_linenum ci1 = ci_linenum ci \<and> ci_name ci1 = ci_name ci \<and>
     brace_depth ci1 = brace_depth ci \<and>
     virtual_method_linenumber ci1 = virtual_method_linenumber ci \<and>
     has_virtual_destructor ci1 = has_virtual_destructor ci \<and>
     (seen_open_brace ci1 \<longleftrightarrow> contains line ''{'')"
  by (auto simp: open_class_def Let_def py_find_neg_iff split: if_splits)

lemma returns_reports [chk_total]:
  "returns (explicit_report n line base)" "returns (virtual_report ci)"
  "returns (nonstandard_reports cl n)"
  by (auto simp: explicit_report_def virtual_report_def nonstandard_reports_def Let_def
      split: option.splits intro!: chk_total)

text \<open>One line: the entries below the top stay, the top is dropped or replaced by an entry for the
  same declaration.\<close>

definition top_or_drop :: "nat \<Rightarrow> class_info \<Rightarrow> class_state \<Rightarrow> stop + class_state \<Rightarrow> bool" where
  "top_or_drop n ci s res \<longleftrightarrow>
     res = Inr s \<or>
     (\<exists>ci'. res = Inr (s @ [ci']) \<and> class_info_ok (Suc n) ci' \<and>
            ci_linenum ci' = ci_linenum ci \<and> ci_name ci' = ci_name ci)"

lemma in_class_top:
  assumes "ci_linenum ci \<le> n" and "seen_open_brace ci"
    and "has_virtual_destructor ci \<longrightarrow> virtual_method_linenumber ci \<noteq> None"
    and "pred_option (\<lambda>v. ci_linenum ci \<le> v \<and> v < Suc n) (virtual_method_linenumber ci)"
  shows "top_or_drop n ci s (snd (in_class n line ci (s @ [x])))"
  using assms
  by (auto simp: in_class_def Let_def snd_thenC returns_reports set_top_def top_or_drop_def
      class_info_ok_def note_virtual_def)

lemma track_top_top:
  assumes ok: "class_info_ok (Suc n) ci"
  shows "top_or_drop n ci s (snd (track_top n line (s @ [ci])))"
proof (cases "seen_open_brace ci")
  case True
  with ok show ?thesis by (auto simp: track_top_def class_info_ok_def intro!: in_class_top)
next
  case closed: False
  show ?thesis
  proof (cases "open_class line ci")
    case None
    with closed show ?thesis by (simp add: track_top_def top_or_drop_def)
  next
    case (Some ci1)
    note f = open_class_SomeD [OF Some]
    show ?thesis
    proof (cases "seen_open_brace ci1")
      case True
      with f ok closed have "top_or_drop n ci1 s (snd (in_class n line ci1 (s @ [ci])))"
        by (intro in_class_top) (auto simp: class_info_ok_def)
      with f closed Some True show ?thesis by (simp add: track_top_def top_or_drop_def)
    next
      case False
      with f ok closed have "class_info_ok (Suc n) ci1" by (simp add: class_info_ok_def)
      with f closed Some False show ?thesis
        by (auto simp: track_top_def top_or_drop_def set_top_def)
    qed
  qed
qed

lemma push_class_ok:
  "class_stack_ok n st \<Longrightarrow> class_stack_ok (Suc n) (push_class n line st)"
  by (auto simp: class_stack_ok_def push_class_def sorted_wrt_append class_info_ok_Suc
      list_all_iff split: option.splits) (auto simp: ClassInfo_def class_info_ok_def)

lemma track_top_ok:
  assumes "class_stack_ok (Suc n) st"
  shows "\<exists>st'. snd (track_top n line st) = Inr st' \<and> class_stack_ok (Suc n) st' \<and>
     (st' = st \<or> st' = butlast st \<or> butlast st' = butlast st)"
proof (cases st rule: rev_cases)
  case Nil
  then show ?thesis by (simp add: track_top_def class_stack_ok_def)
next
  case (snoc s ci)
  with assms have "class_info_ok (Suc n) ci" by (simp add: class_stack_ok_def)
  from track_top_top [OF this, of s line] snoc assms show ?thesis
    by (auto simp: top_or_drop_def class_stack_ok_def sorted_wrt_append)
qed

lemma NonStandard_ok:
  assumes "class_stack_ok n st"
  shows "\<exists>st'. snd (CheckForNonStandardConstructs cl n st) = Inr st' \<and>
     class_stack_ok (Suc n) st'"
  using track_top_ok [OF push_class_ok [OF assms, of "elided cl ! n"], of "elided cl ! n"]
  by (auto simp: CheckForNonStandardConstructs_def snd_thenC returns_reports)

section \<open>Properties\<close>

text \<open>C20. The class check of a line always returns, and keeps the stack well formed: every entry
  whose opening brace has been seen has a positive brace depth, an entry that is still waiting
  for its brace has recorded nothing, the declarations on the stack are at increasing earlier
  lines, and a recorded virtual method lies between its class's line and the current one. Only
  the top of the stack can change: at most one declaration is added and at most one dropped.\<close>

theorem class_stack_invariant:
  assumes "class_stack_ok n st"
  shows "\<exists>st'. snd (CheckForNonStandardConstructs cl n st) = Inr st' \<and>
     class_stack_ok (Suc n) st' \<and>
     length st' \<le> Suc (length st) \<and> length st \<le> Suc (length st') \<and>
     take (length st - 1) st' = butlast st"
proof -
  let ?line = "elided cl ! n"
  from track_top_ok [OF push_class_ok [OF assms, of ?line], of ?line] obtain st' where
    st': "snd (track_top n ?line (push_class n ?line st)) = Inr st'" "class_stack_ok (Suc n) st'"
    and top: "st' = push_class n ?line st \<or> st' = butlast (push_class n ?line st) \<or>
      butlast st' = butlast (push_class n ?line st)"
    by blast
  have eq: "snd (CheckForNonStandardConstructs cl n st) = Inr st'"
    by (simp add: CheckForNonStandardConstructs_def snd_thenC returns_reports st'(1))
  from top have "length st' \<le> Suc (length st) \<and> length st \<le> Suc (length st') \<and>
      take (length st - 1) st' = butlast st"
    by (cases st' rule: rev_cases; cases st rule: rev_cases)
      (auto simp: push_class_def butlast_append split: option.splits)
  with eq st'(2) show ?thesis by blast
qed

theorem class_stack_invariant_witness:
  "\<exists>st'. snd (CheckForNonStandardConstructs (CleansedLines [[], [], [], ''class B {'']) 3
             [ClassInfo ''A'' 2]) = Inr st' \<and> class_stack_ok 4 st'"
proof -
  have "class_stack_ok 3 [ClassInfo ''A'' 2]"
    by (simp add: class_stack_ok_def class_info_ok_def ClassInfo_def)
  from class_stack_invariant [OF this, of "CleansedLines [[], [], [], ''class B {'']"]
  show ?thesis by auto
qed

text \<open>A run over \<open>m\<close> lines from line \<open>a\<close>, and the braces opened and not closed on them.\<close>

primrec class_run :: "clean_lines \<Rightarrow> nat \<Rightarrow> nat \<Rightarrow> class_state \<Rightarrow> class_state chk" where
  "class_run cl a 0 st = ret st"
| "class_run cl a (Suc m) st =
     bindC (class_run cl a m st) (\<lambda>st'. CheckForNonStandardConstructs cl (a + m) st')"

primrec brace_sum :: "clean_lines \<Rightarrow> nat \<Rightarrow> nat \<Rightarrow> int" where
  "brace_sum cl a 0 = 0"
| "brace_sum cl a (Suc m) =
     brace_sum cl a m + py_count (elided cl ! (a + m)) ''{'' - py_count (elided cl ! (a + m)) ''}''"

lemma NonStandard_in_class:
  assumes "declared_class (elided cl ! n) = None" and "seen_open_brace ci"
  shows "snd (CheckForNonStandardConstructs cl n (s @ [ci])) =
     Inr (if brace_depth ci + brace_sum cl n 1 \<le> 0 then s
          else s @ [note_virtual n (elided cl ! n) (base_classname ci) ci
                      \<lparr>brace_depth := brace_depth ci + brace_sum cl n 1\<rparr>])"
  using assms
  by (auto simp: CheckForNonStandardConstructs_def snd_thenC returns_reports push_class_def
      track_top_def in_class_def Let_def set_top_def)

text \<open>C21. Inside a class (its opening brace seen) and as long as no other class is declared, the
  recorded depth is the number of braces opened minus the number closed since, the entries below
  are untouched, and the class leaves the stack exactly at the first line where that number is
  no longer positive.\<close>

theorem class_closes_at_balance:
  assumes "seen_open_brace ci"
    and "\<forall>i < m. declared_class (elided cl ! (a + i)) = None"
    and "\<forall>k < m. 0 < k \<longrightarrow> 0 < brace_depth ci + brace_sum cl a k"
  shows "if m = 0 \<or> 0 < brace_depth ci + brace_sum cl a m
     then \<exists>ci'. snd (class_run cl a m (s @ [ci])) = Inr (s @ [ci']) \<and> seen_open_brace ci' \<and>
            ci_name ci' = ci_name ci \<and>
            brace_depth ci' = brace_depth ci + brace_sum cl a m
     else snd (class_run cl a m (s @ [ci])) = Inr s"
  using assms(2,3)
proof (induction m)
  case 0
  then show ?case using assms(1) by simp
next
  case (Suc m)
  from Suc.prems(2) have pos: "m = 0 \<or> 0 < brace_depth ci + brace_sum cl a m" by blast
  from Suc have "if m = 0 \<or> 0 < brace_depth ci + brace_sum cl a m
     then \<exists>ci'. snd (class_run cl a m (s @ [ci])) = Inr (s @ [ci']) \<and> seen_open_brace ci' \<and>
            ci_name ci' = ci_name ci \<and> brace_depth ci' = brace_depth ci + brace_sum cl a m
     else snd (class_run cl a m (s @ [ci])) = Inr s" by simp
  with pos obtain ci' where ci': "snd (class_run cl a m (s @ [ci])) = Inr (s @ [ci'])"
    "seen_open_brace ci'" "ci_name ci' = ci_name ci"
    "brace_depth ci' = brace_depth ci + brace_sum cl a m" by auto
  from Suc.prems(1) have "declared_class (elided cl ! (a + m)) = None" by simp
  from NonStandard_in_class [OF this ci'(2), of s] ci' show ?case
    by (simp add: snd_bindC)
qed

theorem class_closes_at_balance_witness:
  "snd (class_run (CleansedLines [[], ''class A {'', ''  int x() { return 1; }'', ''};'']) 2 2
          [(ClassInfo ''A'' 1)\<lparr>seen_open_brace := True, brace_depth := 1\<rparr>]) = Inr []"
proof -
  let ?cl = "CleansedLines [[], ''class A {'', ''  int x() { return 1; }'', ''};'']"
  have e: "elided ?cl = [[], ''class A {'', ''  int x() { return 1; }'', ''};'']" by code_simp
  have "declared_class ''  int x() { return 1; }'' = None" "declared_class ''};'' = None"
    by code_simp+
  then have d: "\<forall>i < 2. declared_class (elided ?cl ! (2 + i)) = None"
    by (simp add: e less_Suc_eq numeral_2_eq_2)
  have b: "brace_sum ?cl 2 1 = 0" "brace_sum ?cl 2 2 = -1"
    by (simp_all add: e numeral_2_eq_2 py_count_char)
  from class_closes_at_balance [OF _ d,
      of "(ClassInfo ''A'' 1)\<lparr>seen_open_brace := True, brace_depth := 1\<rparr>" "[]"] b
  show ?thesis by (simp add: less_Suc_eq numeral_2_eq_2)
qed

end
