(* ===== verification/Spacing.thy ===== *)
theory Spacing
  imports Cleanse
begin

text \<open>
  The white space checks of one line (tools/cpplint.py): \<open>CheckSpacing\<close> with its callees
  \<open>CheckComment\<close> and \<open>CheckSpacingForFunctionCall\<close>, and \<open>IsBlankLine\<close>.
\<close>

definition IsBlankLine :: "string \<Rightarrow> bool" where
  "IsBlankLine line = (line = [] \<or> all_space line)"

section \<open>CheckSpacingForFunctionCall\<close>

text \<open>The part inside the parentheses of a control statement, or the whole line.\<close>

fun first_group :: "string list \<Rightarrow> string \<Rightarrow> string" where
  "first_group [] line = line"
| "first_group (p # ps) line =
     (case Search p line of Some m \<Rightarrow> group_text m 1 | None \<Rightarrow> first_group ps line)"

definition control_patterns :: "string list" where
  "control_patterns =
     [raw ''`bif`s*`((.*)`)`s*{'', raw ''`bfor`s*`((.*)`)`s*{'',
      raw ''`bwhile`s*`((.*)`)`s*[{;]'', raw ''`bswitch`s*`((.*)`)`s*{'']"

definition CheckSpacingForFunctionCall :: "string \<Rightarrow> nat \<Rightarrow> unit chk" where
  "CheckSpacingForFunctionCall line linenum =
     (let fncall = first_group control_patterns line;
          error = rep (int linenum)
      in whenC (\<not> found (raw ''`b(if|for|while|switch|return|delete)`b'') fncall \<and>
                \<not> found (raw '' `([^)]+`)`([^)]*(`)|,$)'') fncall \<and>
                \<not> found (raw '' `([^)]+`)`[[^`]]+`]'') fncall)
           (seqC
             [if found (raw ''`w`s*`(`s(?!`s*``$)'') fncall then
                error ''whitespace/parens'' 4 ''Extra space after ( in function call''
              else if found (raw ''`(`s+(?!(`s*``)|`()'') fncall then
                error ''whitespace/parens'' 2 ''Extra space after (''
              else ret (),
              whenC (found (raw ''`w`s+`('') fncall \<and> \<not> found (raw ''#`s*define|typedef'') fncall)
                (error ''whitespace/parens'' 4 ''Extra space before ( in function call''),
              whenC (found (raw ''[^)]`s+`)`s*[^{`s]'') fncall)
                (error ''whitespace/parens'' 2 ''Extra space before )'')]))"

section \<open>CheckComment\<close>

definition RE_TODO :: string where
  "RE_TODO = raw ''^//(`s*)TODO(`(.+?`))?:?(`s|$)?''"

definition CheckComment :: "string \<Rightarrow> nat \<Rightarrow> unit chk" where
  "CheckComment comment linenum =
     (case Match RE_TODO comment of
        None \<Rightarrow> ret ()
      | Some m \<Rightarrow>
          let error = rep (int linenum) in
          seqC
            [whenC (1 < length (group_text m 1))
               (error ''whitespace/todo'' 2 ''Too many spaces before TODO''),
             whenC (group m 2 = None \<or> group m 2 = Some [])
               (error ''readability/todo'' 2
                  (''Missing username in TODO; it should look like ''
                   @ ''\"// TODO(my_username): Stuff.\"'')),
             whenC (group m 3 \<noteq> Some '' '' \<and> group m 3 \<noteq> Some [])
               (error ''whitespace/todo'' 2
                  ''TODO(my_username) should be followed by a space'')])"

section \<open>CheckSpacing\<close>

text \<open>\<open>while search_position >= 0 and Match(...): search_position -= 1\<close>; the argument is one
  more than the position, so 0 stands for -1.\<close>

fun initializer_start :: "string list \<Rightarrow> nat \<Rightarrow> nat" where
  "initializer_start ls 0 = 0"
| "initializer_start ls (Suc p) =
     (if matches (raw '' {6}`w'') (ls ! p) then initializer_start ls p else Suc p)"

definition header_exception :: "string list \<Rightarrow> nat \<Rightarrow> string \<Rightarrow> bool" where
  "header_exception ls linenum prev_line =
     (if matches (raw '' {6}`w'') prev_line then
        (let p = initializer_start ls (linenum - 1)
         in 0 < p \<and> slice_to (ls ! (p - 1)) 5 = ''    :'')
      else matches (raw '' {4}`w[^`(]*`)`s*(const`s*)?(`{`s*$|:)'') prev_line \<or>
           matches '' {4}:'' prev_line)"

definition blank_line_reports :: "clean_lines \<Rightarrow> nat \<Rightarrow> unit chk" where
  "blank_line_reports cl linenum =
     bindC (of_option IndexError (py_get (elided cl) (int linenum - 1))) (\<lambda>prev_line.
       let prevbrace = py_rfind_char prev_line CHR ''{''
       in thenC
            (whenC (prevbrace \<noteq> -1 \<and> py_find (slice_from prev_line prevbrace) ''}'' = -1 \<and>
                    py_find (slice_to prev_line prevbrace) ''namespace'' = -1 \<and>
                    \<not> header_exception (elided cl) linenum prev_line)
               (rep (int linenum) ''whitespace/blank_line'' 2
                  ''Blank line at the start of a code block.  Is this needed?''))
            (whenC (Suc linenum < NumLines cl \<and>
                    (let next_line = raw_lines cl ! Suc linenum
                     in next_line \<noteq> [] \<and> matches (raw ''`s*}'') next_line \<and>
                        py_find next_line ''namespace'' = -1 \<and>
                        py_find next_line ''} else '' = -1))
               (rep (int linenum) ''whitespace/blank_line'' 3
                  ''Blank line at the end of a code block.  Is this needed?'')))"

definition comment_reports :: "string \<Rightarrow> nat \<Rightarrow> unit chk" where
  "comment_reports line linenum =
     (let commentpos = py_find line ''//''
      in if commentpos = -1 then ret ()
         else
           let p = nat commentpos; before = take p line; after = drop (p + 2) line in
           whenC ((py_count before ''\"'' - py_count before [bslash, CHR 0x22]) mod 2 = 0)
             (seqC
               [whenC (\<not> matches (raw ''^`s*{ //'') line \<and>
                       ((1 \<le> p \<and> \<not> ascii_space (line ! (p - 1))) \<or>
                        (2 \<le> p \<and> \<not> ascii_space (line ! (p - 2)))))
                  (rep (int linenum) ''whitespace/comments'' 2
                     ''At least two spaces is best between code and comments''),
                whenC (after \<noteq> [] \<and> hd after \<noteq> CHR '' '' \<and>
                       \<not> (found (raw ''[=/-]{4,}`s*$'') after \<or> found ''^/$'' after \<or>
                          found ''^/+ '' after))
                  (rep (int linenum) ''whitespace/comments'' 4
                     ''Should have a space between // and comment''),
                CheckComment (drop p line) linenum]))"

text \<open>The comparison operators without spaces: the first pattern, or else the second when the line
  does not end in a template parameter list.\<close>

definition unspaced_comparison :: "string \<Rightarrow> rmatch option" where
  "unspaced_comparison line =
     (case Search (raw ''[^<>=!`s](==|!=|<=|>=)[^<>=!`s]'') line of
        Some m \<Rightarrow> Some m
      | None \<Rightarrow>
          if \<not> found (raw ''<[^<]*,`s*$'') line
          then Search (raw ''[^<>=!`s](<)[^<>=!`s]([^>]|->)*$'') line
          else None)"

definition report_group :: "rmatch option \<Rightarrow> nat \<Rightarrow> string \<Rightarrow> int \<Rightarrow> string \<Rightarrow> unit chk" where
  "report_group m linenum category confidence message =
     (case m of
        None \<Rightarrow> ret ()
      | Some m \<Rightarrow> rep (int linenum) category confidence (message @ group_text m 1))"

definition paren_reports :: "string \<Rightarrow> nat \<Rightarrow> unit chk" where
  "paren_reports line linenum =
     (case Search (raw (''`b(if|for|while|switch)`s*'' @ ''`(([ ]*)(.).*[^ ]+([ ]*)`)`s*{`s*$''))
             line of
        None \<Rightarrow> ret ()
      | Some m \<Rightarrow>
          let g2 = length (group_text m 2); g4 = length (group_text m 4) in
          thenC
            (whenC (g2 \<noteq> g4 \<and>
                    \<not> ((group_text m 3 = '';'' \<and> g2 = 1 + g4) \<or>
                       (g2 = 0 \<and> found (raw ''`bfor`s*`(.*; `)'') line)))
               (rep (int linenum) ''whitespace/parens'' 5
                  (''Mismatching spaces inside () in '' @ group_text m 1)))
            (whenC (g2 \<notin> set [0, 1])
               (rep (int linenum) ''whitespace/parens'' 5
                  (''Should have zero or one spaces inside ( and ) in '' @ group_text m 1))))"

definition semicolon_reports :: "string \<Rightarrow> nat \<Rightarrow> unit chk" where
  "semicolon_reports line linenum =
     (if found (raw '':`s*;`s*$'') line then
        rep (int linenum) ''whitespace/semicolon'' 5
          ''Semicolon defining empty statement. Use { } instead.''
      else if found (raw ''^`s*;`s*$'') line then
        rep (int linenum) ''whitespace/semicolon'' 5
          (''Line contains only semicolon. If this should be an empty statement, ''
           @ ''use { } instead.'')
      else if found (raw ''`s+;`s*$'') line \<and> \<not> found (raw ''`bfor`b'') line then
        rep (int linenum) ''whitespace/semicolon'' 5
          (''Extra space before last semicolon. If this should be an empty ''
           @ ''statement, use { } instead.'')
      else ret ())"

text \<open>The checks of the line without comments and strings. The replacement text of the first
  substitution keeps its backslash: Python does not treat \<open>\(\<close> in a template specially.\<close>

definition operator_reports :: "string \<Rightarrow> nat \<Rightarrow> unit chk" where
  "operator_reports elided_line linenum =
     (let line = Sub (raw ''operator(==|!=|<|<<|<=|>=|>>|>)`('') (raw ''operator`('') elided_line;
          error = rep (int linenum)
      in seqC
        [whenC (found (raw ''[`w.]=[`w.]'') line \<and> \<not> found (raw ''`b(if|while) '') line)
           (error ''whitespace/operators'' 4 ''Missing spaces around =''),
         report_group (unspaced_comparison line) linenum ''whitespace/operators'' 3
           ''Missing spaces around '',
         report_group (Search (raw ''[^0-9`s](<<|>>)[^0-9`s]'') line) linenum
           ''whitespace/operators'' 3 ''Missing spaces around '',
         report_group (Search (raw ''(!`s|~`s|[`s]--[`s;]|[`s]`+`+[`s;])'') line) linenum
           ''whitespace/operators'' 4 ''Extra space for operator '',
         report_group (Search (raw '' (if`(|for`(|while`(|switch`()'') line) linenum
           ''whitespace/parens'' 5 ''Missing space before ( in '',
         paren_reports line linenum,
         whenC (found (raw '',[^`s]'') line)
           (error ''whitespace/comma'' 3 ''Missing space after ,''),
         CheckSpacingForFunctionCall line linenum,
         whenC (found ''[^ (]{'' line)
           (error ''whitespace/braces'' 5 ''Missing space before {''),
         whenC (found ''}else'' line)
           (error ''whitespace/braces'' 5 ''Missing space before else''),
         whenC (found (raw ''`w`s+`['') line \<and> \<not> found (raw ''delete`s+`['') line)
           (error ''whitespace/braces'' 5 ''Extra space before [''),
         semicolon_reports line linenum])"

definition CheckSpacing :: "clean_lines \<Rightarrow> nat \<Rightarrow> unit chk" where
  "CheckSpacing cl linenum =
     (let line = raw_lines cl ! linenum
      in thenC (if IsBlankLine line then blank_line_reports cl linenum else ret ())
           (thenC (comment_reports line linenum)
             (operator_reports (elided cl ! linenum) linenum)))"

end
