(* ===== verification/Braces.thy ===== *)
theory Braces
  imports Spacing "HOL-Library.While_Combinator"
begin

text \<open>
  \<open>GetPreviousNonBlankLine\<close> and \<open>CheckBraces\<close> (tools/cpplint.py).

  The last check of \<open>CheckBraces\<close> joins a line with the non-blank lines before it in a
  \<open>while True\<close> loop. Before the first non-blank line there is the empty string at line -1, again
  and again, so the loop need not end: it is a \<open>while_option\<close> here, and not ending is the outcome
  \<open>Diverges\<close>. \<open>joined_line\<close> is the total function that decides and describes its result.
\<close>

section \<open>GetPreviousNonBlankLine\<close>

function seek_nonblank :: "clean_lines \<Rightarrow> int \<Rightarrow> string \<times> int" where
  "seek_nonblank cl prevlinenum =
     (if 0 \<le> prevlinenum then
        let prevline = elided cl ! nat prevlinenum
        in if \<not> IsBlankLine prevline then (prevline, prevlinenum)
           else seek_nonblank cl (prevlinenum - 1)
      else ([], -1))"
  by pat_completeness auto
termination
  by (relation "measure (\<lambda>(_, n). nat (n + 1))") auto

declare seek_nonblank.simps [simp del]

definition GetPreviousNonBlankLine :: "clean_lines \<Rightarrow> int \<Rightarrow> string \<times> int" where
  "GetPreviousNonBlankLine cl linenum = seek_nonblank cl (linenum - 1)"

section \<open>CheckBraces\<close>

definition RE_BLOCK_SEMICOLON :: string where
  "RE_BLOCK_SEMICOLON = raw ''`s+{.*}`s*;''"

text \<open>One round of the loop looks at the previous non-blank line; it continues with that line put
  in front and with its number.\<close>

definition join_more :: "clean_lines \<Rightarrow> string \<times> int \<Rightarrow> bool" where
  "join_more cl = (\<lambda>(line, prevlinenum).
     matches RE_BLOCK_SEMICOLON line \<and>
     py_count (fst (GetPreviousNonBlankLine cl prevlinenum)) '';'' = 0)"

definition join_step :: "clean_lines \<Rightarrow> string \<times> int \<Rightarrow> string \<times> int" where
  "join_step cl = (\<lambda>(line, prevlinenum).
     (fst (GetPreviousNonBlankLine cl prevlinenum) @ line,
      snd (GetPreviousNonBlankLine cl prevlinenum)))"

definition join_loop :: "clean_lines \<Rightarrow> nat \<Rightarrow> string \<Rightarrow> string option" where
  "join_loop cl linenum line =
     map_option fst (while_option (join_more cl) (join_step cl) (line, int linenum))"

definition needless_semicolon :: "string \<Rightarrow> bool" where
  "needless_semicolon line =
     (found (raw ''{.*}`s*;'') line \<and>
      py_count line ''{'' = py_count line ''}'' \<and>
      \<not> found (raw ''struct|class|enum|`s*=`s*{'') line)"

definition needless_semicolon_report :: "clean_lines \<Rightarrow> nat \<Rightarrow> unit chk" where
  "needless_semicolon_report cl linenum =
     bindC (of_option Diverges (join_loop cl linenum (elided cl ! linenum))) (\<lambda>line.
       whenC (needless_semicolon line)
         (rep (int linenum) ''readability/braces'' 4
            (''You don'' @ [CHR 0x27] @ ''t need a ; after a }'')))"

definition uneven_else_report :: "clean_lines \<Rightarrow> nat \<Rightarrow> unit chk" where
  "uneven_else_report cl linenum =
     (let line = elided cl ! linenum;
          report = rep (int linenum) ''readability/braces'' 5
                     ''If an else has a brace on one side, it should have it on both''
      in if found (raw ''}`s*else[^{]*$'') line \<or> matches (raw ''[^}]*else`s*{'') line then
           (if found (raw ''}`s*else if([^{]*)$'') line then
              (let pos = py_find_at line ''('' (nat (py_find line ''else if''))
               in if 0 < pos then
                    (case CloseExpression cl linenum pos of
                       Inl e \<Rightarrow> raise e
                     | Inr (endline, _, endpos) \<Rightarrow>
                         whenC (py_find (slice_from endline endpos) ''{'' = -1) report)
                  else ret ())
            else report)
         else ret ())"

definition CheckBraces :: "clean_lines \<Rightarrow> nat \<Rightarrow> unit chk" where
  "CheckBraces cl linenum =
     (let line = elided cl ! linenum;
          prevline = fst (GetPreviousNonBlankLine cl (int linenum));
          error = rep (int linenum)
      in seqC
        [whenC (matches (raw ''`s*{`s*$'') line \<and> \<not> found (raw ''[;:}{]`s*$'') prevline)
           (error ''whitespace/braces'' 4
              ''{ should almost always be at the end of the previous line''),
         whenC (matches (raw ''`s*else`s*'') line \<and> matches (raw ''`s*}`s*$'') prevline)
           (error ''whitespace/newline'' 4
              ''An else should appear on the same line as the preceding }''),
         uneven_else_report cl linenum,
         whenC (found (raw ''`belse [^`s{]'') line \<and> \<not> found (raw ''`belse if`b'') line)
           (error ''whitespace/newline'' 4
              ''Else clause should never be on same line as else (use 2 lines)''),
         whenC (matches (raw ''`s*do [^`s{]'') line)
           (error ''whitespace/newline'' 4
              ''do/while clauses should not be on a single line''),
         needless_semicolon_report cl linenum])"

section \<open>The previous non-blank line\<close>

text \<open>The number of the last non-blank line before \<open>n\<close>.\<close>

fun prev_nonblank :: "clean_lines \<Rightarrow> nat \<Rightarrow> nat option" where
  "prev_nonblank cl 0 = None"
| "prev_nonblank cl (Suc n) =
     (if \<not> IsBlankLine (elided cl ! n) then Some n else prev_nonblank cl n)"

lemma seek_prev:
  "seek_nonblank cl (int n - 1) =
     (case prev_nonblank cl n of None \<Rightarrow> ([], -1) | Some m \<Rightarrow> (elided cl ! m, int m))"
  by (induction n) (simp_all add: seek_nonblank.simps)

lemma GetPrevious_eq:
  "GetPreviousNonBlankLine cl (int n) =
     (case prev_nonblank cl n of None \<Rightarrow> ([], -1) | Some m \<Rightarrow> (elided cl ! m, int m))"
  by (simp add: GetPreviousNonBlankLine_def seek_prev)

lemma GetPrevious_before: "GetPreviousNonBlankLine cl (-1) = ([], -1)"
  by (simp add: GetPreviousNonBlankLine_def seek_nonblank.simps)

lemma prev_nonblank_less: "prev_nonblank cl n = Some m \<Longrightarrow> m < n"
  by (induction n) (auto split: if_splits)

lemma prev_nonblank_Some_iff:
  "prev_nonblank cl n = Some m \<longleftrightarrow>
     m < n \<and> \<not> IsBlankLine (elided cl ! m) \<and>
     (\<forall>k. m < k \<and> k < n \<longrightarrow> IsBlankLine (elided cl ! k))"
  by (induction n) (auto simp: less_Suc_eq)

lemma prev_nonblank_None_iff:
  "prev_nonblank cl n = None \<longleftrightarrow> (\<forall>k < n. IsBlankLine (elided cl ! k))"
  by (induction n) (auto simp: less_Suc_eq)

section \<open>The joining loop\<close>

function joined_line :: "clean_lines \<Rightarrow> nat \<Rightarrow> string \<Rightarrow> string option" where
  "joined_line cl n line =
     (if \<not> matches RE_BLOCK_SEMICOLON line then Some line
      else
        case prev_nonblank cl n of
          None \<Rightarrow> None
        | Some m \<Rightarrow>
            if contains (elided cl ! m) '';'' then Some line
            else joined_line cl m (elided cl ! m @ line))"
  by pat_completeness auto
termination
  by (relation "measure (\<lambda>(_, n, _). n)") (auto dest: prev_nonblank_less)

declare joined_line.simps [simp del]

lemma join_loop_at_start:
  assumes "matches RE_BLOCK_SEMICOLON line"
  shows "while_option (join_more cl) (join_step cl) (line, -1) = None"
proof (rule ccontr)
  assume "while_option (join_more cl) (join_step cl) (line, -1) \<noteq> None"
  then obtain s where s: "while_option (join_more cl) (join_step cl) (line, -1) = Some s" by blast
  have "s = (line, -1)"
    by (rule while_option_rule [where P = "\<lambda>s. s = (line, -1)", OF _ s])
      (simp_all add: join_step_def GetPrevious_before)
  with while_option_stop [OF s] assms show False
    by (simp add: join_more_def GetPrevious_before py_count_def)
qed

lemma join_loop_joined_line:
  "map_option fst (while_option (join_more cl) (join_step cl) (line, int n)) = joined_line cl n line"
proof (induction cl n line rule: joined_line.induct)
  case (1 cl n line)
  show ?case
  proof (cases "matches RE_BLOCK_SEMICOLON line")
    case False
    then show ?thesis
      by (subst while_option_unfold) (simp add: join_more_def joined_line.simps)
  next
    case m: True
    have c: "(py_count s '';'' = 0) = (\<not> contains s '';'')" for s
      by (simp add: py_count_char contains_char count_list_0_iff)
    show ?thesis
    proof (cases "prev_nonblank cl n")
      case None
      with m have "join_more cl (line, int n)" "join_step cl (line, int n) = (line, -1)"
        by (simp_all add: join_more_def join_step_def GetPrevious_eq py_count_def)
      with m None show ?thesis
        by (subst while_option_unfold) (simp add: join_loop_at_start joined_line.simps)
    next
      case (Some k)
      show ?thesis
      proof (cases "contains (elided cl ! k) '';''")
        case True
        with m Some have "\<not> join_more cl (line, int n)"
          by (simp add: join_more_def GetPrevious_eq c)
        with m Some True show ?thesis
          by (subst while_option_unfold) (simp add: joined_line.simps)
      next
        case False
        with m Some have "join_more cl (line, int n)"
          "join_step cl (line, int n) = (elided cl ! k @ line, int k)"
          by (simp_all add: join_more_def join_step_def GetPrevious_eq c)
        with m Some False "1.IH" show ?thesis
          by (subst while_option_unfold) (simp add: joined_line.simps)
      qed
    qed
  qed
qed

lemma join_loop_eq: "join_loop cl n line = joined_line cl n line"
  by (simp add: join_loop_def join_loop_joined_line)

section \<open>Properties\<close>

text \<open>C23. \<open>GetPreviousNonBlankLine\<close> returns the nearest earlier line that is not blank, with its
  number; or the empty string and -1 exactly when every earlier line is blank.\<close>

theorem GetPreviousNonBlankLine_spec:
  "case GetPreviousNonBlankLine cl (int n) of (line, i) \<Rightarrow>
     (i = -1 \<and> line = [] \<and> (\<forall>k < n. IsBlankLine (elided cl ! k))) \<or>
     (\<exists>m < n. i = int m \<and> line = elided cl ! m \<and> \<not> IsBlankLine line \<and>
        (\<forall>k. m < k \<and> k < n \<longrightarrow> IsBlankLine (elided cl ! k)))"
proof (cases "prev_nonblank cl n")
  case None
  then show ?thesis by (simp add: GetPrevious_eq prev_nonblank_None_iff [symmetric])
next
  case (Some m)
  with prev_nonblank_Some_iff [of cl n m] show ?thesis by (auto simp: GetPrevious_eq)
qed

theorem GetPreviousNonBlankLine_spec_witness:
  "GetPreviousNonBlankLine (CleansedLines [''int f() {'', ''  '', [], ''}'']) 3 = (''int f() {'', 0)"
proof -
  let ?cl = "CleansedLines [''int f() {'', ''  '', [], ''}'']"
  have e: "elided ?cl = [''int f() {'', ''  '', [], ''}'']" by code_simp
  have b: "\<not> IsBlankLine ''int f() {''" "IsBlankLine ''  ''" "IsBlankLine []" by code_simp+
  obtain line i where l: "GetPreviousNonBlankLine ?cl 3 = (line, i)"
    by (cases "GetPreviousNonBlankLine ?cl 3")
  from GetPreviousNonBlankLine_spec [where cl = ?cl and n = 3] l
  have "i = -1 \<and> (\<forall>k < 3. IsBlankLine (elided ?cl ! k)) \<or>
      (\<exists>m < 3. i = int m \<and> line = elided ?cl ! m \<and> \<not> IsBlankLine line)" by auto
  with b l show ?thesis by (auto simp: e less_Suc_eq numeral_3_eq_3)
qed

lemma returns_needless_iff:
  "snd (needless_semicolon_report cl n) =
     (case joined_line cl n (elided cl ! n) of None \<Rightarrow> Inl Diverges | Some _ \<Rightarrow> Inr ())"
  by (simp add: needless_semicolon_report_def join_loop_eq of_option_def whenC_def
      snd_bindC split: option.split)

lemma CheckBraces_snd:
  assumes "returns (uneven_else_report cl n)"
  shows "snd (CheckBraces cl n) = snd (needless_semicolon_report cl n)"
  using assms
  by (simp add: CheckBraces_def Let_def snd_thenC returns_whenC thenC_def [of _ "ret ()"])



text \<open>A sufficient condition for \<open>CheckBraces\<close> to return: the last non-blank line before the
  checked one has a semicolon, or the line does not begin with white space and a braced block
  with a semicolon after it.\<close>

lemma CheckBraces_returns:
  assumes "returns (uneven_else_report cl n)"
    and "\<not> matches RE_BLOCK_SEMICOLON (elided cl ! n) \<or>
         (\<exists>m. prev_nonblank cl n = Some m \<and> contains (elided cl ! m) '';'')"
  shows "returns (CheckBraces cl n)"
  using assms(2)
  by (auto simp: returns_def CheckBraces_snd [OF assms(1)] returns_needless_iff
      joined_line.simps [of cl n "elided cl ! n"])

end
