(* ===== verification/Macros.thy ===== *)
theory Macros
  imports Cleanse
begin

text \<open>
  The assertion macros (tools/cpplint.py): the tables \<open>_CHECK_MACROS\<close> and \<open>_CHECK_REPLACEMENT\<close>,
  \<open>ReplaceableCheck\<close> and \<open>CheckCheck\<close>.
\<close>

definition CHECK_MACROS :: "string list" where
  "CHECK_MACROS =
     [''DCHECK'', ''CHECK'',
      ''EXPECT_TRUE_M'', ''EXPECT_TRUE'',
      ''ASSERT_TRUE_M'', ''ASSERT_TRUE'',
      ''EXPECT_FALSE_M'', ''EXPECT_FALSE'',
      ''ASSERT_FALSE_M'', ''ASSERT_FALSE'']"

text \<open>The two module-level loops fill the nested dictionary \<open>_CHECK_REPLACEMENT\<close>.\<close>

type_synonym replacements = "(string \<times> (string \<times> string) list) list"

definition set_replacement ::
    "string \<Rightarrow> string \<Rightarrow> string \<Rightarrow> replacements \<Rightarrow> replacements" where
  "set_replacement m op r d =
     (case map_of d m of
        None \<Rightarrow> d
      | Some ops \<Rightarrow> assoc_set m (assoc_set op r ops) d)"

definition replacement_round :: "string \<times> string \<Rightarrow> replacements \<Rightarrow> replacements" where
  "replacement_round p d =
     (case p of (op, r) \<Rightarrow>
        set_replacement ''ASSERT_TRUE_M'' op (''ASSERT_'' @ r @ ''_M'')
          (set_replacement ''EXPECT_TRUE_M'' op (''EXPECT_'' @ r @ ''_M'')
            (set_replacement ''ASSERT_TRUE'' op (''ASSERT_'' @ r)
              (set_replacement ''EXPECT_TRUE'' op (''EXPECT_'' @ r)
                (set_replacement ''CHECK'' op (''CHECK_'' @ r)
                  (set_replacement ''DCHECK'' op (''DCHECK_'' @ r) d))))))"

definition inv_replacement_round :: "string \<times> string \<Rightarrow> replacements \<Rightarrow> replacements" where
  "inv_replacement_round p d =
     (case p of (op, r) \<Rightarrow>
        set_replacement ''ASSERT_FALSE_M'' op (''ASSERT_'' @ r @ ''_M'')
          (set_replacement ''EXPECT_FALSE_M'' op (''EXPECT_'' @ r @ ''_M'')
            (set_replacement ''ASSERT_FALSE'' op (''ASSERT_'' @ r)
              (set_replacement ''EXPECT_FALSE'' op (''EXPECT_'' @ r) d))))"

definition CHECK_REPLACEMENT :: replacements where
  "CHECK_REPLACEMENT =
     fold inv_replacement_round
       [(''=='', ''NE''), (''!='', ''EQ''), (''>='', ''LT''), (''>'', ''LE''), (''<='', ''GT''),
        (''<'', ''GE'')]
       (fold replacement_round
         [(''=='', ''EQ''), (''!='', ''NE''), (''>='', ''GE''), (''>'', ''GT''), (''<='', ''LE''),
          (''<'', ''LT'')]
         (map (\<lambda>m. (m, [])) CHECK_MACROS))"

definition match_constant :: string where
  "match_constant =
     raw (''([-+]?(`d+|0[xX][0-9a-fA-F]+)[lLuU]{0,3}|\".*\"|'' @ [CHR 0x27] @ ''.*''
          @ [CHR 0x27] @ '')'')"

definition ReplaceableCheck :: "string \<Rightarrow> string \<Rightarrow> string \<Rightarrow> bool" where
  "ReplaceableCheck operator macro line =
     (let match_this =
        raw ''`s*'' @ macro @ raw ''`((`s*'' @
        match_constant @ raw ''`s*'' @ operator @ raw ''[^<>].*|'' @
        raw ''.*[^<>]'' @ operator @ raw ''`s*'' @ match_constant @
        raw ''`s*`))''
      in matches match_this line \<and> \<not> found (raw ''NULL|&&|`|`|'') line)"

definition check_operators :: "string list" where
  "check_operators = [''=='', ''!='', ''>='', ''>'', ''<='', ''<'']"

definition CheckCheck :: "clean_lines \<Rightarrow> nat \<Rightarrow> unit chk" where
  "CheckCheck cl linenum =
     (case find (\<lambda>macro. 0 \<le> py_find (raw_lines cl ! linenum) macro) CHECK_MACROS of
        None \<Rightarrow> ret ()
      | Some current_macro \<Rightarrow>
          let line = elided cl ! linenum in
          (case find (\<lambda>operator. ReplaceableCheck operator current_macro line) check_operators of
             None \<Rightarrow> ret ()
           | Some operator \<Rightarrow>
               bindC (of_option KeyError
                        (Option.bind (map_of CHECK_REPLACEMENT current_macro)
                           (\<lambda>ops. map_of ops operator)))
                 (\<lambda>replacement. rep (int linenum) ''readability/check'' 2
                    (''Consider using '' @ replacement @ '' instead of '' @ current_macro
                     @ ''(a '' @ operator @ '' b)''))))"

section \<open>The table is complete\<close>

text \<open>The replacement for a macro and an operator, without the table: the operator itself, negated
  for the \<open>FALSE\<close> macros, put in front of the \<open>_M\<close> of a macro that has one.\<close>

definition operator_name :: "bool \<Rightarrow> string \<Rightarrow> string option" where
  "operator_name negated operator =
     map_of (if negated
        then [(''=='', ''NE''), (''!='', ''EQ''), (''>='', ''LT''), (''>'', ''LE''),
              (''<='', ''GT''), (''<'', ''GE'')]
        else [(''=='', ''EQ''), (''!='', ''NE''), (''>='', ''GE''), (''>'', ''GT''),
              (''<='', ''LE''), (''<'', ''LT'')]) operator"

definition macro_family :: "string \<Rightarrow> string \<times> bool \<times> string" where
  "macro_family macro =
     (if macro = ''DCHECK'' then (''DCHECK_'', False, [])
      else if macro = ''CHECK'' then (''CHECK_'', False, [])
      else (take 7 macro, contains macro ''FALSE'', if endswith macro ''_M'' then ''_M'' else []))"

definition replacement_name :: "string \<Rightarrow> string \<Rightarrow> string option" where
  "replacement_name macro operator =
     (case macro_family macro of (prefix, negated, suffix) \<Rightarrow>
        map_option (\<lambda>name. prefix @ name @ suffix) (operator_name negated operator))"

lemma table_eq:
  "list_all (\<lambda>macro. list_all (\<lambda>operator.
       Option.bind (map_of CHECK_REPLACEMENT macro) (\<lambda>ops. map_of ops operator) =
         replacement_name macro operator \<and>
       replacement_name macro operator \<noteq> None) check_operators) CHECK_MACROS"
  by code_simp

lemma find_mem: "find P xs = Some x \<Longrightarrow> x \<in> set xs \<and> P x"
  by (auto simp: find_Some_iff)

text \<open>C24. The table has a replacement for every macro and operator, so \<open>CheckCheck\<close> never raises
  KeyError: it reports at most once, for the first macro of the list that occurs in the raw line
  and the first operator that can be replaced, and names the macro of the same family for that
  operator, the negated operator for the FALSE macros.\<close>

theorem CheckCheck_spec:
  "CheckCheck cl n =
     (case find (\<lambda>macro. contains (raw_lines cl ! n) macro) CHECK_MACROS of
        None \<Rightarrow> ret ()
      | Some macro \<Rightarrow>
          (case find (\<lambda>operator. ReplaceableCheck operator macro (elided cl ! n)) check_operators of
             None \<Rightarrow> ret ()
           | Some operator \<Rightarrow>
               rep (int n) ''readability/check'' 2
                 (''Consider using '' @ the (replacement_name macro operator) @ '' instead of ''
                  @ macro @ ''(a '' @ operator @ '' b)'')))"
proof -
  have c: "0 \<le> py_find s m \<longleftrightarrow> contains s m" for s m
    using py_find_ge [of s m] py_find_neg_iff [of s m] by linarith
  have t: "Option.bind (map_of CHECK_REPLACEMENT macro) (\<lambda>ops. map_of ops operator) =
      Some (the (replacement_name macro operator))"
    if "macro \<in> set CHECK_MACROS" "operator \<in> set check_operators" for macro operator
    using table_eq that unfolding list_all_iff by auto
  show ?thesis
    unfolding CheckCheck_def Let_def c
    by (auto simp: of_option_def t dest!: find_mem split: option.splits)
qed

end
