(* ===== verification/Style.thy ===== *)
theory Style
  imports FileInfo Braces Macros
begin

text \<open>
  \<open>GetLineWidth\<close> and \<open>CheckStyle\<close> (tools/cpplint.py): tabs, indentation, line length, several
  commands on a line, and then the checks of braces, spacing and assertion macros.

  On the code points of the model (see PyString), normalisation to NFC changes nothing, no
  character is wide and none combines.
\<close>

definition wide_char :: "char \<Rightarrow> bool" where
  "wide_char c = False"

definition combining_char :: "char \<Rightarrow> bool" where
  "combining_char c = False"

definition GetLineWidth :: "string \<Rightarrow> nat" where
  "GetLineWidth line =
     fold (\<lambda>c width. if wide_char c then width + 2
                     else if \<not> combining_char c then width + 1 else width) line 0"

lemma fold_count: "fold (\<lambda>c width. width + 1) s n = n + length s"
  by (induction s arbitrary: n) auto

lemma GetLineWidth_length: "GetLineWidth line = length line"
  using fold_count [of line 0] by (simp add: GetLineWidth_def wide_char_def combining_char_def)

fun initial_spaces :: "string \<Rightarrow> nat" where
  "initial_spaces [] = 0"
| "initial_spaces (c # s) = (if c = CHR '' '' then Suc (initial_spaces s) else 0)"

definition indent_reports :: "clean_lines \<Rightarrow> nat \<Rightarrow> unit chk" where
  "indent_reports cl linenum =
     (let line = raw_lines cl ! linenum; n = initial_spaces line
      in if line \<noteq> [] \<and> py_isspace (last line) then
           rep (int linenum) ''whitespace/end_of_line'' 4
             ''Line ends in whitespace.  Consider deleting these extra spaces.''
         else if (n = 1 \<or> n = 3) \<and> \<not> matches (raw ''`s*`w+`s*:`s*$'') (elided cl ! linenum) then
           rep (int linenum) ''whitespace/indent'' 3
             (''Weird number of spaces at line-start.  '' @ ''Are you using a 2-space indent?'')
         else if n = 0 \<and> slice_to line 2 \<noteq> ''//'' \<and> found (raw ''[^:]:`s*$'') line then
           rep (int linenum) ''whitespace/labels'' 4
             (''Labels should always be indented at least one space.  ''
              @ ''If this is a member-initializer list in a constructor or ''
              @ ''the base class list in a class definition, the colon should ''
              @ ''be on the following line.'')
         else ret ())"

definition is_header_guard :: "os \<Rightarrow> string \<Rightarrow> string \<Rightarrow> string \<Rightarrow> stop + bool" where
  "is_header_guard os filename file_extension line =
     (if file_extension = ''h'' then
        map_sum id (\<lambda>cppvar. startswith line (''#ifndef '' @ cppvar) \<or>
                             startswith line (''#define '' @ cppvar) \<or>
                             startswith line (''#endif  // '' @ cppvar))
          (GetHeaderGuardCPPVariable os filename)
      else Inr False)"

definition of_sum :: "stop + 'a \<Rightarrow> 'a chk" where
  "of_sum x = (case x of Inl e \<Rightarrow> raise e | Inr y \<Rightarrow> ret y)"

definition line_length_report :: "string \<Rightarrow> bool \<Rightarrow> nat \<Rightarrow> unit chk" where
  "line_length_report line guard linenum =
     (if \<not> startswith line ''#include'' \<and> \<not> guard \<and>
         \<not> matches (raw ''^`s*//.*http(s?)://`S*$'') line then
        (let line_width = GetLineWidth line
         in if 100 < line_width then
              rep (int linenum) ''whitespace/line_length'' 4
                ''Lines should very rarely be longer than 100 characters''
            else if 80 < line_width then
              rep (int linenum) ''whitespace/line_length'' 2
                ''Lines should be <= 80 characters long''
            else ret ())
      else ret ())"

definition several_commands :: "clean_lines \<Rightarrow> nat \<Rightarrow> bool" where
  "several_commands cl linenum =
     (let cleansed_line = elided cl ! linenum;
          prevline = fst (GetPreviousNonBlankLine cl (int linenum))
      in 1 < py_count cleansed_line '';'' \<and>
         py_find cleansed_line ''for'' = -1 \<and>
         (py_find prevline ''for'' = -1 \<or> py_find prevline '';'' \<noteq> -1) \<and>
         \<not> ((py_find cleansed_line ''case '' \<noteq> -1 \<or> py_find cleansed_line ''default:'' \<noteq> -1) \<and>
            py_find cleansed_line ''break;'' \<noteq> -1))"

definition CheckStyle :: "os \<Rightarrow> string \<Rightarrow> clean_lines \<Rightarrow> nat \<Rightarrow> string \<Rightarrow> unit chk" where
  "CheckStyle os filename cl linenum file_extension =
     (let line = raw_lines cl ! linenum
      in thenC
           (whenC (py_find line [CHR 0x09] \<noteq> -1)
              (rep (int linenum) ''whitespace/tab'' 1 ''Tab found; better to use spaces''))
        (thenC (indent_reports cl linenum)
        (bindC (of_sum (is_header_guard os filename file_extension line)) (\<lambda>guard.
         seqC
           [line_length_report line guard linenum,
            whenC (several_commands cl linenum)
              (rep (int linenum) ''whitespace/newline'' 4
                 ''More than one command on the same line''),
            CheckBraces cl linenum,
            CheckSpacing cl linenum,
            CheckCheck cl linenum]))))"

section \<open>Line length\<close>

text \<open>The line length report: lines longer than 100 characters get confidence 4, lines of 81
  to 100 characters confidence 2, no others are reported; includes, header guards and lines that
  only hold a URL in a comment are exempt.\<close>

lemma line_length_report_spec:
  "fst (line_length_report line guard n) =
     (if startswith line ''#include'' \<or> guard \<or>
         matches (raw ''^`s*//.*http(s?)://`S*$'') line \<or> length line \<le> 80
      then []
      else if length line \<le> 100
      then [Report (int n) ''whitespace/line_length'' 2 ''Lines should be <= 80 characters long'']
      else [Report (int n) ''whitespace/line_length'' 4
              ''Lines should very rarely be longer than 100 characters'']) \<and>
   returns (line_length_report line guard n)"
  by (auto simp: line_length_report_def Let_def GetLineWidth_length)

end
