(* ===== verification/IncludeState.thy ===== *)
theory IncludeState
  imports LintState
begin

text \<open>
  \<open>_IncludeState\<close> (tools/cpplint.py): a dictionary from included file names to the place of the
  include, together with the section of the include list that has been reached and the last
  header of that section. \<open>CheckNextIncludeOrder\<close> takes the kind of the next header and
  complains when its section has been passed; \<open>IsInAlphabeticalOrder\<close> compares it with the last
  header. The dictionary's values are only printed, so they are kept as text.
\<close>

section \<open>Header kinds and sections\<close>

datatype header_type =
  C_SYS_HEADER | CPP_SYS_HEADER | LIKELY_MY_HEADER | POSSIBLE_MY_HEADER | OTHER_HEADER

datatype header_section =
  INITIAL_SECTION | MY_H_SECTION | C_SECTION | CPP_SECTION | OTHER_H_SECTION

fun section_number :: "header_section \<Rightarrow> nat" where
  "section_number INITIAL_SECTION = 0"
| "section_number MY_H_SECTION = 1"
| "section_number C_SECTION = 2"
| "section_number CPP_SECTION = 3"
| "section_number OTHER_H_SECTION = 4"

lemma section_number_inject: "section_number a = section_number b \<longleftrightarrow> a = b"
  by (cases a; cases b) auto

text \<open>Sections are compared by their numbers.\<close>

instantiation header_section :: linorder
begin

definition less_eq_header_section :: "header_section \<Rightarrow> header_section \<Rightarrow> bool" where
  "less_eq_header_section a b = (section_number a \<le> section_number b)"

definition less_header_section :: "header_section \<Rightarrow> header_section \<Rightarrow> bool" where
  "less_header_section a b = (section_number a < section_number b)"

instance
  by standard
    (auto simp: less_eq_header_section_def less_header_section_def section_number_inject)

end

fun TYPE_NAMES :: "header_type \<Rightarrow> string" where
  "TYPE_NAMES C_SYS_HEADER = ''C system header''"
| "TYPE_NAMES CPP_SYS_HEADER = ''C++ system header''"
| "TYPE_NAMES LIKELY_MY_HEADER = ''header this file implements''"
| "TYPE_NAMES POSSIBLE_MY_HEADER = ''header this file may implement''"
| "TYPE_NAMES OTHER_HEADER = ''other header''"

fun SECTION_NAMES :: "header_section \<Rightarrow> string" where
  "SECTION_NAMES INITIAL_SECTION = ''... nothing. (This can'' @ [CHR 0x27] @ ''t be an error.)''"
| "SECTION_NAMES MY_H_SECTION = ''a header this file implements''"
| "SECTION_NAMES C_SECTION = ''C system header''"
| "SECTION_NAMES CPP_SECTION = ''C++ system header''"
| "SECTION_NAMES OTHER_H_SECTION = ''other header''"

record include_state =
  included :: "(string \<times> string) list"
  inc_section :: header_section
  last_header :: string

definition init_include_state :: include_state where
  "init_include_state = \<lparr>included = [], inc_section = INITIAL_SECTION, last_header = []\<rparr>"

section \<open>Operations\<close>

definition CanonicalizeAlphabeticalOrder :: "string \<Rightarrow> string" where
  "CanonicalizeAlphabeticalOrder header_path =
     py_lower (py_replace (py_replace header_path ''-inl.h'' ''.h'') ''-'' ''_'')"

definition IsInAlphabeticalOrder :: "string \<Rightarrow> include_state \<Rightarrow> include_state \<times> bool" where
  "IsInAlphabeticalOrder header_path st =
     (let canonical_header = CanonicalizeAlphabeticalOrder header_path
      in if canonical_header < last_header st then (st, False)
         else (st\<lparr>last_header := canonical_header\<rparr>, True))"

text \<open>The section that a header moves the list to, and whether its own section has been passed.\<close>

fun next_section :: "header_type \<Rightarrow> header_section \<Rightarrow> header_section option" where
  "next_section C_SYS_HEADER s = (if s \<le> C_SECTION then Some C_SECTION else None)"
| "next_section CPP_SYS_HEADER s = (if s \<le> CPP_SECTION then Some CPP_SECTION else None)"
| "next_section LIKELY_MY_HEADER s =
     Some (if s \<le> MY_H_SECTION then MY_H_SECTION else OTHER_H_SECTION)"
| "next_section POSSIBLE_MY_HEADER s =
     Some (if s \<le> MY_H_SECTION then MY_H_SECTION else OTHER_H_SECTION)"
| "next_section OTHER_HEADER s = Some OTHER_H_SECTION"

definition CheckNextIncludeOrder ::
    "header_type \<Rightarrow> include_state \<Rightarrow> include_state \<times> string" where
  "CheckNextIncludeOrder header_type st =
     (let error_message = ''Found '' @ TYPE_NAMES header_type @ '' after ''
                            @ SECTION_NAMES (inc_section st)
      in case next_section header_type (inc_section st) of
           None \<Rightarrow> (st\<lparr>last_header := []\<rparr>, error_message)
         | Some s \<Rightarrow>
             (if s \<noteq> inc_section st then st\<lparr>inc_section := s, last_header := []\<rparr>
              else st\<lparr>inc_section := s\<rparr>, []))"

section \<open>Runs\<close>

fun order_run :: "include_state \<Rightarrow> header_type list \<Rightarrow> include_state \<times> string list" where
  "order_run st [] = (st, [])"
| "order_run st (h # hs) =
     (case CheckNextIncludeOrder h st of
        (st', msg) \<Rightarrow>
          (case order_run st' hs of (st2, msgs) \<Rightarrow> (st2, msg # msgs)))"

fun alpha_run :: "include_state \<Rightarrow> string list \<Rightarrow> include_state \<times> bool list" where
  "alpha_run st [] = (st, [])"
| "alpha_run st (h # hs) =
     (case IsInAlphabeticalOrder h st of
        (st', b) \<Rightarrow> (case alpha_run st' hs of (st2, bs) \<Rightarrow> (st2, b # bs)))"

lemma next_section_mono: "next_section h s = Some s' \<Longrightarrow> s \<le> s'"
  by (cases h; cases s) (auto simp: less_eq_header_section_def split: if_splits)

lemma CheckNext_message:
  "snd (CheckNextIncludeOrder h st) = [] \<longleftrightarrow> next_section h (inc_section st) \<noteq> None"
  by (auto simp: CheckNextIncludeOrder_def Let_def split: option.splits)

lemma CheckNext_section:
  "inc_section (fst (CheckNextIncludeOrder h st)) =
     (case next_section h (inc_section st) of None \<Rightarrow> inc_section st | Some s \<Rightarrow> s)"
  by (auto simp: CheckNextIncludeOrder_def Let_def split: option.splits)

lemma CheckNext_section_mono: "inc_section st \<le> inc_section (fst (CheckNextIncludeOrder h st))"
  by (auto simp: CheckNext_section next_section_mono split: option.splits)

lemma CheckNext_included [simp]:
  "included (fst (CheckNextIncludeOrder h st)) = included st"
  by (auto simp: CheckNextIncludeOrder_def Let_def split: option.splits)

lemma order_run_mono: "inc_section st \<le> inc_section (fst (order_run st hs))"
proof (induction st hs rule: order_run.induct)
  case (2 st h hs)
  obtain st' msg where c: "CheckNextIncludeOrder h st = (st', msg)" by fastforce
  have "inc_section st \<le> inc_section st'" using CheckNext_section_mono [of st h] c by simp
  also from "2" [OF c [symmetric]] have "\<dots> \<le> inc_section (fst (order_run st' hs))" by simp
  finally show ?case by (cases "order_run st' hs") (simp add: c)
qed simp

text \<open>The kinds accepted from a section on, as a shape of the rest of the list.\<close>

definition own :: "header_type \<Rightarrow> bool" where
  "own h \<longleftrightarrow> h = LIKELY_MY_HEADER \<or> h = POSSIBLE_MY_HEADER"

definition no_system :: "header_type list \<Rightarrow> bool" where
  "no_system hs \<longleftrightarrow> C_SYS_HEADER \<notin> set hs \<and> CPP_SYS_HEADER \<notin> set hs"

definition star_then ::
    "('a \<Rightarrow> bool) \<Rightarrow> ('a list \<Rightarrow> bool) \<Rightarrow> 'a list \<Rightarrow> bool" where
  "star_then P Q hs \<longleftrightarrow> (\<exists>xs rest. hs = xs @ rest \<and> (\<forall>x \<in> set xs. P x) \<and> Q rest)"

lemma star_then_base: "Q hs \<Longrightarrow> star_then P Q hs"
  unfolding star_then_def by (intro exI [of _ "[]"] exI [of _ hs]) simp

lemma star_then_Nil [simp]: "star_then P Q [] \<longleftrightarrow> Q []"
  by (auto simp: star_then_def)

lemma star_then_Cons: "star_then P Q (h # hs) \<longleftrightarrow> Q (h # hs) \<or> (P h \<and> star_then P Q hs)"
proof
  assume "star_then P Q (h # hs)"
  then obtain xs rest where x: "h # hs = xs @ rest" "\<forall>x \<in> set xs. P x" "Q rest"
    unfolding star_then_def by blast
  then show "Q (h # hs) \<or> (P h \<and> star_then P Q hs)"
    unfolding star_then_def by (cases xs) auto
next
  assume "Q (h # hs) \<or> (P h \<and> star_then P Q hs)"
  then show "star_then P Q (h # hs)"
  proof
    assume "P h \<and> star_then P Q hs"
    then obtain xs rest where "hs = xs @ rest" "\<forall>x \<in> set xs. P x" "Q rest" "P h"
      unfolding star_then_def by blast
    then show ?thesis
      unfolding star_then_def by (intro exI [of _ "h # xs"] exI [of _ rest]) simp
  qed (rule star_then_base)
qed

definition after_cpp :: "header_type list \<Rightarrow> bool" where
  "after_cpp = star_then (\<lambda>h. h = CPP_SYS_HEADER) no_system"

definition after_c :: "header_type list \<Rightarrow> bool" where
  "after_c = star_then (\<lambda>h. h = C_SYS_HEADER) after_cpp"

definition after_own :: "header_type list \<Rightarrow> bool" where
  "after_own = star_then own after_c"

fun shape :: "header_section \<Rightarrow> header_type list \<Rightarrow> bool" where
  "shape INITIAL_SECTION hs = after_own hs"
| "shape MY_H_SECTION hs = after_own hs"
| "shape C_SECTION hs = after_c hs"
| "shape CPP_SECTION hs = after_cpp hs"
| "shape OTHER_H_SECTION hs = no_system hs"

lemma no_system_Cons:
  "no_system (h # hs) \<longleftrightarrow> h \<noteq> C_SYS_HEADER \<and> h \<noteq> CPP_SYS_HEADER \<and> no_system hs"
  by (auto simp: no_system_def)

lemma after_Nil [simp]: "after_cpp []" "after_c []" "after_own []"
  by (simp_all add: after_cpp_def after_c_def after_own_def no_system_def)

lemma after_base: "no_system hs \<Longrightarrow> after_cpp hs" "after_cpp hs \<Longrightarrow> after_c hs"
  "after_c hs \<Longrightarrow> after_own hs"
  by (simp_all add: after_cpp_def after_c_def after_own_def star_then_base)

lemma after_Cons:
  "after_cpp (h # hs) \<longleftrightarrow> no_system (h # hs) \<or> (h = CPP_SYS_HEADER \<and> after_cpp hs)"
  "after_c (h # hs) \<longleftrightarrow> after_cpp (h # hs) \<or> (h = C_SYS_HEADER \<and> after_c hs)"
  "after_own (h # hs) \<longleftrightarrow> after_c (h # hs) \<or> (own h \<and> after_own hs)"
  by (simp_all add: after_cpp_def after_c_def after_own_def star_then_Cons)

lemmas section_order = less_eq_header_section_def less_header_section_def

lemma shape_Nil [simp]: "shape s []"
  by (cases s) (simp_all add: no_system_def)

lemma shape_Cons:
  "shape s (h # hs) \<longleftrightarrow> (case next_section h s of None \<Rightarrow> False | Some s' \<Rightarrow> shape s' hs)"
  by (cases h; cases s)
    (use after_base in \<open>auto simp: after_Cons no_system_Cons own_def section_order\<close>)

lemma order_run_silent:
  "(\<forall>m \<in> set (snd (order_run st hs)). m = []) \<longleftrightarrow> shape (inc_section st) hs"
proof (induction st hs rule: order_run.induct)
  case (2 st h hs)
  obtain st' msg where c: "CheckNextIncludeOrder h st = (st', msg)" by fastforce
  from CheckNext_message [of h st] CheckNext_section [of h st] c
  have m: "msg = [] \<longleftrightarrow> next_section h (inc_section st) \<noteq> None"
    and s: "inc_section st' =
      (case next_section h (inc_section st) of None \<Rightarrow> inc_section st | Some s \<Rightarrow> s)" by simp_all
  from "2" [OF c [symmetric]] m s show ?case
    by (auto simp: c shape_Cons split: prod.splits option.splits)
qed simp

lemma alpha_run_sorted:
  "(\<forall>b \<in> set (snd (alpha_run st hs)). b) \<longleftrightarrow>
     sorted (last_header st # map CanonicalizeAlphabeticalOrder hs)"
proof (induction st hs rule: alpha_run.induct)
  case (2 st h hs)
  obtain st' b where c: "IsInAlphabeticalOrder h st = (st', b)" by fastforce
  obtain st2 bs where r: "alpha_run st' hs = (st2, bs)" by fastforce
  have run: "snd (alpha_run st (h # hs)) = b # bs" by (simp add: c r)
  show ?case
  proof (cases "CanonicalizeAlphabeticalOrder h < last_header st")
    case True
    with c have "\<not> b" by (auto simp: IsInAlphabeticalOrder_def Let_def)
    with run True show ?thesis by (simp add: not_le)
  next
    case False
    with c have "b" "last_header st' = CanonicalizeAlphabeticalOrder h"
      by (auto simp: IsInAlphabeticalOrder_def Let_def)
    with "2" [OF c [symmetric]] r
    have "(\<forall>b \<in> set (b # bs). b) \<longleftrightarrow> sorted (map CanonicalizeAlphabeticalOrder (h # hs))"
      by simp
    with False show ?thesis by (simp only: run list.map sorted2 not_less simp_thms)
  qed
qed simp

section \<open>Properties\<close>




text \<open>C8. Within a section, a run of headers raises no alphabetical complaint exactly when their
  canonical paths are sorted.\<close>

theorem alphabetical_iff_sorted:
  "(\<forall>b \<in> set (snd (alpha_run (st\<lparr>last_header := []\<rparr>) hs)). b) \<longleftrightarrow>
     sorted (map CanonicalizeAlphabeticalOrder hs)"
  by (simp add: alpha_run_sorted)

theorem alphabetical_iff_sorted_witness:
  "sorted (map CanonicalizeAlphabeticalOrder [''a/foo-inl.h'', ''a/Foo-x.h''])"
  unfolding alphabetical_iff_sorted [of init_include_state, symmetric] by code_simp

end
