(* ===== verification/Includes.thy ===== *)
theory Includes
  imports FileInfo IncludeState Cleanse
begin

text \<open>
  Include lines (tools/cpplint.py): the lists of C++ headers, \<open>_DropCommonSuffixes\<close>,
  \<open>_IsTestFilename\<close>, \<open>_ClassifyInclude\<close> and \<open>CheckIncludeLine\<close>.
\<close>

section \<open>Classification\<close>

definition STL_HEADERS :: "string list" where
  "STL_HEADERS =
     [''algobase.h'', ''algorithm'', ''alloc.h'', ''bitset'', ''deque'', ''exception'',
      ''function.h'', ''functional'', ''hash_map'', ''hash_map.h'', ''hash_set'', ''hash_set.h'',
      ''iterator'', ''list'', ''list.h'', ''map'', ''memory'', ''new'', ''pair.h'',
      ''pthread_alloc'', ''queue'', ''set'', ''set.h'', ''sstream'', ''stack'', ''stl_alloc.h'',
      ''stl_relops.h'', ''type_traits.h'', ''utility'', ''vector'', ''vector.h'']"

definition CPP_HEADERS :: "string list" where
  "CPP_HEADERS =
     [''algo.h'', ''builtinbuf.h'', ''bvector.h'', ''cassert'', ''cctype'', ''cerrno'',
      ''cfloat'', ''ciso646'', ''climits'', ''clocale'', ''cmath'', ''complex'', ''complex.h'',
      ''csetjmp'', ''csignal'', ''cstdarg'', ''cstddef'', ''cstdio'', ''cstdlib'', ''cstring'',
      ''ctime'', ''cwchar'', ''cwctype'', ''defalloc.h'', ''deque.h'', ''editbuf.h'',
      ''exception'', ''fstream'', ''fstream.h'', ''hashtable.h'', ''heap.h'', ''indstream.h'',
      ''iomanip'', ''iomanip.h'', ''ios'', ''iosfwd'', ''iostream'', ''iostream.h'',
      ''istream.h'', ''iterator.h'', ''limits'', ''map.h'', ''multimap.h'', ''multiset.h'',
      ''numeric'', ''ostream.h'', ''parsestream.h'', ''pfstream.h'', ''PlotFile.h'',
      ''procbuf.h'', ''pthread_alloc.h'', ''rope'', ''rope.h'', ''ropeimpl.h'', ''SFile.h'',
      ''slist'', ''slist.h'', ''stack.h'', ''stdexcept'', ''stdiostream.h'', ''streambuf.h'',
      ''stream.h'', ''strfile.h'', ''string'', ''strstream'', ''strstream.h'', ''tempbuf.h'',
      ''tree.h'', ''typeinfo'', ''valarray'']"

definition common_suffixes :: "string list" where
  "common_suffixes =
     [''test.cc'', ''regtest.cc'', ''unittest.cc'', ''inl.h'', ''impl.h'', ''internal.h'']"

definition has_suffix :: "string \<Rightarrow> string \<Rightarrow> bool" where
  "has_suffix filename suff =
     (endswith filename suff \<and> length suff < length filename \<and>
      py_get filename (- int (length suff) - 1) \<in> set [Some (CHR ''-''), Some (CHR ''_'')])"

definition DropCommonSuffixes :: "string \<Rightarrow> string" where
  "DropCommonSuffixes filename =
     (case find (has_suffix filename) common_suffixes of
        Some suff \<Rightarrow> slice_to filename (- int (length suff) - 1)
      | None \<Rightarrow> fst (splitext filename))"

definition IsTestFilename :: "string \<Rightarrow> bool" where
  "IsTestFilename filename =
     (endswith filename ''_test.cc'' \<or> endswith filename ''_unittest.cc'' \<or>
      endswith filename ''_regtest.cc'')"

definition RE_FIRST_COMPONENT :: string where
  "RE_FIRST_COMPONENT = ''^[^-_.]+''"

text \<open>The classification of an include that is not a system header, given the repository name of
  the file.\<close>

definition classify_local :: "string \<Rightarrow> string \<Rightarrow> header_type" where
  "classify_local reponame incl =
     (let (target_dir, target_base) = path_split (DropCommonSuffixes reponame);
          (include_dir, include_base) = path_split (DropCommonSuffixes incl)
      in if target_base = include_base \<and>
            (include_dir = target_dir \<or> include_dir = normpath (target_dir @ ''/../public''))
         then LIKELY_MY_HEADER
         else case (Match RE_FIRST_COMPONENT target_base, Match RE_FIRST_COMPONENT include_base) of
                (Some a, Some b) \<Rightarrow>
                  if group_text a 0 = group_text b 0 then POSSIBLE_MY_HEADER else OTHER_HEADER
              | _ \<Rightarrow> OTHER_HEADER)"

definition ClassifyInclude :: "os \<Rightarrow> string \<Rightarrow> string \<Rightarrow> bool \<Rightarrow> stop + header_type" where
  "ClassifyInclude os filename incl is_system =
     (let is_stl_h = incl \<in> set STL_HEADERS;
          is_cpp_h = is_stl_h \<or> incl \<in> set CPP_HEADERS
      in if is_system then Inr (if is_cpp_h then CPP_SYS_HEADER else C_SYS_HEADER)
         else map_sum id (\<lambda>name. classify_local name incl) (RepositoryName os filename))"

section \<open>CheckIncludeLine\<close>

definition RE_INCLUDE_NEW_STYLE :: string where
  "RE_INCLUDE_NEW_STYLE = raw ''#include +\"[^/]+`.h\"''"

definition order_report ::
    "os \<Rightarrow> string \<Rightarrow> nat \<Rightarrow> string \<Rightarrow> unit chk" where
  "order_report os filename linenum error_message =
     (if error_message = [] then ret ()
      else case BaseName os filename of
             Inl e \<Rightarrow> raise e
           | Inr base \<Rightarrow>
               rep (int linenum) ''build/include_order'' 4
                 (error_message @ ''. Should be: '' @ base @ ''.h, c system, c++ system, other.''))"

definition check_new_include ::
    "os \<Rightarrow> string \<Rightarrow> nat \<Rightarrow> string \<Rightarrow> bool \<Rightarrow> include_state \<Rightarrow> include_state chk" where
  "check_new_include os filename linenum incl is_system st =
     (let st1 = st\<lparr>included := assoc_set incl (str_of_nat linenum) (included st)\<rparr>
      in case ClassifyInclude os filename incl is_system of
           Inl e \<Rightarrow> raise e
         | Inr header_type \<Rightarrow>
             (case CheckNextIncludeOrder header_type st1 of
                (st2, error_message) \<Rightarrow>
                  thenC (order_report os filename linenum error_message)
                    (case IsInAlphabeticalOrder incl st2 of
                       (st3, in_order) \<Rightarrow>
                         thenC (whenC (\<not> in_order)
                                  (rep (int linenum) ''build/include_alpha'' 4
                                     (''Include \"'' @ incl @ ''\" not in alphabetical order'')))
                           (ret st3))))"

definition streams_report :: "string \<Rightarrow> string \<Rightarrow> nat \<Rightarrow> unit chk" where
  "streams_report filename line linenum =
     (case Match RE_INCLUDE line of
        None \<Rightarrow> ret ()
      | Some m \<Rightarrow>
          whenC (matches ''(f|ind|io|i|o|parse|pf|stdio|str|)?stream$'' (group_text m 2) \<and>
                 \<not> IsTestFilename filename)
            (rep (int linenum) ''readability/streams'' 3 ''Streams are highly discouraged.''))"

definition CheckIncludeLine ::
    "os \<Rightarrow> string \<Rightarrow> clean_lines \<Rightarrow> nat \<Rightarrow> include_state \<Rightarrow> include_state chk" where
  "CheckIncludeLine os filename cl linenum st =
     (let line = nocomment cl ! linenum
      in thenC
           (whenC (found RE_INCLUDE_NEW_STYLE line)
              (rep (int linenum) ''build/include'' 4
                 ''Include the directory when naming .h files''))
           (bindC
             (case Search RE_INCLUDE line of
                None \<Rightarrow> ret st
              | Some m \<Rightarrow>
                  let incl = group_text m 2; is_system = (group_text m 1 = ''<'') in
                  (case map_of (included st) incl of
                     Some at \<Rightarrow>
                       thenC (rep (int linenum) ''build/include'' 4
                                (''\"'' @ incl @ ''\" already included at '' @ filename @ '':''
                                 @ at))
                         (ret st)
                   | None \<Rightarrow> check_new_include os filename linenum incl is_system st))
             (\<lambda>st'. thenC (streams_report filename line linenum) (ret st'))))"

end
