(* ===== verification/Language.thy ===== *)
theory Language
  imports Includes
begin

text \<open>
  \<open>CheckLanguage\<close> and \<open>CheckCStyleCast\<close> (tools/cpplint.py): the rules about C++ constructs that
  are recognised on one line (or on a line and the next). The one handler of the source is cut
  here into one definition per rule, run in the order of the source.

  The source computes \<open>fullname\<close> and \<open>extended_line\<close> as well and does not use them.
\<close>

section \<open>Casts\<close>

text \<open>\<open>m.start(n)\<close> is -1 for a group that took no part in the match.\<close>

definition group_start :: "rmatch \<Rightarrow> nat \<Rightarrow> int" where
  "group_start m n = (case group_span m n of None \<Rightarrow> -1 | Some (a, b) \<Rightarrow> int a)"

definition CheckCStyleCast ::
    "nat \<Rightarrow> string \<Rightarrow> string \<Rightarrow> string \<Rightarrow> string \<Rightarrow> unit chk" where
  "CheckCStyleCast linenum line raw_line cast_type pattern =
     (case Search pattern line of
        None \<Rightarrow> ret ()
      | Some m \<Rightarrow>
          if matches (raw ''.*sizeof`s*$'') (slice_to line (group_start m 1 - 1)) then
            rep (int linenum) ''runtime/sizeof'' 1
              ''Using sizeof(type).  Use sizeof(varname) instead if possible''
          else
            let remainder = drop (m_end m) line
            in (case Match (raw ''`s*(`)|=|(const)?`s*(;|`{|throw`(`)))'') remainder of
                  Some function_match \<Rightarrow>
                    whenC (group function_match 3 = None \<or> group function_match 3 = Some [] \<or>
                           group function_match 3 = Some '';'' \<or> py_find raw_line ''/*'' < 0)
                      (rep (int linenum) ''readability/function'' 3
                         ''All parameters should be named in a function'')
                | None \<Rightarrow>
                    rep (int linenum) ''readability/casting'' 4
                      (''Using C-style cast.  Use '' @ cast_type @ ''<'' @ group_text m 1
                       @ ''>(...) instead'')))"

definition reference_report :: "string \<Rightarrow> nat \<Rightarrow> unit chk" where
  "reference_report line linenum =
     (let fnline = before_first line ''{''
      in whenC
           (FindallLen (raw ''`([^()]*`bconst`s+(?:typename`s+)?(?:struct`s+)?(?:[`w:]|<[^()]*>)+(`s?&|&`s?)`w+'')
              fnline +
            FindallLen (raw ''`([^()]*`b(?:[`w:]|<[^()]*>)+`s+const(`s?&|&`s?)[`w]+'') fnline
            < FindallLen (raw ''`([^()]*`b(?:[`w:]|<[^()]*>)+(`s?&|&`s?)`w+'') fnline \<and>
            \<not> found (raw ''(swap|Swap|operator[<>][<>])`s*`(`s*(?:[`w:]|<.*>)+`s*&'') fnline)
           (rep (int linenum) ''runtime/references'' 2
              (''Is this a non-const reference? '' @ ''If so, make const or use a pointer.'')))"

definition conversion_report :: "string \<Rightarrow> nat \<Rightarrow> unit chk" where
  "conversion_report line linenum =
     (case Search (raw (''(`bnew`s+)?`b''
                   @ ''(int|float|double|bool|char|int32|uint32|int64|uint64)`([^)]'')) line of
        None \<Rightarrow> ret ()
      | Some m \<Rightarrow>
          whenC (group m 1 = None \<and> \<not> matches (raw ''^`s*MOCK_(CONST_)?METHOD`d+(_T)?`('') line)
            (rep (int linenum) ''readability/casting'' 4
               (''Using deprecated casting style.  '' @ ''Use static_cast<'' @ group_text m 2
                @ ''>(...) instead'')))"

definition cast_reports :: "clean_lines \<Rightarrow> nat \<Rightarrow> unit chk" where
  "cast_reports cl linenum =
     (let line = elided cl ! linenum; raw_line = raw_lines cl ! linenum
      in seqC
        [reference_report line linenum,
         conversion_report line linenum,
         CheckCStyleCast linenum line raw_line ''static_cast''
           (raw ''`((int|float|double|bool|char|u?int(16|32|64))`)''),
         CheckCStyleCast linenum line raw_line ''reinterpret_cast'' (raw ''`((`w+`s?`*+`s?)`)''),
         whenC (found (raw ''(&`([^)]+`)[`w(])|(&(static|dynamic|reinterpret)_cast`b)'') line)
           (rep (int linenum) ''runtime/casting'' 4
              (''Are you taking an address of a cast?  ''
               @ ''This is dangerous: could be a temp var.  ''
               @ ''Take the address before doing the cast, rather than after''))])"

section \<open>Types, strings and functions to avoid\<close>

definition string_report :: "string \<Rightarrow> nat \<Rightarrow> unit chk" where
  "string_report line linenum =
     (case Match (raw ''((?:|static +)(?:|const +))string +([a-zA-Z0-9_:]+)`b(.*)'') line of
        None \<Rightarrow> ret ()
      | Some m \<Rightarrow>
          whenC (\<not> matches (raw ''`s*(<.*>)?(::[a-zA-Z0-9_]+)?`s*`(([^\"]|$)'') (group_text m 3))
            (rep (int linenum) ''runtime/string'' 4
               (''For a static/global string constant, use a C style string instead: ''
                @ ''\"'' @ group_text m 1 @ ''char '' @ group_text m 2 @ ''[]\".'')))"

definition int_report :: "string \<Rightarrow> nat \<Rightarrow> unit chk" where
  "int_report line linenum =
     (if found (raw ''`bshort port`b'') line then
        whenC (\<not> found (raw ''`bunsigned short port`b'') line)
          (rep (int linenum) ''runtime/int'' 4
             ''Use \"unsigned short\" for ports, not \"short\"'')
      else case Search (raw ''`b(short|long(?! +double)|long long)`b'') line of
             None \<Rightarrow> ret ()
           | Some m \<Rightarrow>
               rep (int linenum) ''runtime/int'' 4
                 (''Use int16/int64/etc, rather than the C type '' @ group_text m 1))"

definition printf_reports :: "string \<Rightarrow> nat \<Rightarrow> unit chk" where
  "printf_reports line linenum =
     (let error = rep (int linenum)
      in seqC
        [(case Search (raw ''snprintf`s*`(([^,]*),`s*([0-9]*)`s*,'') line of
            None \<Rightarrow> ret ()
          | Some m \<Rightarrow>
              whenC (group_text m 2 \<noteq> ''0'')
                (error ''runtime/printf'' 3
                   (''If you can, use sizeof('' @ group_text m 1 @ '') instead of ''
                    @ group_text m 2 @ '' as the 2nd arg '' @ ''to snprintf.''))),
         whenC (found (raw ''`bsprintf`b'') line)
           (error ''runtime/printf'' 5 ''Never use sprintf.  Use snprintf instead.''),
         (case Search (raw ''`b(strcpy|strcat)`b'') line of
            None \<Rightarrow> ret ()
          | Some m \<Rightarrow>
              error ''runtime/printf'' 4
                (''Almost always, snprintf is better than '' @ group_text m 1)),
         whenC (found (raw ''`bsscanf`b'') line)
           (error ''runtime/printf'' 1
              ''sscanf can be ok, but is slow and can overflow buffers.'')])"

definition format_report :: "string \<Rightarrow> nat \<Rightarrow> unit chk" where
  "format_report line linenum =
     (case SearchI (raw ''`b((?:string)?printf)`s*`(([`w.`->()]+)`)'') line of
        None \<Rightarrow> ret ()
      | Some m \<Rightarrow>
          rep (int linenum) ''runtime/printf'' 4
            (''Potential format string bug. Do '' @ group_text m 1 @ ''(\"%s\", ''
             @ group_text m 2 @ '') instead.''))"

definition memset_report :: "string \<Rightarrow> nat \<Rightarrow> unit chk" where
  "memset_report line linenum =
     (case Search (raw ''memset`s*`(([^,]*),`s*([^,]*),`s*0`s*`)'') line of
        None \<Rightarrow> ret ()
      | Some m \<Rightarrow>
          whenC (\<not> matches (''^'' @ [CHR 0x27, CHR 0x27] @ ''|-?[0-9]+|0x[0-9A-Fa-f]$'')
                     (group_text m 2))
            (rep (int linenum) ''runtime/memset'' 4
               (''Did you mean \"memset('' @ group_text m 1 @ '', 0, '' @ group_text m 2
                @ '')\"?'')))"

section \<open>Variable-length arrays\<close>

text \<open>The loop over the tokens of an array size: does it end without finding a token that is not a
  constant?\<close>

definition constant_token :: "string \<Rightarrow> bool" where
  "constant_token tok =
     (tok = [] \<or> matches (raw ''`d+'') tok \<or> matches ''0[xX][0-9a-fA-F]+'' tok \<or>
      matches (raw ''k[A-Z0-9]`w*'') tok \<or> matches (raw ''(.+::)?k[A-Z0-9]`w*'') tok \<or>
      matches ''(.+::)?[A-Z][A-Z0-9_]*'' tok)"

fun constant_size :: "bool \<Rightarrow> string list \<Rightarrow> bool" where
  "constant_size skip_next [] = True"
| "constant_size skip_next (tok # toks) =
     (let tok1 = rstrip_set ((=) CHR '')'') (lstrip_set ((=) CHR ''('') tok);
          fine = (skip_next \<or> found (raw ''sizeof`(.+`)'') tok \<or>
                  found (raw ''arraysize`(`w+`)'') tok \<or> constant_token tok1)
      in (fine \<or> startswith tok1 ''sizeof'') \<and> constant_size (\<not> fine) toks)"

definition array_report :: "string \<Rightarrow> nat \<Rightarrow> unit chk" where
  "array_report line linenum =
     (case Match (raw ''`s*(.+::)?(`w+) [a-z]`w*`[(.+)];'') line of
        None \<Rightarrow> ret ()
      | Some m \<Rightarrow>
          whenC (group_text m 2 \<noteq> ''return'' \<and> group_text m 2 \<noteq> ''delete'' \<and>
                 py_find (group_text m 3) '']'' = -1 \<and>
                 \<not> constant_size False
                      (Split (raw ''`s|`+|`-|`*|`/|<<|>>]'') (group_text m 3)))
            (rep (int linenum) ''runtime/arrays'' 1
               (''Do not use variable-length arrays.  Use an appropriately named ''
                @ ''('' @ [CHR 0x27] @ ''k'' @ [CHR 0x27]
                @ '' followed by CamelCase) compile-time constant for the size.'')))"

section \<open>Declarations\<close>

definition disallow_report :: "clean_lines \<Rightarrow> nat \<Rightarrow> unit chk" where
  "disallow_report cl linenum =
     (case Match (raw (''`s*''
                  @ ''(DISALLOW_(EVIL_CONSTRUCTORS|COPY_AND_ASSIGN|IMPLICIT_CONSTRUCTORS))''
                  @ ''`(.*`);$'')) (elided cl ! linenum) of
        None \<Rightarrow> ret ()
      | Some m \<Rightarrow>
          whenC (Suc linenum < NumLines cl \<and>
                 \<not> found (raw ''^`s*};'') (elided cl ! Suc linenum))
            (rep (int linenum) ''readability/constructors'' 3
               (group_text m 1 @ '' should be the last thing in the class'')))"

definition namespace_report :: "string \<Rightarrow> string \<Rightarrow> nat \<Rightarrow> unit chk" where
  "namespace_report file_extension line linenum =
     whenC (file_extension = ''h'' \<and> found (raw ''`bnamespace`s*{'') line \<and> last line \<noteq> bslash)
       (rep (int linenum) ''build/namespaces'' 4
          (''Do not use unnamed namespaces in header files.  See ''
           @ ''http://google-styleguide.googlecode.com/svn/trunk/cppguide.xml#Namespaces''
           @ '' for more information.''))"

definition language_reports :: "string \<Rightarrow> clean_lines \<Rightarrow> nat \<Rightarrow> string \<Rightarrow> unit chk" where
  "language_reports filename cl linenum file_extension =
     (let line = elided cl ! linenum; error = rep (int linenum)
      in seqC
        [cast_reports cl linenum,
         string_report line linenum,
         whenC (found (raw ''`bdynamic_cast<'') line \<and> \<not> IsTestFilename filename)
           (error ''runtime/rtti'' 5
              (''Do not use dynamic_cast<>.  If you need to cast within a class ''
               @ ''hierarchy, use static_cast<> to upcast.  Google doesn'' @ [CHR 0x27]
               @ ''t support RTTI.'')),
         whenC (found (raw ''`b([A-Za-z0-9_]*_)`(`1`)'') line)
           (error ''runtime/init'' 4
              ''You seem to be initializing a member variable with itself.''),
         int_report line linenum,
         printf_reports line linenum,
         whenC (found (raw ''`boperator`s*&`s*`(`s*`)'') line)
           (error ''runtime/operator'' 4 ''Unary operator& is dangerous.  Do not use it.''),
         whenC (found (raw ''`}`s*if`s*`('') line)
           (error ''readability/braces'' 4
              ''Did you mean \"else if\"? If not, start a new line for \"if\".''),
         format_report line linenum,
         memset_report line linenum,
         whenC (found (raw ''`busing namespace`b'') line)
           (error ''build/namespaces'' 5
              (''Do not use namespace using-directives.  ''
               @ ''Use using-declarations instead.'')),
         array_report line linenum,
         disallow_report cl linenum,
         namespace_report file_extension line linenum])"

definition CheckLanguage ::
    "os \<Rightarrow> string \<Rightarrow> clean_lines \<Rightarrow> nat \<Rightarrow> string \<Rightarrow> include_state \<Rightarrow> include_state chk" where
  "CheckLanguage os filename cl linenum file_extension st =
     (let line = elided cl ! linenum
      in if line = [] then ret st
         else if found RE_INCLUDE line then CheckIncludeLine os filename cl linenum st
         else thenC (language_reports filename cl linenum file_extension) (ret st))"

end
