(* ===== verification/WhatYouUse.thy ===== *)
theory WhatYouUse
  imports FileInfo IncludeState Cleanse
begin

text \<open>
  \<open>CheckForIncludeWhatYouUse\<close> and its callees \<open>FilesBelongToSameModule\<close> and
  \<open>UpdateIncludeState\<close> (tools/cpplint.py): the standard headers that a file should include for
  the templates and functions it uses.
\<close>

section \<open>Tables\<close>

definition HEADERS_CONTAINING_TEMPLATES :: "(string \<times> string list) list" where
  "HEADERS_CONTAINING_TEMPLATES =
     [(''<deque>'', [''deque'']),
      (''<functional>'', [''unary_function'', ''binary_function'',
                      ''plus'', ''minus'', ''multiplies'', ''divides'', ''modulus'',
                      ''negate'',
                      ''equal_to'', ''not_equal_to'', ''greater'', ''less'',
                      ''greater_equal'', ''less_equal'',
                      ''logical_and'', ''logical_or'', ''logical_not'',
                      ''unary_negate'', ''not1'', ''binary_negate'', ''not2'',
                      ''bind1st'', ''bind2nd'',
                      ''pointer_to_unary_function'',
                      ''pointer_to_binary_function'',
                      ''ptr_fun'',
                      ''mem_fun_t'', ''mem_fun'', ''mem_fun1_t'', ''mem_fun1_ref_t'',
                      ''mem_fun_ref_t'',
                      ''const_mem_fun_t'', ''const_mem_fun1_t'',
                      ''const_mem_fun_ref_t'', ''const_mem_fun1_ref_t'',
                      ''mem_fun_ref'']),
      (''<limits>'', [''numeric_limits'']),
      (''<list>'', [''list'']),
      (''<map>'', [''map'', ''multimap'']),
      (''<memory>'', [''allocator'']),
      (''<queue>'', [''queue'', ''priority_queue'']),
      (''<set>'', [''set'', ''multiset'']),
      (''<stack>'', [''stack'']),
      (''<string>'', [''char_traits'', ''basic_string'']),
      (''<utility>'', [''pair'']),
      (''<vector>'', [''vector'']),
      (''<hash_map>'', [''hash_map'', ''hash_multimap'']),
      (''<hash_set>'', [''hash_set'', ''hash_multiset'']),
      (''<slist>'', [''slist''])]"

definition HEADERS_ACCEPTED_BUT_NOT_PROMOTED :: "(string \<times> string list) list" where
  "HEADERS_ACCEPTED_BUT_NOT_PROMOTED =
     [(''pair<>'', [''map'', ''multimap'', ''hash_map'', ''hash_multimap''])]"

definition RE_STRING :: string where
  "RE_STRING = raw ''`bstring`b''"

text \<open>Entries: the pattern, the name reported, the header it needs.\<close>

definition re_pattern_algorithm_header :: "(string \<times> string \<times> string) list" where
  "re_pattern_algorithm_header =
     map (\<lambda>template. (raw ''[^>.]`b'' @ template @ raw ''(<.*?>)?`([^`)]'', template,
                      ''<algorithm>''))
       [''copy'', ''max'', ''min'', ''min_element'', ''sort'', ''swap'', ''transform'']"

definition re_pattern_templates :: "(string \<times> string \<times> string) list" where
  "re_pattern_templates =
     concat (map (\<lambda>(header, templates).
         map (\<lambda>template. (raw ''(`<|`b)'' @ template @ raw ''`s*`<'', template @ ''<>'', header))
           templates)
       HEADERS_CONTAINING_TEMPLATES)"

section \<open>FilesBelongToSameModule\<close>

definition drop_dirs :: "string \<Rightarrow> string" where
  "drop_dirs name = py_replace (py_replace name ''/public/'' ''/'') ''/internal/'' ''/''"

definition cc_stem :: "string \<Rightarrow> string" where
  "cc_stem filename_cc =
     (let stem = slice_to filename_cc (- int (length ''.cc''));
          stem' = (if endswith stem ''_unittest'' then slice_to stem (- int (length ''_unittest''))
                   else if endswith stem ''_test'' then slice_to stem (- int (length ''_test''))
                   else stem)
      in drop_dirs stem')"

definition h_stem :: "string \<Rightarrow> string" where
  "h_stem filename_h =
     (let stem = slice_to filename_h (- int (length ''.h''));
          stem' = (if endswith stem ''-inl'' then slice_to stem (- int (length ''-inl''))
                   else stem)
      in drop_dirs stem')"

definition FilesBelongToSameModule :: "string \<Rightarrow> string \<Rightarrow> bool \<times> string" where
  "FilesBelongToSameModule filename_cc filename_h =
     (if \<not> endswith filename_cc ''.cc'' then (False, [])
      else if \<not> endswith filename_h ''.h'' then (False, [])
      else
        let cc = cc_stem filename_cc; h = h_stem filename_h;
            same = endswith cc h
        in (same, if same then slice_to cc (- int (length h)) else []))"

section \<open>UpdateIncludeState\<close>

text \<open>The characters at which a decoded text is cut into lines when it is iterated over; a line
  keeps its end, and a carriage return with a line feed is one end.\<close>

definition line_break :: "char \<Rightarrow> bool" where
  "line_break c =
     (let n = ord_of c in (10 \<le> n \<and> n \<le> 13) \<or> (28 \<le> n \<and> n \<le> 30) \<or> n = 133)"

fun text_lines :: "string \<Rightarrow> string \<Rightarrow> string list" where
  "text_lines acc [] = (if acc = [] then [] else [rev acc])"
| "text_lines acc (c # s) =
     (if line_break c \<and> \<not> (c = CHR 0x0D \<and> startswith s [CHR 0x0A])
      then rev (c # acc) # text_lines [] s
      else text_lines (c # acc) s)"

type_synonym include_map = "(string \<times> string) list"

definition set_default :: "string \<Rightarrow> string \<Rightarrow> include_map \<Rightarrow> include_map" where
  "set_default k v d = (if map_of d k = None then assoc_set k v d else d)"

definition include_of_line :: "string \<Rightarrow> nat \<times> string \<Rightarrow> include_map \<Rightarrow> include_map" where
  "include_of_line filename nl d =
     (case Search RE_INCLUDE (CleanseComments (snd nl)) of
        None \<Rightarrow> d
      | Some m \<Rightarrow>
          set_default (group_text m 2) (filename @ '':'' @ str_of_nat (fst nl)) d)"

definition UpdateIncludeState :: "os \<Rightarrow> string \<Rightarrow> include_map \<Rightarrow> include_map \<times> bool" where
  "UpdateIncludeState os filename d =
     (case file_text os filename of
        None \<Rightarrow> (d, False)
      | Some text \<Rightarrow>
          (fold (include_of_line filename) (enumerate 1 (text_lines [] text)) d, True))"

section \<open>CheckForIncludeWhatYouUse\<close>

type_synonym requirements = "(string \<times> nat \<times> string) list"

definition need :: "string \<Rightarrow> nat \<Rightarrow> string \<times> string \<times> string \<Rightarrow> requirements \<Rightarrow> requirements" where
  "need line linenum e req =
     (case e of (pattern, template, header) \<Rightarrow>
        if found pattern line then assoc_set header (linenum, template) req else req)"

definition need_string :: "string \<Rightarrow> nat \<Rightarrow> requirements \<Rightarrow> requirements" where
  "need_string line linenum req =
     (case Search RE_STRING line of
        None \<Rightarrow> req
      | Some m \<Rightarrow>
          let before = take (m_start m) line
          in if endswith before ''std::'' \<or> \<not> endswith before ''::''
             then assoc_set ''<string>'' (linenum, ''string'') req else req)"

definition need_line :: "nat \<times> string \<Rightarrow> requirements \<Rightarrow> requirements" where
  "need_line nl req =
     (let (linenum, line) = nl
      in if line = [] \<or> hd line = CHR ''#'' then req
         else
           let req2 = fold (need line linenum) re_pattern_algorithm_header
                        (need_string line linenum req)
           in if \<not> contains line ''<'' then req2
              else fold (need line linenum) re_pattern_templates req2)"

definition required_headers :: "clean_lines \<Rightarrow> requirements" where
  "required_headers cl = fold need_line (enumerate 0 (take (NumLines cl) (elided cl))) []"

definition look_in_header :: "os \<Rightarrow> string \<Rightarrow> string \<Rightarrow> include_map \<times> bool \<Rightarrow> include_map \<times> bool" where
  "look_in_header os abs_filename header st =
     (case FilesBelongToSameModule abs_filename header of
        (same_module, common_path) \<Rightarrow>
          if same_module then
            (case UpdateIncludeState os (common_path @ header) (fst st) of
               (d, ok) \<Rightarrow> (d, snd st \<or> ok))
          else st)"

definition known_includes :: "os \<Rightarrow> string \<Rightarrow> include_map \<Rightarrow> include_map \<times> bool" where
  "known_includes os filename d =
     fold (look_in_header os (Sub (raw ''_flymake`.cc$'') ''.cc'' (abspath os filename)))
       (key_order os (map fst d)) (d, False)"

definition bare_header :: "string \<Rightarrow> string" where
  "bare_header header = strip_set (\<lambda>c. c \<in> set ''<>\"'') header"

definition required_report :: "include_map \<Rightarrow> string \<Rightarrow> nat \<Rightarrow> string \<Rightarrow> unit chk" where
  "required_report d header linenum template =
     (let accepted = (case map_of HEADERS_ACCEPTED_BUT_NOT_PROMOTED template of
                        None \<Rightarrow> False
                      | Some headers \<Rightarrow> list_ex (\<lambda>h. map_of d h \<noteq> None) headers)
      in whenC (\<not> accepted \<and> map_of d (bare_header header) = None)
           (rep (int linenum) ''build/include_what_you_use'' 4
              (''Add #include '' @ header @ '' for '' @ template)))"

definition CheckForIncludeWhatYouUse ::
    "os \<Rightarrow> string \<Rightarrow> clean_lines \<Rightarrow> include_state \<Rightarrow> unit chk" where
  "CheckForIncludeWhatYouUse os filename cl st =
     (let required = required_headers cl;
          (d, header_found) = known_includes os filename (included st)
      in if endswith filename ''.cc'' \<and> \<not> header_found then ret ()
         else seqC (map (\<lambda>header.
                case map_of required header of
                  None \<Rightarrow> ret ()
                | Some (linenum, template) \<Rightarrow> required_report d header linenum template)
              (key_order os (map fst required))))"

end
