(* ===== verification/Driver.thy ===== *)
theory Driver
  imports FileChecks FunctionLengths ClassCheck Style Language WhatYouUse
begin

text \<open>
  The driver (tools/cpplint.py): \<open>ProcessLine\<close>, \<open>ProcessFileData\<close>, \<open>ProcessFile\<close>, the command
  line and \<open>main\<close>.

  The checks of a line only report and thread the three states of the file (includes, function,
  classes); \<open>line_checks\<close> composes them, and \<open>ProcessLine\<close> runs them on the global state after
  the NOLINT comment of the line has been parsed. An exception ends the run: nothing in the
  program catches one, apart from \<open>getopt.GetoptError\<close> and \<open>IOError\<close>.
\<close>

section \<open>One line\<close>

record file_state =
  fs_include :: include_state
  fs_function :: function_state
  fs_class :: class_state

definition init_file_state :: file_state where
  "init_file_state =
     \<lparr>fs_include = init_include_state, fs_function = init_function_state, fs_class = []\<rparr>"

definition line_checks ::
    "os \<Rightarrow> string \<Rightarrow> string \<Rightarrow> int \<Rightarrow> clean_lines \<Rightarrow> nat \<Rightarrow> file_state \<Rightarrow> file_state chk" where
  "line_checks os filename file_extension level cl line st =
     bindC (CheckForFunctionLengths level cl line (fs_function st)) (\<lambda>function_state.
     thenC (CheckForMultilineCommentsAndStrings cl line)
     (thenC (CheckStyle os filename cl line file_extension)
     (bindC (CheckLanguage os filename cl line file_extension (fs_include st)) (\<lambda>include_state.
      bindC (CheckForNonStandardConstructs cl line (fs_class st)) (\<lambda>class_state.
      thenC (CheckPosixThreading cl line)
      (thenC (CheckInvalidIncrement cl line)
        (ret \<lparr>fs_include = include_state, fs_function = function_state,
              fs_class = class_state\<rparr>)))))))"

definition ProcessLine ::
    "os \<Rightarrow> string \<Rightarrow> string \<Rightarrow> clean_lines \<Rightarrow> nat \<Rightarrow> file_state \<Rightarrow> file_state act" where
  "ProcessLine os filename file_extension cl line st =
     bindA (ParseNolintSuppressions (Error filename) (raw_lines cl ! line) (int line)) (\<lambda>_ w.
       run_check (Error filename)
         (line_checks os filename file_extension (verbose_level (lint w)) cl line st) w)"

fun ProcessLines ::
    "os \<Rightarrow> string \<Rightarrow> string \<Rightarrow> clean_lines \<Rightarrow> nat list \<Rightarrow> file_state \<Rightarrow> file_state act" where
  "ProcessLines os filename file_extension cl [] st = retA st"
| "ProcessLines os filename file_extension cl (n # ns) st =
     bindA (ProcessLine os filename file_extension cl n st)
       (\<lambda>st'. ProcessLines os filename file_extension cl ns st')"

section \<open>One file\<close>

definition marked :: "string list \<Rightarrow> string list" where
  "marked lines =
     ''// marker so line numbers and indices both start at 1'' # lines
       @ [''// marker so line numbers end in a known way'']"

text \<open>The part of \<open>ProcessFileData\<close> after the multi-line comments have been removed from
  \<open>lines\<close> (in place: the last two checks see the changed lines).\<close>

definition process_cleansed :: "os \<Rightarrow> string \<Rightarrow> string \<Rightarrow> string list \<Rightarrow> unit act" where
  "process_cleansed os filename file_extension lines =
     (let cl = CleansedLines lines in
      bindA (ProcessLines os filename file_extension cl [0..<NumLines cl] init_file_state) (\<lambda>st.
      bindA (run_check (Error filename) (CheckFinished (fs_class st))) (\<lambda>_.
      bindA (run_check (Error filename)
               (CheckForIncludeWhatYouUse os filename cl (fs_include st))) (\<lambda>_.
      bindA (run_check (Error filename) (CheckForUnicodeReplacementCharacters lines)) (\<lambda>_.
      run_check (Error filename) (CheckForNewlineAtEOF lines))))))"

definition ProcessFileData ::
    "os \<Rightarrow> string \<Rightarrow> string \<Rightarrow> string list \<Rightarrow> unit act" where
  "ProcessFileData os filename file_extension file_lines =
     (let lines = marked file_lines
      in bindA (\<lambda>w. (ResetNolintSuppressions w, Inr ())) (\<lambda>_.
         bindA (run_check (Error filename) (CheckForCopyright lines)) (\<lambda>_.
         bindA (if file_extension = ''h''
                then CheckForHeaderGuard os (Error filename) filename lines
                else retA ()) (\<lambda>_.
         bindA (run_check (Error filename) (RemoveMultiLineComments lines))
           (process_cleansed os filename file_extension)))))"

definition strip_carriage_return :: "string \<Rightarrow> string" where
  "strip_carriage_return line =
     (if endswith line [CHR 0x0D] then rstrip_set ((=) (CHR 0x0D)) line else line)"

definition file_extension_of :: "string \<Rightarrow> string" where
  "file_extension_of filename = slice_from filename (py_rfind_char filename CHR ''.'' + 1)"

definition input_text :: "os \<Rightarrow> string \<Rightarrow> string option" where
  "input_text os filename =
     (if filename = ''-'' then Some (stdin_text os) else file_text os filename)"

definition not_linted :: "string \<Rightarrow> bool" where
  "not_linted filename =
     (filename \<noteq> ''-'' \<and> file_extension_of filename \<notin> set [''cc'', ''h'', ''cpp''])"

definition lint_text :: "os \<Rightarrow> string \<Rightarrow> string \<Rightarrow> unit act" where
  "lint_text os filename content =
     (let decoded = split_on [CHR 0x0A] content;
          carriage_return_found = list_ex (\<lambda>line. endswith line [CHR 0x0D]) decoded
      in bindA (ProcessFileData os filename (file_extension_of filename)
                  (map strip_carriage_return decoded)) (\<lambda>_.
           if carriage_return_found \<and> linesep os \<noteq> [CHR 0x0D, CHR 0x0A]
           then Error filename (Report 0 ''whitespace/newline'' 1
                  (''One or more unexpected '' @ [bslash] @ ''r (^M) found;''
                   @ ''better to use only a '' @ [bslash] @ ''n''))
           else retA ()))"

definition ProcessFile :: "os \<Rightarrow> string \<Rightarrow> int \<Rightarrow> unit act" where
  "ProcessFile os filename vlevel =
     bindA (\<lambda>w. (w\<lparr>lint := fst (SetVerboseLevel vlevel (lint w))\<rparr>, Inr ())) (\<lambda>_.
       case input_text os filename of
         None \<Rightarrow>
           write_err (''Skipping input '' @ [CHR 0x27] @ filename @ [CHR 0x27]
                      @ '': Can'' @ [CHR 0x27] @ ''t open for reading'' @ [CHR 0x0A])
       | Some content \<Rightarrow>
           bindA
             (if not_linted filename
              then write_err (''Ignoring '' @ filename @ ''; not a .cc or .h file'' @ [CHR 0x0A])
              else lint_text os filename content)
             (\<lambda>_. write_err (''Done processing '' @ filename @ [CHR 0x0A])))"

section \<open>The command line\<close>

definition USAGE :: string where
  "USAGE =
     concat (map (\<lambda>line. line @ [CHR 0x0A])
     [[],
      ''Syntax: cpplint.py [--verbose=#] [--output=vs7] [--filter=-x,+y,...]'',
      ''                   [--counting=total|toplevel|detailed]'',
      ''        <file> [file] ...'',
      [],
      ''  The style guidelines this tries to follow are those in'',
      ''    http://google-styleguide.googlecode.com/svn/trunk/cppguide.xml'',
      [],
      ''  Every problem is given a confidence score from 1-5, with 5 meaning we are'',
      ''  certain of the problem, and 1 meaning it could be a legitimate construct.'',
      ''  This will miss some errors, and is not a substitute for a code review.'',
      [],
      ''  To suppress false-positive errors of a certain category, add a'',
      ''  '' @ [CHR 0x27] @ ''NOLINT(category)'' @ [CHR 0x27] @ '' comment to the line.  NOLINT or NOLINT(*)'',
      ''  suppresses errors of all categories on that line.'',
      [],
      ''  The files passed in will be linted; at least one file must be provided.'',
      ''  Linted extensions are .cc, .cpp, and .h.  Other file types will be ignored.'',
      [],
      ''  Flags:'',
      [],
      ''    output=vs7'',
      ''      By default, the output is formatted to ease emacs parsing.  Visual Studio'',
      ''      compatible output (vs7) may also be used.  Other formats are unsupported.'',
      [],
      ''    verbose=#'',
      ''      Specify a number 0-5 to restrict errors to certain verbosity levels.'',
      [],
      ''    filter=-x,+y,...'',
      ''      Specify a comma-separated list of category-filters to apply: only'',
      ''      error messages whose category names pass the filters will be printed.'',
      ''      (Category names are printed with the message and look like'',
      ''      \"[whitespace/indent]\".)  Filters are evaluated left to right.'',
      ''      \"-FOO\" and \"FOO\" means \"do not print categories that start with FOO\".'',
      ''      \"+FOO\" means \"do print categories that start with FOO\".'',
      [],
      ''      Examples: --filter=-whitespace,+whitespace/braces'',
      ''                --filter=whitespace,runtime/printf,+runtime/printf_format'',
      ''                --filter=-,+build/include_what_you_use'',
      [],
      ''      To see a list of all the categories used in cpplint, pass no arg:'',
      ''         --filter='',
      [],
      ''    counting=total|toplevel|detailed'',
      ''      The total number of errors found is always printed. If'',
      ''      '' @ [CHR 0x27] @ ''toplevel'' @ [CHR 0x27] @ '' is provided, then the count of errors in each of'',
      ''      the top-level categories like '' @ [CHR 0x27] @ ''build'' @ [CHR 0x27] @ '' and '' @ [CHR 0x27] @ ''whitespace'' @ [CHR 0x27] @ '' will'',
      ''      also be printed. If '' @ [CHR 0x27] @ ''detailed'' @ [CHR 0x27] @ '' is provided, then a count'',
      ''      is provided for each category like '' @ [CHR 0x27] @ ''build/class'' @ [CHR 0x27] @ ''.''])"

definition PrintUsage :: "string option \<Rightarrow> 'a act" where
  "PrintUsage message =
     bindA (write_err USAGE) (\<lambda>_.
       case message of
         None \<Rightarrow> raiseA (SystemExit (Inr 1))
       | Some m \<Rightarrow>
           raiseA (SystemExit (if m \<noteq> [] then Inl ([CHR 0x0A] @ ''FATAL ERROR: '' @ m) else Inr 1)))"

definition PrintCategories :: "'a act" where
  "PrintCategories =
     bindA (write_err (join [] (map (\<lambda>cat. ''  '' @ cat @ [CHR 0x0A]) ERROR_CATEGORIES)))
       (\<lambda>_. raiseA (SystemExit (Inr 0)))"

text \<open>\<open>getopt.getopt\<close> with no short options and the long options of the program; \<open>None\<close> stands for
  the exception \<open>getopt.GetoptError\<close>. A long option may be abbreviated to a unique prefix.\<close>

definition long_options :: "string list" where
  "long_options = [''help'', ''output='', ''verbose='', ''counting='', ''filter='']"

text \<open>The full name of an option, and whether it takes an argument.\<close>

definition long_has_args :: "string \<Rightarrow> (bool \<times> string) option" where
  "long_has_args flag =
     (let possibilities = filter (\<lambda>l. startswith l flag) long_options
      in if possibilities = [] then None
         else if flag \<in> set possibilities then Some (False, flag)
         else if flag @ ''='' \<in> set possibilities then Some (True, flag)
         else case possibilities of
                [l] \<Rightarrow> Some (if endswith l ''='' then (True, slice_to l (-1)) else (False, l))
              | _ \<Rightarrow> None)"

definition split_option :: "string \<Rightarrow> string \<times> string option" where
  "split_option flag =
     (case find_idx ''='' flag of
        None \<Rightarrow> (flag, None)
      | Some i \<Rightarrow> (take i flag, Some (drop (Suc i) flag)))"

text \<open>One long option: its name and value, and the arguments that are left.\<close>

definition do_longs :: "string \<Rightarrow> string list \<Rightarrow> ((string \<times> string) \<times> string list) option" where
  "do_longs arg args =
     (case split_option arg of
        (flag, optarg) \<Rightarrow>
          (case long_has_args flag of
             None \<Rightarrow> None
           | Some (True, name) \<Rightarrow>
               (case optarg of
                  Some v \<Rightarrow> Some ((''--'' @ name, v), args)
                | None \<Rightarrow>
                    (case args of
                       [] \<Rightarrow> None
                     | v # rest \<Rightarrow> Some ((''--'' @ name, v), rest)))
           | Some (False, name) \<Rightarrow>
               if optarg = None then Some ((''--'' @ name, []), args)
               else None))"

lemma do_longs_shorter: "do_longs arg args = Some (o1, rest) \<Longrightarrow> length rest \<le> length args"
  by (auto simp: do_longs_def split: prod.splits option.splits bool.splits list.splits if_splits)

function getopt :: "string list \<Rightarrow> ((string \<times> string) list \<times> string list) option" where
  "getopt [] = Some ([], [])"
| "getopt (arg # args) =
     (if \<not> startswith arg ''-'' \<or> arg = ''-'' then Some ([], arg # args)
      else if arg = ''--'' then Some ([], args)
      else if \<not> startswith arg ''--'' then None
      else case do_longs (drop 2 arg) args of
             None \<Rightarrow> None
           | Some (o1, rest) \<Rightarrow>
               (case getopt rest of
                  None \<Rightarrow> None
                | Some (opts, filenames) \<Rightarrow> Some (o1 # opts, filenames)))"
  by pat_completeness auto
termination
  by (relation "measure length") (auto dest: do_longs_shorter)

text \<open>\<open>int(s)\<close>: an optional sign and digits, with white space around.\<close>

fun digits_value :: "nat \<Rightarrow> string \<Rightarrow> nat option" where
  "digits_value n [] = Some n"
| "digits_value n (c # s) =
     (if ascii_digit c then digits_value (10 * n + nat (ord_of c - 48)) s else None)"

definition int_of_string :: "string \<Rightarrow> stop + int" where
  "int_of_string s =
     (let t = strip_set ascii_space s;
          neg = startswith t ''-'';
          ds = (if neg \<or> startswith t ''+'' then drop 1 t else t)
      in case (if ds = [] then None else digits_value 0 ds) of
           None \<Rightarrow> Inl (ValueError (''invalid literal for int() with base 10: '' @ [CHR 0x27] @ s
                                    @ [CHR 0x27]))
         | Some n \<Rightarrow> Inr (if neg then - int n else int n))"

record options =
  opt_verbosity :: int
  opt_output_format :: string
  opt_filters :: string
  opt_counting :: string

definition handle_option :: "string \<times> string \<Rightarrow> options \<Rightarrow> options act" where
  "handle_option ov opts =
     (let (flag, val) = ov in
      if flag = ''--help'' then PrintUsage None
      else if flag = ''--output'' then
        (if val \<notin> set [''emacs'', ''vs7'']
         then PrintUsage (Some ''The only allowed output formats are emacs and vs7.'')
         else retA (opts\<lparr>opt_output_format := val\<rparr>))
      else if flag = ''--verbose'' then
        (case int_of_string val of
           Inl e \<Rightarrow> raiseA e
         | Inr n \<Rightarrow> retA (opts\<lparr>opt_verbosity := n\<rparr>))
      else if flag = ''--filter'' then
        (if val = [] then PrintCategories else retA (opts\<lparr>opt_filters := val\<rparr>))
      else if flag = ''--counting'' then
        (if val \<notin> set [''total'', ''toplevel'', ''detailed'']
         then PrintUsage (Some ''Valid counting options are total, toplevel, and detailed'')
         else retA (opts\<lparr>opt_counting := val\<rparr>))
      else retA opts)"

fun handle_options :: "(string \<times> string) list \<Rightarrow> options \<Rightarrow> options act" where
  "handle_options [] opts = retA opts"
| "handle_options (ov # ovs) opts = bindA (handle_option ov opts) (handle_options ovs)"

definition apply_options :: "options \<Rightarrow> unit act" where
  "apply_options opts w =
     (let l1 = SetOutputFormat (opt_output_format opts) (lint w);
          l2 = fst (SetVerboseLevel (opt_verbosity opts) l1);
          (l3, res) = SetFilters (opt_filters opts) l2
      in case res of
           Inl e \<Rightarrow> (w\<lparr>lint := l3\<rparr>, Inl e)
         | Inr _ \<Rightarrow> (w\<lparr>lint := SetCountingStyle (opt_counting opts) l3\<rparr>, Inr ()))"

definition ParseArguments :: "string list \<Rightarrow> string list act" where
  "ParseArguments args w =
     (case getopt args of
        None \<Rightarrow> PrintUsage (Some ''Invalid arguments.'') w
      | Some (opts, filenames) \<Rightarrow>
          bindA (handle_options opts
                   \<lparr>opt_verbosity = verbose_level (lint w),
                    opt_output_format = output_format (lint w),
                    opt_filters = [], opt_counting = []\<rparr>)
            (\<lambda>o1.
              if filenames = [] then PrintUsage (Some ''No files were specified.'')
              else bindA (apply_options o1) (\<lambda>_. retA filenames)) w)"

section \<open>The program\<close>

fun ProcessFiles :: "os \<Rightarrow> string list \<Rightarrow> unit act" where
  "ProcessFiles os [] = retA ()"
| "ProcessFiles os (f # fs) =
     bindA (\<lambda>w. ProcessFile os f (verbose_level (lint w)) w) (\<lambda>_. ProcessFiles os fs)"

definition counts_order :: "os \<Rightarrow> (string \<times> nat) list \<Rightarrow> (string \<times> nat) list" where
  "counts_order os d = map (\<lambda>k. (k, the (map_of d k))) (key_order os (map fst d))"

text \<open>\<open>main\<close> always ends with an exception: \<open>sys.exit\<close> gives it the boolean \<open>error_count > 0\<close>.\<close>

definition main :: "os \<Rightarrow> string list \<Rightarrow> unit act" where
  "main os argv =
     bindA (ParseArguments argv) (\<lambda>filenames.
     bindA (\<lambda>w. (w\<lparr>lint := ResetErrorCounts (lint w)\<rparr>, Inr ())) (\<lambda>_.
     bindA (ProcessFiles os filenames) (\<lambda>_ w.
       (w\<lparr>stderr := stderr w @ PrintErrorCounts (counts_order os) (lint w)\<rparr>,
        Inl (SystemExit (Inr (if 0 < error_count (lint w) then 1 else 0)))))))"

end
