(* ===== verification/Conformance.thy ===== *)
theory Conformance
  imports Driver
begin

text \<open>
  Every report that a check makes is well formed: its category is one of the documented
  categories, its confidence is between 0 and 5, and its line is a line of the file that has
  been reached.
\<close>

definition conforms :: "nat \<Rightarrow> report \<Rightarrow> bool" where
  "conforms n r \<longleftrightarrow>
     rcat r \<in> set ERROR_CATEGORIES \<and> 0 \<le> rconf r \<and> rconf r \<le> 5 \<and>
     0 \<le> rline r \<and> rline r \<le> int n"

lemma known_category [simp]:
  "''build/class'' \<in> set ERROR_CATEGORIES"
  "''build/deprecated'' \<in> set ERROR_CATEGORIES"
  "''build/endif_comment'' \<in> set ERROR_CATEGORIES"
  "''build/forward_decl'' \<in> set ERROR_CATEGORIES"
  "''build/header_guard'' \<in> set ERROR_CATEGORIES"
  "''build/include'' \<in> set ERROR_CATEGORIES"
  "''build/include_alpha'' \<in> set ERROR_CATEGORIES"
  "''build/include_order'' \<in> set ERROR_CATEGORIES"
  "''build/include_what_you_use'' \<in> set ERROR_CATEGORIES"
  "''build/namespaces'' \<in> set ERROR_CATEGORIES"
  "''build/printf_format'' \<in> set ERROR_CATEGORIES"
  "''build/storage_class'' \<in> set ERROR_CATEGORIES"
  "''legal/copyright'' \<in> set ERROR_CATEGORIES"
  "''readability/braces'' \<in> set ERROR_CATEGORIES"
  "''readability/casting'' \<in> set ERROR_CATEGORIES"
  "''readability/check'' \<in> set ERROR_CATEGORIES"
  "''readability/constructors'' \<in> set ERROR_CATEGORIES"
  "''readability/fn_size'' \<in> set ERROR_CATEGORIES"
  "''readability/function'' \<in> set ERROR_CATEGORIES"
  "''readability/multiline_comment'' \<in> set ERROR_CATEGORIES"
  "''readability/multiline_string'' \<in> set ERROR_CATEGORIES"
  "''readability/nolint'' \<in> set ERROR_CATEGORIES"
  "''readability/streams'' \<in> set ERROR_CATEGORIES"
  "''readability/todo'' \<in> set ERROR_CATEGORIES"
  "''readability/utf8'' \<in> set ERROR_CATEGORIES"
  "''runtime/arrays'' \<in> set ERROR_CATEGORIES"
  "''runtime/casting'' \<in> set ERROR_CATEGORIES"
  "''runtime/explicit'' \<in> set ERROR_CATEGORIES"
  "''runtime/int'' \<in> set ERROR_CATEGORIES"
  "''runtime/init'' \<in> set ERROR_CATEGORIES"
  "''runtime/invalid_increment'' \<in> set ERROR_CATEGORIES"
  "''runtime/member_string_references'' \<in> set ERROR_CATEGORIES"
  "''runtime/memset'' \<in> set ERROR_CATEGORIES"
  "''runtime/operator'' \<in> set ERROR_CATEGORIES"
  "''runtime/printf'' \<in> set ERROR_CATEGORIES"
  "''runtime/printf_format'' \<in> set ERROR_CATEGORIES"
  "''runtime/references'' \<in> set ERROR_CATEGORIES"
  "''runtime/rtti'' \<in> set ERROR_CATEGORIES"
  "''runtime/sizeof'' \<in> set ERROR_CATEGORIES"
  "''runtime/string'' \<in> set ERROR_CATEGORIES"
  "''runtime/threadsafe_fn'' \<in> set ERROR_CATEGORIES"
  "''runtime/virtual'' \<in> set ERROR_CATEGORIES"
  "''whitespace/blank_line'' \<in> set ERROR_CATEGORIES"
  "''whitespace/braces'' \<in> set ERROR_CATEGORIES"
  "''whitespace/comma'' \<in> set ERROR_CATEGORIES"
  "''whitespace/comments'' \<in> set ERROR_CATEGORIES"
  "''whitespace/end_of_line'' \<in> set ERROR_CATEGORIES"
  "''whitespace/ending_newline'' \<in> set ERROR_CATEGORIES"
  "''whitespace/indent'' \<in> set ERROR_CATEGORIES"
  "''whitespace/labels'' \<in> set ERROR_CATEGORIES"
  "''whitespace/line_length'' \<in> set ERROR_CATEGORIES"
  "''whitespace/newline'' \<in> set ERROR_CATEGORIES"
  "''whitespace/operators'' \<in> set ERROR_CATEGORIES"
  "''whitespace/parens'' \<in> set ERROR_CATEGORIES"
  "''whitespace/semicolon'' \<in> set ERROR_CATEGORIES"
  "''whitespace/tab'' \<in> set ERROR_CATEGORIES"
  "''whitespace/todo'' \<in> set ERROR_CATEGORIES"
  by code_simp+

lemma conforms_Report [simp]:
  "conforms n (Report l c k m) \<longleftrightarrow>
     c \<in> set ERROR_CATEGORIES \<and> 0 \<le> k \<and> k \<le> 5 \<and> 0 \<le> l \<and> l \<le> int n"
  by (simp add: conforms_def)

lemma conforms_mono: "conforms n r \<Longrightarrow> n \<le> m \<Longrightarrow> conforms m r"
  by (simp add: conforms_def)

section \<open>The checks of a line\<close>

lemma MultilineCommentsAndStrings_conforms [chk_ok]:
  "all_reports (conforms n) (CheckForMultilineCommentsAndStrings cl n)"
  unfolding CheckForMultilineCommentsAndStrings_def Let_def
  by (intro chk_ok) simp_all

lemma PosixThreading_conforms [chk_ok]: "all_reports (conforms n) (CheckPosixThreading cl n)"
  unfolding CheckPosixThreading_def Let_def
  by (rule all_reports_seqC) (auto intro!: all_reports_whenC)

lemma InvalidIncrement_conforms [chk_ok]: "all_reports (conforms n) (CheckInvalidIncrement cl n)"
  unfolding CheckInvalidIncrement_def Let_def
  by (intro chk_ok) simp

lemma CheckFunction_conforms [chk_ok]:
  "all_reports (conforms n) (CheckFunction level fs (int n))"
  by (auto simp: CheckFunction_def Let_def)

lemma FunctionLengths_conforms [chk_ok]:
  "all_reports (conforms n) (CheckForFunctionLengths level cl n fs)"
  unfolding CheckForFunctionLengths_def starting_func_def Let_def
  by (intro chk_ok) (auto split: body.split intro!: chk_ok)

lemma SpacingForFunctionCall_conforms [chk_ok]:
  "all_reports (conforms n) (CheckSpacingForFunctionCall line n)"
  unfolding CheckSpacingForFunctionCall_def Let_def
  by (intro chk_ok) simp_all

lemma Comment_conforms [chk_ok]: "all_reports (conforms n) (CheckComment comment n)"
  unfolding CheckComment_def Let_def
  by (intro chk_ok) simp_all

lemma report_group_conforms [chk_ok]:
  "c \<in> set ERROR_CATEGORIES \<Longrightarrow> 0 \<le> k \<Longrightarrow> k \<le> 5 \<Longrightarrow> all_reports (conforms n) (report_group m n c k s)"
  unfolding report_group_def
  by (intro chk_ok) simp_all

lemma Spacing_conforms [chk_ok]: "all_reports (conforms n) (CheckSpacing cl n)"
  unfolding CheckSpacing_def blank_line_reports_def comment_reports_def operator_reports_def
    paren_reports_def semicolon_reports_def Let_def
  by (intro chk_ok) simp_all

lemma Braces_conforms [chk_ok]: "all_reports (conforms n) (CheckBraces cl n)"
  unfolding CheckBraces_def uneven_else_report_def needless_semicolon_report_def Let_def
  by (intro chk_ok) simp_all

lemma Check_conforms [chk_ok]: "all_reports (conforms n) (CheckCheck cl n)"
  unfolding CheckCheck_def Let_def
  by (intro chk_ok) simp_all

lemma all_reports_of_sum [chk_ok, simp]: "all_reports P (of_sum x)"
  by (simp add: of_sum_def split: sum.split)

lemma Style_conforms [chk_ok]: "all_reports (conforms n) (CheckStyle os f cl n ext)"
  unfolding CheckStyle_def indent_reports_def line_length_report_def Let_def
  by (intro chk_ok) simp_all

lemma CStyleCast_conforms [chk_ok]:
  "all_reports (conforms n) (CheckCStyleCast n line raw_line t p)"
  unfolding CheckCStyleCast_def Let_def
  by (intro chk_ok) simp_all

lemma cast_reports_conforms [chk_ok]: "all_reports (conforms n) (cast_reports cl n)"
  unfolding cast_reports_def reference_report_def conversion_report_def Let_def
  by (intro chk_ok) simp_all

lemma language_reports_conforms [chk_ok]:
  "all_reports (conforms n) (language_reports f cl n ext)"
  unfolding language_reports_def string_report_def int_report_def printf_reports_def
    format_report_def memset_report_def array_report_def disallow_report_def
    namespace_report_def Let_def
  by (intro chk_ok) simp_all

lemma IncludeLine_conforms [chk_ok]:
  "all_reports (conforms n) (CheckIncludeLine os f cl n st)"
  unfolding CheckIncludeLine_def check_new_include_def order_report_def streams_report_def Let_def
  by (intro chk_ok) simp_all

lemma Language_conforms [chk_ok]: "all_reports (conforms n) (CheckLanguage os f cl n ext st)"
  unfolding CheckLanguage_def Let_def
  by (intro chk_ok)

lemma nonstandard_reports_conforms [chk_ok]:
  "all_reports (conforms n) (nonstandard_reports cl n)"
  unfolding nonstandard_reports_def Let_def
  by (intro chk_ok) simp_all

lemma in_class_conforms [chk_ok]:
  "ci_linenum ci \<le> n \<Longrightarrow> all_reports (conforms n) (in_class n line ci st)"
  unfolding in_class_def explicit_report_def virtual_report_def Let_def
  by (intro chk_ok) simp_all

lemma track_top_conforms [chk_ok]:
  assumes "list_all (class_info_ok (Suc n)) st"
  shows "all_reports (conforms n) (track_top n line st)"
proof (cases "st = []")
  case False
  then have "class_info_ok (Suc n) (last st)" using assms by (simp add: list_all_iff)
  then have "ci_linenum (last st) \<le> n" by (simp add: class_info_ok_def)
  then show ?thesis
    unfolding track_top_def Let_def by (intro chk_ok) (auto dest: open_class_SomeD)
qed (simp add: track_top_def)

lemma NonStandard_conforms [chk_ok]:
  "class_stack_ok n st \<Longrightarrow> all_reports (conforms n) (CheckForNonStandardConstructs cl n st)"
  unfolding CheckForNonStandardConstructs_def
  using push_class_ok [of n st "elided cl ! n"]
  by (intro chk_ok) (simp add: class_stack_ok_def)

lemma line_checks_conforms:
  "class_stack_ok n (fs_class st) \<Longrightarrow>
     all_reports (conforms n) (line_checks os f ext level cl n st)"
  unfolding line_checks_def by (intro chk_ok)

section \<open>The checks of a file\<close>

lemma Copyright_conforms [chk_ok]: "all_reports (conforms n) (CheckForCopyright lines)"
  unfolding CheckForCopyright_def by (intro chk_ok) simp

lemma remove_comments_conforms:
  "length lines \<le> n \<Longrightarrow> all_reports (conforms n) (remove_comments_from lines i)"
proof (induction lines i rule: remove_comments_from.induct)
  case (1 lines i)
  have len: "length (RemoveMultiLineCommentsFromRange lines a b) = length lines" for a b
    by (simp add: RemoveMultiLineCommentsFromRange_def)
  show ?case
    unfolding remove_comments_from.simps [of lines i] Let_def
    by (intro chk_ok "1.IH") (use "1.prems" in \<open>simp_all add: len\<close>)
qed

lemma RemoveMultiLineComments_conforms [chk_ok]:
  "length lines \<le> n \<Longrightarrow> all_reports (conforms n) (RemoveMultiLineComments lines)"
  by (simp add: RemoveMultiLineComments_def remove_comments_conforms)

lemma Finished_conforms [chk_ok]:
  "class_stack_ok n st \<Longrightarrow> all_reports (conforms n) (CheckFinished st)"
  by (cases st) (auto simp: CheckFinished_def class_stack_ok_def class_info_ok_def)

lemma Unicode_conforms [chk_ok]:
  "length lines \<le> n \<Longrightarrow> all_reports (conforms n) (CheckForUnicodeReplacementCharacters lines)"
  unfolding CheckForUnicodeReplacementCharacters_def
  by (rule all_reports_seqC) (auto simp: in_set_enumerate_eq intro!: all_reports_whenC)

lemma NewlineAtEOF_conforms [chk_ok]:
  "length lines \<le> n \<Longrightarrow> 2 \<le> length lines \<Longrightarrow>
     all_reports (conforms n) (CheckForNewlineAtEOF lines)"
  unfolding CheckForNewlineAtEOF_def by (intro chk_ok) simp

text \<open>A required header is needed by one of the lines.\<close>

definition needs_below :: "nat \<Rightarrow> requirements \<Rightarrow> bool" where
  "needs_below n req \<longleftrightarrow> (\<forall>h k t. map_of req h = Some (k, t) \<longrightarrow> k < n)"

lemma needs_below_set:
  "needs_below n req \<Longrightarrow> k < n \<Longrightarrow> needs_below n (assoc_set h (k, t) req)"
  by (auto simp: needs_below_def)

lemma needs_below_fold:
  "needs_below n req \<Longrightarrow> k < n \<Longrightarrow> needs_below n (fold (need line k) es req)"
  by (induction es arbitrary: req) (auto simp: need_def needs_below_set split: prod.splits)

lemma needs_below_line:
  "needs_below n req \<Longrightarrow> fst nl < n \<Longrightarrow> needs_below n (need_line nl req)"
  by (cases nl) (auto simp: need_line_def need_string_def Let_def
      intro!: needs_below_fold needs_below_set split: option.splits)

lemma needs_below_required: "needs_below (length (elided cl)) (required_headers cl)"
proof -
  have "needs_below n (fold need_line nls req)"
    if "needs_below n req" "\<forall>nl \<in> set nls. fst nl < n" for n nls req
    using that by (induction nls arbitrary: req) (auto simp: needs_below_line)
  then show ?thesis
    unfolding required_headers_def
    by (auto simp: in_set_enumerate_eq needs_below_def[of _ "[]"])
qed

lemma WhatYouUse_conforms [chk_ok]:
  assumes "length (elided cl) \<le> n"
  shows "all_reports (conforms n) (CheckForIncludeWhatYouUse os f cl st)"
proof -
  have "all_reports (conforms n) (required_report d h k t)" if "k < n" for d h k t
    unfolding required_report_def Let_def using that by (intro chk_ok) simp
  moreover have "k < n" if "map_of (required_headers cl) h = Some (k, t)" for h k t
    using needs_below_required [of cl] that assms by (fastforce simp: needs_below_def)
  ultimately show ?thesis
    unfolding CheckForIncludeWhatYouUse_def Let_def
    by (auto intro!: chk_ok all_reports_seqC split: prod.splits)
qed

end
