(* ===== verification/Output.thy ===== *)
theory Output
  imports Conformance
begin

text \<open>
  What linting one file writes: \<open>writes f n w w'\<close> relates the global states before and after a part
  of the run over the file \<open>f\<close> of \<open>n\<close> lines. It says that what was appended to standard error
  is one message per printed report, that each of these reports conforms, is confident enough
  and passes the filters, that the error counter grew by their number, and that the options are
  the same.
\<close>

definition may_print :: "world \<Rightarrow> report \<Rightarrow> bool" where
  "may_print w r \<longleftrightarrow>
     verbose_level (lint w) \<le> rconf r \<and> passes_filters (rcat r) (filters (lint w))"

definition same_options :: "world \<Rightarrow> world \<Rightarrow> bool" where
  "same_options w w' \<longleftrightarrow>
     verbose_level (lint w') = verbose_level (lint w) \<and> filters (lint w') = filters (lint w) \<and>
     counting (lint w') = counting (lint w) \<and> output_format (lint w') = output_format (lint w)"

definition writes :: "string \<Rightarrow> nat \<Rightarrow> world \<Rightarrow> world \<Rightarrow> bool" where
  "writes f n w w' \<longleftrightarrow>
     world_ok w' \<and> same_options w w' \<and>
     (\<exists>rs. stderr w' = stderr w @ map (format_error (output_format (lint w)) f) rs \<and>
           error_count (lint w') = error_count (lint w) + length rs \<and>
           list_all (\<lambda>r. conforms n r \<and> may_print w r) rs)"

lemma writes_world_ok: "writes f n w w' \<Longrightarrow> world_ok w'"
  by (simp add: writes_def)

lemma writes_refl:
  assumes "world_ok w'" and "lint w' = lint w" and "stderr w' = stderr w"
  shows "writes f n w w'"
  unfolding writes_def using assms by (intro conjI exI [of _ "[]"]) (simp_all add: same_options_def)

lemma writes_trans:
  assumes "writes f n w w1" and "writes f n w1 w2"
  shows "writes f n w w2"
proof -
  from assms(1) obtain rs where rs: "stderr w1 = stderr w @ map (format_error (output_format (lint w)) f) rs"
    "error_count (lint w1) = error_count (lint w) + length rs"
    "list_all (\<lambda>r. conforms n r \<and> may_print w r) rs" "same_options w w1"
    by (auto simp: writes_def)
  from assms(2) obtain rs2 where rs2:
    "stderr w2 = stderr w1 @ map (format_error (output_format (lint w1)) f) rs2"
    "error_count (lint w2) = error_count (lint w1) + length rs2"
    "list_all (\<lambda>r. conforms n r \<and> may_print w1 r) rs2" "same_options w1 w2" "world_ok w2"
    by (auto simp: writes_def)
  from rs(4) have m: "may_print w1 = may_print w" "output_format (lint w1) = output_format (lint w)"
    by (auto simp: same_options_def may_print_def)
  from rs(4) rs2(4) have "same_options w w2" by (simp add: same_options_def)
  with rs rs2 m show ?thesis
    unfolding writes_def by (intro conjI exI [of _ "rs @ rs2"]) simp_all
qed

lemma same_options_Error: "filters_ok (lint w) \<Longrightarrow> same_options w (fst (Error f r w))"
  by (simp add: same_options_def Error_frame)

lemma writes_Error:
  assumes "world_ok w" and "conforms n r"
  shows "writes f n w (fst (Error f r w))"
proof -
  from assms(1) have ok: "filters_ok (lint w)" by (simp add: world_ok_def)
  have p: "printable w r \<Longrightarrow> may_print w r" by (simp add: printable_def may_print_def)
  show ?thesis
  proof (cases "printable w r")
    case True
    with p assms err.keeps_ok [OF assms(1), of f r] same_options_Error [OF ok, of f r] show ?thesis
      unfolding writes_def
      by (intro conjI exI [of _ "[r]"]) (simp_all add: Error_eq [OF ok] messages_def)
  next
    case False
    with assms show ?thesis by (simp add: Error_eq [OF ok] writes_refl)
  qed
qed

lemma writes_emit:
  assumes "world_ok w" and "list_all (conforms n) rs"
  shows "writes f n w (fst (emit (Error f) rs w)) \<and> snd (emit (Error f) rs w) = Inr ()"
  using assms
proof (induction rs arbitrary: w)
  case Nil
  then show ?case by (simp add: writes_refl)
next
  case (Cons r rs)
  from Cons.prems have o1: "writes f n w (fst (Error f r w))" by (simp add: writes_Error)
  from Cons.IH [of "fst (Error f r w)"] Cons.prems err.keeps_ok [OF Cons.prems(1), of f r]
  have "writes f n (fst (Error f r w)) (fst (emit (Error f) rs (fst (Error f r w)))) \<and>
      snd (emit (Error f) rs (fst (Error f r w))) = Inr ()" by simp
  with o1 show ?case
    unfolding emit_Cons_Error [OF Cons.prems(1)] by (blast intro: writes_trans)
qed

lemma writes_run_check:
  assumes "world_ok w" and "all_reports (conforms n) m"
  shows "writes f n w (fst (run_check (Error f) m w))" and "snd (run_check (Error f) m w) = snd m"
proof -
  from assms(2) have "list_all (conforms n) (fst m)" by (simp add: all_reports_def list_all_iff)
  from writes_emit [OF assms(1) this, of f]
  show "writes f n w (fst (run_check (Error f) m w))" "snd (run_check (Error f) m w) = snd m"
    by (auto simp: run_check_def split: prod.split)
qed

lemma writes_bindA:
  assumes "writes f n w (fst (m w))"
    and "\<And>x. snd (m w) = Inr x \<Longrightarrow> world_ok (fst (m w)) \<Longrightarrow>
           writes f n (fst (m w)) (fst (k x (fst (m w))))"
  shows "writes f n w (fst (bindA m k w))"
proof (cases "m w")
  case (Pair w' res)
  from assms(1) have "world_ok (fst (m w))" by (simp add: writes_def)
  with assms Pair show ?thesis
    by (cases res) (auto simp: bindA_def intro: writes_trans)
qed

lemma writes_retA: "world_ok w \<Longrightarrow> writes f n w (fst (retA x w))"
  by (simp add: retA_def writes_refl)

lemma writes_raiseA: "world_ok w \<Longrightarrow> writes f n w (fst (raiseA e w))"
  by (simp add: raiseA_def writes_refl)

lemma writes_NOLINT:
  assumes "world_ok w" and "l \<le> n"
  shows "writes f n w (fst (ParseNolintSuppressions (Error f) s (int l) w))"
proof -
  have s: "writes f n w (suppress k (int l) w)" for k
    using assms(1) by (intro writes_refl) (simp_all add: world_ok_def)
  have "writes f n w (fst (Error f (Report (int l) ''readability/nolint'' 5 m) w))" for m
    using assms by (intro writes_Error) simp_all
  then show ?thesis
    using assms(1) by (cases rule: ParseNolint_cases [of s "Error f" "int l"])
      (simp_all add: s writes_refl)
qed

section \<open>The lines of a file\<close>

lemma line_checks_class:
  assumes "snd (line_checks os f ext level cl n st) = Inr st'"
    and "class_stack_ok n (fs_class st)"
  shows "class_stack_ok (Suc n) (fs_class st')"
proof -
  from NonStandard_ok [OF assms(2), of cl]
  show ?thesis using assms(1)
    by (auto simp: line_checks_def snd_bindC thenC_def split: sum.splits)
qed

lemma run_check_snd:
  "world_ok w \<Longrightarrow> snd (run_check (Error f) m w) = snd m"
  using err.emit_all [of w f "fst m"] by (auto simp: run_check_def split: prod.split)

lemma ProcessLine_class:
  assumes "snd (ProcessLine os f ext cl n st w) = Inr st'" and "world_ok w"
    and "class_stack_ok n (fs_class st)"
  shows "class_stack_ok (Suc n) (fs_class st')"
proof -
  let ?p = "ParseNolintSuppressions (Error f) (raw_lines cl ! n) (int n) w"
  from ParseNolint_ok [OF assms(2)] have "snd ?p = Inr ()" and ok: "world_ok (fst ?p)" by blast+
  then have "?p = (fst ?p, Inr ())" by (metis prod.collapse)
  with assms(1) have "snd (run_check (Error f)
      (line_checks os f ext (verbose_level (lint (fst ?p))) cl n st) (fst ?p)) = Inr st'"
    by (simp add: ProcessLine_def bindA_def split: prod.splits)
  then show ?thesis
    using line_checks_class assms(3) by (auto simp: run_check_snd [OF ok])
qed

lemma writes_ProcessLine:
  assumes "world_ok w" and "class_stack_ok l (fs_class st)" and "l \<le> n"
  shows "writes f n w (fst (ProcessLine os f ext cl l st w))"
  unfolding ProcessLine_def
proof (rule writes_bindA)
  show "writes f n w (fst (ParseNolintSuppressions (Error f) (raw_lines cl ! l) (int l) w))"
    using assms by (simp add: writes_NOLINT)
next
  fix x
  let ?w = "fst (ParseNolintSuppressions (Error f) (raw_lines cl ! l) (int l) w)"
  assume "world_ok ?w"
  moreover have "all_reports (conforms n)
      (line_checks os f ext (verbose_level (lint ?w)) cl l st)"
    by (rule all_reports_mono [OF line_checks_conforms [OF assms(2)] conforms_mono [OF _ assms(3)]])
  ultimately show "writes f n ?w (fst (run_check (Error f)
      (line_checks os f ext (verbose_level (lint ?w)) cl l st) ?w))"
    by (rule writes_run_check)
qed

lemma writes_ProcessLines:
  assumes "world_ok w" and "class_stack_ok l (fs_class st)" and "h \<le> Suc n"
  shows "writes f n w (fst (ProcessLines os f ext cl [l..<h] st w))"
  using assms(1,2)
proof (induction "h - l" arbitrary: l st w)
  case 0
  then show ?case by (simp add: writes_retA)
next
  case (Suc k)
  then have l: "[l..<h] = l # [Suc l..<h]" "l \<le> n" using assms(3) by (simp_all add: upt_rec)
  show ?case
    unfolding l(1) ProcessLines.simps
  proof (rule writes_bindA)
    show "writes f n w (fst (ProcessLine os f ext cl l st w))"
      by (rule writes_ProcessLine [OF Suc.prems l(2)])
  next
    fix st'
    assume "snd (ProcessLine os f ext cl l st w) = Inr st'"
      and ok: "world_ok (fst (ProcessLine os f ext cl l st w))"
    then have "class_stack_ok (Suc l) (fs_class st')"
      using ProcessLine_class Suc.prems by blast
    then show "writes f n (fst (ProcessLine os f ext cl l st w))
        (fst (ProcessLines os f ext cl [Suc l..<h] st' (fst (ProcessLine os f ext cl l st w))))"
      using Suc.hyps ok by simp
  qed
qed

lemma ProcessLines_class:
  assumes "snd (ProcessLines os f ext cl [l..<h] st w) = Inr st'" and "world_ok w"
    and "class_stack_ok l (fs_class st)" and "l \<le> h"
  shows "class_stack_ok h (fs_class st')"
  using assms
proof (induction "h - l" arbitrary: l st w)
  case 0
  then show ?case by (simp add: retA_def)
next
  case (Suc k)
  then have l: "[l..<h] = l # [Suc l..<h]" by (simp add: upt_rec)
  let ?p = "ProcessLine os f ext cl l st w"
  from Suc.prems(1) obtain st1 where st1: "snd ?p = Inr st1"
    "snd (ProcessLines os f ext cl [Suc l..<h] st1 (fst ?p)) = Inr st'"
    by (auto simp: l bindA_def split: prod.splits sum.splits)
  moreover have "class_stack_ok (Suc l) (fs_class st1)"
    using ProcessLine_class [OF st1(1)] Suc.prems by blast
  moreover have "world_ok (fst ?p)"
    using writes_ProcessLine [OF Suc.prems(2,3), of l f os ext cl] by (simp add: writes_def)
  moreover have "k = h - Suc l" "Suc l \<le> h" using Suc.hyps(2) by simp_all
  ultimately show ?case using Suc.hyps(1) [of "Suc l" st1 "fst ?p"] by blast
qed

section \<open>A file\<close>

lemma writes_HeaderGuard:
  assumes "world_ok w" and "length lines \<le> n"
  shows "writes f n w (fst (CheckForHeaderGuard os (Error f) f lines w))"
proof -
  have guard: "gs_ifndef_linenum (scan_guard lines) \<le> n \<and> gs_endif_linenum (scan_guard lines) \<le> n"
  proof -
    have "gs_ifndef_linenum (fold guard_line nls g) \<le> n \<and>
        gs_endif_linenum (fold guard_line nls g) \<le> n"
      if "\<forall>nl \<in> set nls. fst nl \<le> n" "gs_ifndef_linenum g \<le> n \<and> gs_endif_linenum g \<le> n" for nls g
      using that by (induction nls arbitrary: g) (auto simp: guard_line_def Let_def split: prod.splits)
    moreover have "\<forall>nl \<in> set (enumerate 0 lines). fst nl \<le> n"
      using assms(2) by (auto simp: in_set_enumerate_eq)
    ultimately show ?thesis unfolding scan_guard_def by (simp add: init_guard_state_def)
  qed
  show ?thesis
  proof (cases "GetHeaderGuardCPPVariable os f")
    case (Inl e)
    with assms show ?thesis by (simp add: CheckForHeaderGuard_def writes_raiseA)
  next
    case (Inr v)
    show ?thesis
      unfolding CheckForHeaderGuard_def Inr Let_def
      using assms(1) guard
      by (auto intro!: writes_bindA writes_NOLINT writes_Error writes_retA)
  qed
qed

lemma writes_run:
  "world_ok w \<Longrightarrow> all_reports (conforms n) m \<Longrightarrow> writes f n w (fst (run_check (Error f) m w))"
  by (rule writes_run_check)

lemma writes_RemoveMultiLineComments:
  "world_ok w \<Longrightarrow> length lines \<le> n \<Longrightarrow>
     writes f n w (fst (run_check (Error f) (RemoveMultiLineComments lines) w))"
  by (rule writes_run) (simp_all add: RemoveMultiLineComments_conforms)

text \<open>What is left after the comments have been removed.\<close>

lemma writes_cleansed:
  assumes "world_ok w" and "length lines = n" and "2 \<le> n"
  shows "writes f n w (fst (process_cleansed os f ext lines w))"
proof -
  let ?cl = "CleansedLines lines"
  have n: "NumLines ?cl = n" "length (elided ?cl) = n"
    using assms(2) by (simp_all add: NumLines_def CleansedLines_def)
  have start: "class_stack_ok 0 (fs_class init_file_state)"
    by (simp add: init_file_state_def class_stack_ok_def)
  show ?thesis
    unfolding process_cleansed_def Let_def
  proof (rule writes_bindA)
    show "writes f n w (fst (ProcessLines os f ext ?cl [0..<NumLines ?cl] init_file_state w))"
      by (rule writes_ProcessLines [OF assms(1) start]) (simp add: assms(2))
  next
    fix st
    assume "snd (ProcessLines os f ext ?cl [0..<NumLines ?cl] init_file_state w) = Inr st"
    then have "class_stack_ok n (fs_class st)"
      using ProcessLines_class [OF _ assms(1) start] n(1) by simp
    then show "world_ok (fst (ProcessLines os f ext ?cl [0..<NumLines ?cl] init_file_state w)) \<Longrightarrow>
      writes f n (fst (ProcessLines os f ext ?cl [0..<NumLines ?cl] init_file_state w))
       (fst (bindA (run_check (Error f) (CheckFinished (fs_class st))) (\<lambda>_.
         bindA (run_check (Error f) (CheckForIncludeWhatYouUse os f ?cl (fs_include st))) (\<lambda>_.
         bindA (run_check (Error f) (CheckForUnicodeReplacementCharacters lines)) (\<lambda>_.
         run_check (Error f) (CheckForNewlineAtEOF lines))))
         (fst (ProcessLines os f ext ?cl [0..<NumLines ?cl] init_file_state w))))"
      using assms(2,3) n(2) by (intro writes_bindA writes_run chk_ok) simp_all
  qed
qed

lemma ProcessFileData_writes:
  assumes "world_ok w"
  shows "writes f (length file_lines + 2) w (fst (ProcessFileData os f ext file_lines w))"
proof -
  let ?n = "length file_lines + 2"
  have len: "length (marked file_lines) = ?n" by (simp add: marked_def)
  have reset: "writes f ?n w (ResetNolintSuppressions w)"
    using assms by (intro writes_refl) (simp_all add: ResetNolintSuppressions_def world_ok_def)
  have guard: "writes f ?n w1 (fst ((if ext = ''h''
      then CheckForHeaderGuard os (Error f) f (marked file_lines) else retA ()) w1))"
    if "world_ok w1" for w1
    using that by (auto intro!: writes_HeaderGuard writes_retA simp: len)
  have rest: "writes f ?n w1 (fst (process_cleansed os f ext lines w1))"
    if "world_ok w1" "snd (RemoveMultiLineComments (marked file_lines)) = Inr lines" for w1 lines
    using that RemoveMultiLineComments_returns [of "marked file_lines"]
    by (intro writes_cleansed) (auto simp: len)
  show ?thesis
    unfolding ProcessFileData_def Let_def
    apply (intro writes_bindA)
        apply (simp only: fst_conv reset)
       apply (rule writes_run, assumption, rule Copyright_conforms)
      apply (rule guard, assumption)
     apply (rule writes_RemoveMultiLineComments, assumption, simp add: len)
    apply (rule rest, assumption, simp only: run_check_snd)
    done
qed

text \<open>C14. Everything that linting one file writes is a sequence of messages for well-formed reports:
  each names a documented category, a confidence from 0 to 5 that reaches the verbosity, a line of
  the file, and passes the filters; the error counter grows by exactly their number, and the
  options do not change. This holds also when the run ends with an exception.\<close>

theorem ProcessFileData_writes_reports:
  assumes "world_ok w"
  shows "writes f (length file_lines + 2) w (fst (ProcessFileData os f ext file_lines w))"
  using ProcessFileData_writes [OF assms] .

theorem ProcessFileData_writes_reports_witness:
  "writes ''a.cc'' 3 init_world
     (fst (ProcessFileData
        \<lparr>cwd = ''/'', path_exists = (\<lambda>_. False), file_text = (\<lambda>_. None), stdin_text = [],
         linesep = [CHR 0x0A], key_order = (\<lambda>ks. ks)\<rparr>
        ''a.cc'' ''cc'' [''int x;''] init_world))"
proof -
  have "world_ok init_world"
    by (simp add: world_ok_def filters_ok_def counts_ok_def init_world_def init_lint_def
        DEFAULT_FILTERS_def signed_def startswith_def)
  then show ?thesis
    using ProcessFileData_writes_reports [of init_world "''a.cc''" "[''int x;'']"]
    by (simp add: numeral_3_eq_3)
qed

end
