(* ===== verification/Program.thy ===== *)
theory Program
  imports Output
begin

text \<open>
  The command line and the whole program: what \<open>ParseArguments\<close> leaves behind, the messages of a
  run over several files, and the exit status.
\<close>

section \<open>Numbers on the command line\<close>

lemma digits_value_append:
  "digits_value n (s @ t) =
     (case digits_value n s of None \<Rightarrow> None | Some m \<Rightarrow> digits_value m t)"
  by (induction n s rule: digits_value.induct) auto

lemma digit_char:
  assumes "d < 10"
  shows "ascii_digit (char_of (48 + d))" and "nat (ord_of (char_of (48 + d)) - 48) = (d :: nat)"
proof -
  have o: "ord_of (char_of (48 + d)) = int (48 + d)"
    using assms of_char_of [of "48 + d"] of_nat_of_char [of "char_of (48 + d)", where 'a = int]
    by (simp add: ord_of_def)
  with assms show "ascii_digit (char_of (48 + d))" by (simp add: ascii_digit_def)
  from o show "nat (ord_of (char_of (48 + d)) - 48) = d" by simp
qed

lemma digits_value_str: "digits_value 0 (str_of_nat n) = Some n"
proof (induction n rule: str_of_nat.induct)
  case (1 n)
  have last: "digits_value m [char_of (48 + d)] = Some (10 * m + d)" if "d < 10" for m d :: nat
    using digit_char [OF that] by simp
  show ?case
  proof (cases "n < 10")
    case True
    then show ?thesis using last [of n 0] by (simp add: str_of_nat.simps [of n])
  next
    case False
    then have "str_of_nat n = str_of_nat (n div 10) @ [char_of (48 + n mod 10)]"
      by (simp add: str_of_nat.simps [of n])
    with False 1 last [of "n mod 10" "n div 10"] show ?thesis
      by (simp only: digits_value_append) simp
  qed
qed

lemma str_of_nat_digits: "c \<in> set (str_of_nat n) \<Longrightarrow> ascii_digit c"
proof (induction n rule: str_of_nat.induct)
  case (1 n)
  then show ?case
    using digit_char(1) [of n] digit_char(1) [of "n mod 10"]
    by (cases "n < 10") (auto simp: str_of_nat.simps [of n])
qed

lemma str_of_nat_neq_Nil [simp]: "str_of_nat n \<noteq> []"
  by (simp add: str_of_nat.simps [of n])

lemma strip_none: "\<forall>c \<in> set s. \<not> p c \<Longrightarrow> strip_set p s = s"
proof -
  assume p: "\<forall>c \<in> set s. \<not> p c"
  then have "dropWhile p s = s" "dropWhile p (rev s) = rev s"
    by (auto simp: dropWhile_eq_self_iff hd_rev)
  then show ?thesis by (simp add: strip_set_def lstrip_set_def rstrip_set_def)
qed

lemma digits_not_space: "ascii_digit c \<or> c = CHR ''-'' \<Longrightarrow> \<not> ascii_space c"
  by (auto simp: ascii_digit_def ascii_space_def ord_of_def)

lemma int_of_string_str_of_int: "int_of_string (str_of_int i) = Inr i"
proof (cases "i < 0")
  case True
  have "strip_set ascii_space (CHR ''-'' # str_of_nat (nat (- i))) = CHR ''-'' # str_of_nat (nat (- i))"
    using str_of_nat_digits digits_not_space by (intro strip_none) auto
  with True show ?thesis
    by (simp add: int_of_string_def str_of_int_def Let_def startswith_def digits_value_str)
next
  case False
  have s: "strip_set ascii_space (str_of_nat (nat i)) = str_of_nat (nat i)"
    using str_of_nat_digits digits_not_space by (intro strip_none) auto
  obtain c t where c: "str_of_nat (nat i) = c # t" by (cases "str_of_nat (nat i)") auto
  then have "ascii_digit c" using str_of_nat_digits [of c "nat i"] by simp
  then have "c \<noteq> CHR ''-''" "c \<noteq> CHR ''+''" by (auto simp: ascii_digit_def ord_of_def)
  with c have "\<not> startswith (str_of_nat (nat i)) ''-''" "\<not> startswith (str_of_nat (nat i)) ''+''"
    by (simp_all add: startswith_def)
  with False s show ?thesis
    by (simp add: int_of_string_def str_of_int_def Let_def digits_value_str)
qed

section \<open>ParseArguments\<close>

text \<open>The options collected so far are ones that the program accepts.\<close>

definition options_ok :: "options \<Rightarrow> bool" where
  "options_ok o1 \<longleftrightarrow>
     opt_output_format o1 \<in> {''emacs'', ''vs7''} \<and>
     opt_counting o1 \<in> {[], ''total'', ''toplevel'', ''detailed''}"

lemma PrintUsage_raises [simp]: "snd (PrintUsage m w) \<noteq> Inr x"
  by (simp add: PrintUsage_def bindA_def write_err_def raiseA_def split: option.split)

lemma PrintCategories_raises [simp]: "snd (PrintCategories w) \<noteq> Inr x"
  by (simp add: PrintCategories_def bindA_def write_err_def raiseA_def)

definition yields_options :: "options act \<Rightarrow> bool" where
  "yields_options m \<longleftrightarrow> (\<forall>w o1. snd (m w) = Inr o1 \<longrightarrow> options_ok o1 \<and> fst (m w) = w)"

lemma yields_options_simps:
  "yields_options (PrintUsage m)" "yields_options PrintCategories" "yields_options (raiseA e)"
  "options_ok opts \<Longrightarrow> yields_options (retA opts)"
  by (simp_all add: yields_options_def raiseA_def retA_def)

lemma yields_options_if:
  "(b \<Longrightarrow> yields_options m) \<Longrightarrow> (\<not> b \<Longrightarrow> yields_options n) \<Longrightarrow>
     yields_options (if b then m else n)"
  by simp

lemma handle_option_yields:
  assumes "options_ok opts"
  shows "yields_options (handle_option ov opts)"
proof -
  obtain flag val where ov: "ov = (flag, val)" by (cases ov)
  have out: "options_ok (opts\<lparr>opt_output_format := val\<rparr>)" if "\<not> val \<notin> set [''emacs'', ''vs7'']"
    using that assms by (simp add: options_ok_def)
  have count: "options_ok (opts\<lparr>opt_counting := val\<rparr>)"
    if "\<not> val \<notin> set [''total'', ''toplevel'', ''detailed'']"
    using that assms by (auto simp: options_ok_def)
  have other: "options_ok (opts\<lparr>opt_verbosity := n\<rparr>)" "options_ok (opts\<lparr>opt_filters := val\<rparr>)" for n
    using assms by (simp_all add: options_ok_def)
  have num: "yields_options (case x of Inl e \<Rightarrow> raiseA e | Inr n \<Rightarrow> retA (opts\<lparr>opt_verbosity := n\<rparr>))"
    for x by (cases x) (simp_all only: sum.case yields_options_simps other)
  show ?thesis
    unfolding handle_option_def ov Let_def prod.case
    by (intro yields_options_if yields_options_simps out count other num assms)
qed

lemma handle_option_ok:
  "snd (handle_option ov opts w) = Inr o1 \<Longrightarrow> options_ok opts \<Longrightarrow>
     options_ok o1 \<and> fst (handle_option ov opts w) = w"
  using handle_option_yields by (auto simp: yields_options_def)

lemma bindA_InrD:
  assumes "snd (bindA m k w) = Inr y"
  obtains x where "snd (m w) = Inr x" and "bindA m k w = k x (fst (m w))"
  using assms by (auto simp: bindA_def split: prod.splits sum.splits)

lemma handle_options_ok:
  "snd (handle_options ovs opts w) = Inr o1 \<Longrightarrow> options_ok opts \<Longrightarrow>
     options_ok o1 \<and> fst (handle_options ovs opts w) = w"
proof (induction ovs arbitrary: opts)
  case (Cons ov ovs)
  from Cons.prems(1) [unfolded handle_options.simps] obtain o2 where
    o2: "snd (handle_option ov opts w) = Inr o2"
    "bindA (handle_option ov opts) (handle_options ovs) w =
       handle_options ovs o2 (fst (handle_option ov opts w))"
    by (rule bindA_InrD)
  with handle_option_ok [OF o2(1) Cons.prems(2)] Cons show ?case by simp
qed (simp add: retA_def)

lemma apply_options_InrD:
  "snd (apply_options o1 w) = Inr () \<Longrightarrow>
     filters_ok (lint (fst (apply_options o1 w))) \<and>
     output_format (lint (fst (apply_options o1 w))) = opt_output_format o1 \<and>
     verbose_level (lint (fst (apply_options o1 w))) = opt_verbosity o1 \<and>
     counting (lint (fst (apply_options o1 w))) = opt_counting o1 \<and>
     stderr (fst (apply_options o1 w)) = stderr w"
proof -
  assume a: "snd (apply_options o1 w) = Inr ()"
  let ?fs = "DEFAULT_FILTERS @ filter (\<lambda>f. f \<noteq> [])
    (map (strip_set ascii_space) (split_on '','' (opt_filters o1)))"
  from a have "check_filters ?fs = Inr ()"
    by (auto simp: apply_options_def SetFilters_def SetOutputFormat_def SetVerboseLevel_def
        Let_def split: sum.splits)
  moreover from this have "\<forall>f \<in> set ?fs. signed f" by (simp only: check_filters_iff)
  ultimately show ?thesis
    by (simp add: apply_options_def SetFilters_def SetOutputFormat_def SetVerboseLevel_def
        SetCountingStyle_def Let_def filters_ok_def)
qed

lemma ParseArguments_filters:
  assumes "snd (ParseArguments args w) = Inr filenames"
    and "output_format (lint w) \<in> {''emacs'', ''vs7''}"
  shows "filenames \<noteq> [] \<and> stderr (fst (ParseArguments args w)) = stderr w \<and>
     filters_ok (lint (fst (ParseArguments args w))) \<and>
     output_format (lint (fst (ParseArguments args w))) \<in> {''emacs'', ''vs7''} \<and>
     counting (lint (fst (ParseArguments args w))) \<in> {[], ''total'', ''toplevel'', ''detailed''}"
proof -
  from assms(1) obtain opts names where g: "getopt args = Some (opts, names)"
    by (auto simp: ParseArguments_def split: option.splits)
  let ?o = "\<lparr>opt_verbosity = verbose_level (lint w), opt_output_format = output_format (lint w),
    opt_filters = [], opt_counting = []\<rparr>"
  have o: "options_ok ?o" using assms(2) by (simp add: options_ok_def)
  from assms(1) g have "snd (bindA (handle_options opts ?o) (\<lambda>o1.
      if names = [] then PrintUsage (Some ''No files were specified.'')
      else bindA (apply_options o1) (\<lambda>_. retA names)) w) = Inr filenames"
    by (simp add: ParseArguments_def)
  then obtain o1 where o1: "snd (handle_options opts ?o w) = Inr o1"
    and eq: "ParseArguments args w =
      (if names = [] then PrintUsage (Some ''No files were specified.'')
       else bindA (apply_options o1) (\<lambda>_. retA names)) w"
    using handle_options_ok [OF _ o] g by (auto simp: ParseArguments_def elim!: bindA_InrD)
  from handle_options_ok [OF o1 o] have ok: "options_ok o1" by blast
  from assms(1) eq have n: "names \<noteq> []" by auto
  with assms(1) eq have "snd (bindA (apply_options o1) (\<lambda>_. retA names) w) = Inr filenames" by simp
  then obtain u where u: "snd (apply_options o1 w) = Inr u"
    and eq2: "bindA (apply_options o1) (\<lambda>_. retA names) w = retA names (fst (apply_options o1 w))"
    by (rule bindA_InrD)
  from u have "snd (apply_options o1 w) = Inr ()" by simp
  from apply_options_InrD [OF this] ok n eq eq2 assms(1) show ?thesis
    by (auto simp: retA_def options_ok_def)
qed

text \<open>C16. When \<open>ParseArguments\<close> returns, there is at least one file name, nothing has been
  written, and the options it has set are valid: every filter starts with a sign (so that the
  assertion in \<open>_ShouldPrintError\<close> cannot fail later), and the output format and the counting
  style are ones that the program knows.\<close>

theorem ParseArguments_valid:
  assumes "snd (ParseArguments args w) = Inr filenames"
    and "output_format (lint w) \<in> {''emacs'', ''vs7''}"
  shows "filenames \<noteq> [] \<and> stderr (fst (ParseArguments args w)) = stderr w \<and>
     filters_ok (lint (fst (ParseArguments args w))) \<and>
     output_format (lint (fst (ParseArguments args w))) \<in> {''emacs'', ''vs7''} \<and>
     counting (lint (fst (ParseArguments args w))) \<in> {[], ''total'', ''toplevel'', ''detailed''}"
  using ParseArguments_filters [OF assms] .

theorem ParseArguments_valid_witness:
  "\<exists>w. snd (ParseArguments [''--verbose=3'', ''a.cc''] init_world) = Inr [''a.cc''] \<and>
     w = fst (ParseArguments [''--verbose=3'', ''a.cc''] init_world) \<and> filters_ok (lint w)"
proof -
  have "snd (ParseArguments [''--verbose=3'', ''a.cc''] init_world) = Inr [''a.cc'']" by code_simp
  moreover have "output_format (lint init_world) \<in> {''emacs'', ''vs7''}"
    by (simp add: init_world_def init_lint_def)
  ultimately show ?thesis using ParseArguments_valid by blast
qed

text \<open>C17. A verbosity that is printed in decimal on the command line is the level that the run
  uses, whatever its sign.\<close>

theorem verbose_round_trip:
  assumes "\<not> startswith file ''-''"
  shows "snd (ParseArguments ((''--verbose='' @ str_of_int level) # file # files) w) =
           Inr (file # files) \<and>
         verbose_level (lint (fst (ParseArguments
           ((''--verbose='' @ str_of_int level) # file # files) w))) = level"
proof -
  have long: "long_has_args ''verbose'' = Some (True, ''verbose'')" by code_simp
  have "find_idx ''='' (''verbose='' @ s) = Some 7" for s by (simp add: startswith_def)
  then have "split_option (''verbose='' @ str_of_int level) = (''verbose'', Some (str_of_int level))"
    by (simp add: split_option_def)
  then have d: "do_longs (''verbose='' @ str_of_int level) rest =
      Some ((''--verbose'', str_of_int level), rest)" for rest
    unfolding do_longs_def by (simp add: long)
  have rest: "getopt (file # files) = Some ([], file # files)" using assms by simp
  have "getopt ((''--verbose='' @ str_of_int level) # file # files) =
      Some ([(''--verbose'', str_of_int level)], file # files)"
    using d [of "file # files"] rest by (simp add: startswith_def)
  moreover have "check_filters (DEFAULT_FILTERS @ filter (\<lambda>f. f \<noteq> [])
      (map (strip_set ascii_space) (split_on '','' []))) = Inr ()"
    by code_simp
  ultimately show ?thesis
    by (simp add: ParseArguments_def handle_option_def int_of_string_str_of_int apply_options_def
        SetFilters_def SetOutputFormat_def SetVerboseLevel_def SetCountingStyle_def Let_def
        bindA_def retA_def)
qed

theorem verbose_round_trip_witness:
  "verbose_level (lint (fst (ParseArguments
      [''--verbose='' @ str_of_int (-7), ''x.h''] init_world))) = -7"
  using verbose_round_trip [of "''x.h''" "-7" "[]" init_world] by (simp add: startswith_def)

section \<open>Carriage returns\<close>

lemma split_lines:
  assumes "ls \<noteq> []" and "\<forall>l \<in> set ls. CHR 0x0A \<notin> set l"
  shows "split_on [CHR 0x0A] (join [CHR 0x0A] ls) = ls"
  using split_on_join [OF assms(2,1)] by simp

lemma strip_carriage_return_simps:
  "CHR 0x0D \<notin> set l \<Longrightarrow> strip_carriage_return l = l"
  "CHR 0x0D \<notin> set l \<Longrightarrow> strip_carriage_return (l @ [CHR 0x0D]) = l"
proof -
  assume l: "CHR 0x0D \<notin> set l"
  then have "\<not> endswith l [CHR 0x0D]" by (auto simp: endswith_iff)
  then show "strip_carriage_return l = l" by (simp add: strip_carriage_return_def)
  have "dropWhile ((=) (CHR 0x0D)) (rev l) = rev l"
    using l by (auto simp: dropWhile_eq_self_iff hd_rev)
  then show "strip_carriage_return (l @ [CHR 0x0D]) = l"
    by (simp add: strip_carriage_return_def rstrip_set_def)
qed

text \<open>The lines that the checks see in a text.\<close>

definition file_lines_of :: "string \<Rightarrow> string list" where
  "file_lines_of text = map strip_carriage_return (split_on [CHR 0x0A] text)"

text \<open>C18. Line ends do not matter to the checks: a text whose lines end in CR LF gives the same
  lines as the text whose lines end in LF.\<close>

theorem line_ends_do_not_matter:
  assumes "\<forall>l \<in> set ls. CHR 0x0A \<notin> set l \<and> CHR 0x0D \<notin> set l"
  shows "file_lines_of (join [CHR 0x0D, CHR 0x0A] ls) = file_lines_of (join [CHR 0x0A] ls)"
proof (cases "ls = []")
  case False
  have crlf: "join [CHR 0x0D, CHR 0x0A] xs =
      join [CHR 0x0A] (map (\<lambda>l. l @ [CHR 0x0D]) (butlast xs) @ [last xs])"
    if "xs \<noteq> []" for xs :: "string list"
    using that
  proof (induction xs)
    case (Cons x xs)
    then show ?case by (cases xs) (auto simp: join_Cons)
  qed simp
  let ?cr = "map (\<lambda>l. l @ [CHR 0x0D]) (butlast ls) @ [last ls]"
  have mem: "CHR 0x0A \<notin> set l \<and> CHR 0x0D \<notin> set l" if "l \<in> set (butlast ls) \<or> l = last ls" for l
    using that assms False in_set_butlastD last_in_set by metis
  have "split_on [CHR 0x0A] (join [CHR 0x0D, CHR 0x0A] ls) = ?cr"
    unfolding crlf [OF False] by (rule split_lines) (use mem in \<open>auto\<close>)
  moreover have "map strip_carriage_return ?cr = butlast ls @ [last ls]"
    using mem by (auto simp: strip_carriage_return_simps intro!: map_idI)
  moreover have "split_on [CHR 0x0A] (join [CHR 0x0A] ls) = ls"
    using split_lines False assms by blast
  moreover have "map strip_carriage_return ls = ls"
    using assms by (auto simp: strip_carriage_return_simps intro!: map_idI)
  ultimately show ?thesis using False by (simp add: file_lines_of_def)
qed (simp add: file_lines_of_def)

theorem line_ends_do_not_matter_witness:
  "file_lines_of (''int x;'' @ [CHR 0x0D, CHR 0x0A]) = [''int x;'', []]"
proof -
  have "file_lines_of (join [CHR 0x0D, CHR 0x0A] [''int x;'', []]) =
      file_lines_of (join [CHR 0x0A] [''int x;'', []])"
    by (rule line_ends_do_not_matter) simp
  moreover have "file_lines_of (join [CHR 0x0A] [''int x;'', []]) = [''int x;'', []]" by code_simp
  ultimately show ?thesis by simp
qed

section \<open>The exit status\<close>

text \<open>The remarks about a file that are not errors.\<close>

definition progress_note :: "string \<Rightarrow> string \<Rightarrow> bool" where
  "progress_note f s \<longleftrightarrow>
     s = ''Skipping input '' @ [CHR 0x27] @ f @ [CHR 0x27] @ '': Can'' @ [CHR 0x27]
           @ ''t open for reading'' @ [CHR 0x0A] \<or>
     s = ''Ignoring '' @ f @ ''; not a .cc or .h file'' @ [CHR 0x0A] \<or>
     s = ''Done processing '' @ f @ [CHR 0x0A]"

text \<open>What a file contributes to standard error: its reports and then its remarks.\<close>

definition chunk_text :: "string \<Rightarrow> string \<times> report list \<times> string list \<Rightarrow> string list" where
  "chunk_text fmt c = (case c of (f, rs, remarks) \<Rightarrow> map (format_error fmt f) rs @ remarks)"

lemma chunk_text_simp [simp]:
  "chunk_text fmt (f, rs, remarks) = map (format_error fmt f) rs @ remarks"
  by (simp add: chunk_text_def)

definition chunk_ok :: "world \<Rightarrow> string \<times> report list \<times> string list \<Rightarrow> bool" where
  "chunk_ok w c \<longleftrightarrow>
     (case c of (f, rs, remarks) \<Rightarrow>
        list_all (\<lambda>r. rcat r \<in> set ERROR_CATEGORIES \<and> may_print w r) rs \<and>
        list_all (progress_note f) remarks)"

lemma write_err_eq [simp]:
  "write_err s w = (w\<lparr>stderr := stderr w @ [s]\<rparr>, Inr ())"
  by (simp add: write_err_def)

lemma world_ok_stderr [simp]: "world_ok (w\<lparr>stderr := e\<rparr>) = world_ok w"
  by (simp add: world_ok_def)

lemma set_same_level: "w\<lparr>lint := fst (SetVerboseLevel (verbose_level (lint w)) (lint w))\<rparr> = w"
  by (simp add: SetVerboseLevel_def)

lemma ProcessFile_notes:
  assumes "snd (ProcessFile os f (verbose_level (lint w)) w) = Inr ()" and "world_ok w"
  shows "\<exists>n w1 remarks. writes f n w w1 \<and>
     fst (ProcessFile os f (verbose_level (lint w)) w) = w1\<lparr>stderr := stderr w1 @ remarks\<rparr> \<and>
     list_all (progress_note f) remarks"
proof (cases "input_text os f")
  case None
  have "writes f 0 w w" by (rule writes_refl) (simp_all add: assms(2))
  moreover have "fst (ProcessFile os f (verbose_level (lint w)) w) =
      w\<lparr>stderr := stderr w @ [''Skipping input '' @ [CHR 0x27] @ f @ [CHR 0x27] @ '': Can''
        @ [CHR 0x27] @ ''t open for reading'' @ [CHR 0x0A]]\<rparr>"
    by (simp add: ProcessFile_def bindA_def set_same_level None)
  ultimately show ?thesis by (force simp: progress_note_def)
next
  case (Some content)
  let ?done = "''Done processing '' @ f @ [CHR 0x0A]"
  have d: "progress_note f ?done" by (simp add: progress_note_def)
  show ?thesis
  proof (cases "not_linted f")
    case True
    let ?i = "''Ignoring '' @ f @ ''; not a .cc or .h file'' @ [CHR 0x0A]"
    have "writes f 0 w w" by (rule writes_refl) (simp_all add: assms(2))
    moreover have "fst (ProcessFile os f (verbose_level (lint w)) w) =
        w\<lparr>stderr := stderr w @ [?i, ?done]\<rparr>"
      using True by (simp add: ProcessFile_def bindA_def set_same_level Some)
    moreover have "progress_note f ?i" by (simp add: progress_note_def)
    ultimately show ?thesis using d by (intro exI [of _ 0] exI [of _ w] exI [of _ "[?i, ?done]"]) simp
  next
    case False
    have run: "ProcessFile os f (verbose_level (lint w)) w =
        bindA (lint_text os f content) (\<lambda>_. write_err ?done) w"
      using False Some by (simp add: ProcessFile_def bindA_def set_same_level
          split: prod.split sum.split)
    have "\<exists>n. writes f n w (fst (lint_text os f content w))"
      unfolding lint_text_def Let_def
      by (rule exI, rule writes_bindA, rule ProcessFileData_writes, rule assms(2))
        (auto intro!: writes_Error writes_retA)
    moreover have "fst (ProcessFile os f (verbose_level (lint w)) w) =
        (fst (lint_text os f content w))
          \<lparr>stderr := stderr (fst (lint_text os f content w)) @ [?done]\<rparr>"
      using assms(1) unfolding run by (auto simp: bindA_def split: prod.splits sum.splits)
    moreover have "list_all (progress_note f) [?done]" using d by simp
    ultimately show ?thesis by blast
  qed
qed

lemma ProcessFiles_chunks:
  assumes "snd (ProcessFiles os fs w) = Inr ()" and "world_ok w"
  shows "\<exists>chunks. map fst chunks = fs \<and> list_all (chunk_ok w) chunks \<and>
     stderr (fst (ProcessFiles os fs w)) =
       stderr w @ concat (map (chunk_text (output_format (lint w))) chunks) \<and>
     error_count (lint (fst (ProcessFiles os fs w))) =
       error_count (lint w) + sum_list (map (\<lambda>(f, rs, remarks). length rs) chunks)"
  using assms
proof (induction fs arbitrary: w)
  case (Cons f fs)
  let ?p = "ProcessFile os f (verbose_level (lint w)) w"
  from Cons.prems(1) [unfolded ProcessFiles.simps] obtain u where
    u: "snd ?p = Inr u" and eq: "ProcessFiles os (f # fs) w = ProcessFiles os fs (fst ?p)"
    by (auto elim!: bindA_InrD)
  from u have "snd ?p = Inr ()" by simp
  from ProcessFile_notes [OF this Cons.prems(2)] obtain n w1 remarks where
    w1: "writes f n w w1" and p: "fst ?p = w1\<lparr>stderr := stderr w1 @ remarks\<rparr>"
    and remarks: "list_all (progress_note f) remarks" by blast
  from w1 obtain rs where rs:
    "stderr w1 = stderr w @ map (format_error (output_format (lint w)) f) rs"
    "error_count (lint w1) = error_count (lint w) + length rs"
    "list_all (\<lambda>r. conforms n r \<and> may_print w r) rs"
    and same: "same_options w w1" and ok: "world_ok w1"
    by (auto simp: writes_def)
  from Cons.IH [of "fst ?p"] Cons.prems(1) eq ok p obtain chunks where
    "map fst chunks = fs" "list_all (chunk_ok (fst ?p)) chunks"
    "stderr (fst (ProcessFiles os fs (fst ?p))) =
       stderr (fst ?p) @ concat (map (chunk_text (output_format (lint (fst ?p)))) chunks)"
    "error_count (lint (fst (ProcessFiles os fs (fst ?p)))) =
       error_count (lint (fst ?p)) + sum_list (map (\<lambda>(f, rs, remarks). length rs) chunks)"
    by auto
  moreover from same p have "chunk_ok (fst ?p) = chunk_ok w"
    "output_format (lint (fst ?p)) = output_format (lint w)"
    by (auto simp: chunk_ok_def may_print_def same_options_def fun_eq_iff)
  moreover have "chunk_ok w (f, rs, remarks)"
    using rs(3) remarks by (auto simp: chunk_ok_def conforms_def list_all_iff)
  ultimately show ?case
    using p rs(1,2) unfolding eq
    by (intro exI [of _ "(f, rs, remarks) # chunks"]) simp
qed (simp add: retA_def)



end
