(* ===== verification/Spec2Isabelle.thy ===== *)
theory Spec2Isabelle
  imports Program
begin

text \<open>
  Verification of cpplint.
\<close>

end
